theory Spec2Isabelle
  imports Main
begin

section \<open>Completions and replies\<close>

text \<open>
  An asynchronous JavaScript call either returns a value or throws. A call is modelled as a
  function from the state before to its completion and the state after: \<open>Inl msg\<close> is an
  exception with \<open>error.message = msg\<close> leaving the call, \<open>Inr v\<close> is a normal return. The
  state changes made before a throw are kept, as they are in the program.

  The managers return objects \<open>{ success: true, ... }\<close> or
  \<open>{ success: false, message }\<close>; these are the two constructors of \<open>reply\<close>.
  Clock readings (\<open>Date.now()\<close>, \<open>new Date()\<close>) are milliseconds as integers; the readings
  taken within one call are identified and passed in as \<open>now\<close>. Money amounts and stock
  counts are integers.
\<close>

type_synonym exn = string
type_synonym time = int

datatype 'a reply = Success 'a | Failure string

definition try_catch ::
  "(exn + 'a) \<times> 's \<Rightarrow> (exn \<Rightarrow> 's \<Rightarrow> (exn + 'a) \<times> 's) \<Rightarrow> (exn + 'a) \<times> 's" where
  "try_catch r handler = (case r of (Inl e, s) \<Rightarrow> handler e s | (Inr v, s) \<Rightarrow> (Inr v, s))"

section \<open>JavaScript values and arrays\<close>

text \<open>
  The record types of the managers below hold the properties that the operations compute
  with. A property that a record type leaves out is read through a function from the
  record to the value of the property, handed to the operation that reads it; such a value
  is \<open>undefined\<close>, \<open>null\<close>, a string, a number, a boolean, an array or another object.
  \<open>truthy\<close> is the test of \<open>if (v)\<close>, \<open>v || w\<close> and \<open>v && w\<close>.
\<close>

datatype jsvalue = Undefined | Null | Text string | Number int | Flag bool | Array | Object

type_synonym 'a props = "'a \<Rightarrow> string \<Rightarrow> jsvalue"

definition truthy :: "jsvalue \<Rightarrow> bool" where
  "truthy v =
     (case v of
        Undefined \<Rightarrow> False
      | Null \<Rightarrow> False
      | Text t \<Rightarrow> t \<noteq> []
      | Number n \<Rightarrow> n \<noteq> 0
      | Flag b \<Rightarrow> b
      | Array \<Rightarrow> True
      | Object \<Rightarrow> True)"

text \<open>
  An optional property of a filter object (\<open>if (filters.status)\<close>): absent, or a string or
  number, which counts when it is truthy.
\<close>

definition given :: "string option \<Rightarrow> bool" where
  "given v = (case v of None \<Rightarrow> False | Some t \<Rightarrow> t \<noteq> [])"

definition given_number :: "int option \<Rightarrow> bool" where
  "given_number v = (case v of None \<Rightarrow> False | Some n \<Rightarrow> n \<noteq> 0)"

text \<open>
  \<open>toString\<close> of an integer, \<open>String.prototype.includes\<close>, and a string method called
  on a value (\<open>v.toLowerCase()\<close>), which throws a TypeError unless the value is a string.
  \<open>toLowerCase\<close> itself is a library function handed to the operations that use it.
\<close>

definition digit :: "nat \<Rightarrow> char" where
  "digit n = ''0123456789'' ! n"

function decimal :: "nat \<Rightarrow> string" where
  "decimal n = (if n < 10 then [digit n] else decimal (n div 10) @ [digit (n mod 10)])"
  by pat_completeness auto
termination by (relation "measure id") auto

declare decimal.simps [simp del]

definition toString :: "int \<Rightarrow> string" where
  "toString i = (if i < 0 then CHR ''-'' # decimal (nat (- i)) else decimal (nat i))"

primrec str_includes :: "string \<Rightarrow> string \<Rightarrow> bool" where
  "str_includes [] searchTerm = (searchTerm = [])"
| "str_includes (c # cs) searchTerm =
     (if take (length searchTerm) (c # cs) = searchTerm then True
      else str_includes cs searchTerm)"

definition lowered :: "(string \<Rightarrow> string) \<Rightarrow> jsvalue \<Rightarrow> exn + string" where
  "lowered toLowerCase v =
     (case v of
        Text t \<Rightarrow> Inr (toLowerCase t)
      | _ \<Rightarrow> Inl ''TypeError: toLowerCase is not a function'')"

text \<open>
  \<open>Array.prototype.filter\<close> with a test that may throw: the first exception ends the
  filter. \<open>newest_first\<close> is \<open>sort\<close> with the comparator
  \<open>new Date(b.createdAt) - new Date(a.createdAt)\<close>, a stable sort; \<open>createdAt\<close> reads the
  instant of a record, which \<open>insert\<close> stamps on every record it stores. An array that
  \<open>readData\<close> has returned is the cached object whenever the cache holds an entry, so
  sorting it in place or pushing onto it changes the cache.
\<close>

fun filter_throwing :: "('a \<Rightarrow> exn + bool) \<Rightarrow> 'a list \<Rightarrow> exn + 'a list" where
  "filter_throwing test [] = Inr []"
| "filter_throwing test (x # xs) =
     (case test x of
        Inl e \<Rightarrow> Inl e
      | Inr keep \<Rightarrow>
          (case filter_throwing test xs of
             Inl e \<Rightarrow> Inl e
           | Inr ys \<Rightarrow> Inr (if keep then x # ys else ys)))"

definition newest_first :: "('a \<Rightarrow> time) \<Rightarrow> 'a list \<Rightarrow> 'a list" where
  "newest_first createdAt items = sort_key (\<lambda>item. - createdAt item) items"

section \<open>The data layer: DatabaseManager\<close>

text \<open>
  The JSON value held by a collection file or by the cache is an array of records, a string
  (which is what an encrypted file holds) or some other JSON value (the \<open>stats\<close> object).
  A file is missing, unreadable as JSON, or holds a JSON value.
\<close>

datatype 'a jdata = JArray "'a list" | JString string | JOther string

datatype 'a jfile = Missing | Corrupt | Content "'a jdata"

text \<open>
  The configuration and the library functions the data layer calls.
  \<open>ENCRYPTION_KEY\<close> and \<open>ENCRYPTION_IV\<close> are the two hex strings of
  \<open>config.SECURITY\<close>, fixed when the configuration module is loaded; every
  SecurityManager reads them from there. The three \<open>aes\<close> functions stand for
  AES-256-CBC as Node's \<open>crypto\<close> provides it, each taking the key and the IV it is
  given: \<open>aes_accepts\<close> tells whether \<open>createCipheriv\<close> and \<open>createDecipheriv\<close>
  accept them (they throw on a wrong length), \<open>aes_encrypt\<close> is \<open>update\<close> followed by
  \<open>final\<close> from utf8 to hex, and \<open>aes_decrypt\<close> the same from hex to utf8, which
  throws on a text that is no cipher text under that key and IV (\<open>None\<close>).
  \<open>stringify\<close> and \<open>parse\<close> stand for \<open>JSON.stringify\<close> and \<open>JSON.parse\<close>
  (\<open>None\<close> is a SyntaxError).
\<close>

record 'a config =
  ENCRYPTION :: bool
  ENCRYPTION_KEY :: string
  ENCRYPTION_IV :: string
  aes_accepts :: "string \<Rightarrow> string \<Rightarrow> bool"
  aes_encrypt :: "string \<Rightarrow> string \<Rightarrow> string \<Rightarrow> string"
  aes_decrypt :: "string \<Rightarrow> string \<Rightarrow> string \<Rightarrow> string option"
  stringify :: "'a jdata \<Rightarrow> string"
  parse :: "string \<Rightarrow> 'a jdata option"

text \<open>
  What \<open>encrypt\<close> and \<open>decrypt\<close> make of the library: both build their cipher from
  the key and the IV of the configuration.
\<close>

definition key_ok :: "'a config \<Rightarrow> bool" where
  "key_ok cfg = aes_accepts cfg (ENCRYPTION_KEY cfg) (ENCRYPTION_IV cfg)"

definition cipher :: "'a config \<Rightarrow> string \<Rightarrow> string" where
  "cipher cfg text = aes_encrypt cfg (ENCRYPTION_KEY cfg) (ENCRYPTION_IV cfg) text"

definition decipher :: "'a config \<Rightarrow> string \<Rightarrow> string option" where
  "decipher cfg encryptedText =
     aes_decrypt cfg (ENCRYPTION_KEY cfg) (ENCRYPTION_IV cfg) encryptedText"

text \<open>
  One collection as one DatabaseManager instance sees it: the file on disk, this instance's
  cache entry for the collection, and the outcomes of the coming \<open>fs.writeJson\<close> calls on
  the file (\<open>False\<close>: the call throws and the file stays as it was; once the list is used
  up the calls succeed).
\<close>

record 'a db =
  disk :: "'a jfile"
  cache :: "'a jdata option"
  writes :: "bool list"

definition databases :: "string list" where
  "databases = [''users'', ''products'', ''orders'', ''payments'', ''deposits'', ''logs'',
     ''stats'', ''sessions'']"

definition getDefaultData :: "string \<Rightarrow> 'a jdata" where
  "getDefaultData dbName = (if dbName = ''stats'' then JOther ''stats'' else JArray [])"

text \<open>SecurityManager.encrypt and decrypt: any failure is rethrown under a fixed message.\<close>

definition encrypt :: "'a config \<Rightarrow> string \<Rightarrow> exn + string" where
  "encrypt cfg text =
     (if key_ok cfg then Inr (cipher cfg text) else Inl ''Encryption failed'')"

definition decrypt :: "'a config \<Rightarrow> string \<Rightarrow> exn + string" where
  "decrypt cfg encryptedText =
     (if key_ok cfg then
        (case decipher cfg encryptedText of
           None \<Rightarrow> Inl ''Decryption failed''
         | Some decrypted \<Rightarrow> Inr decrypted)
      else Inl ''Decryption failed'')"

definition fs_writeJson :: "'a jdata \<Rightarrow> 'a db \<Rightarrow> (exn + unit) \<times> 'a db" where
  "fs_writeJson saveData s =
     (case writes s of
        [] \<Rightarrow> (Inr (), s\<lparr>disk := Content saveData\<rparr>)
      | ok # rest \<Rightarrow>
          if ok then (Inr (), s\<lparr>disk := Content saveData, writes := rest\<rparr>)
          else (Inl ''EIO: write failed'', s\<lparr>writes := rest\<rparr>))"

definition readData_try :: "'a config \<Rightarrow> string \<Rightarrow> 'a db \<Rightarrow> (exn + 'a jdata) \<times> 'a db" where
  "readData_try cfg dbName s =
     (case cache s of
        Some cached \<Rightarrow> (Inr cached, s)
      | None \<Rightarrow>
          if dbName \<notin> set databases then (Inl (''Database '' @ dbName @ '' not found''), s)
          else
            (case disk s of
               Missing \<Rightarrow> (Inr (getDefaultData dbName), s)
             | Corrupt \<Rightarrow> (Inl ''readJson failed'', s)
             | Content raw \<Rightarrow>
                 (case (case raw of
                          JString c \<Rightarrow>
                            if ENCRYPTION cfg then
                              (case decrypt cfg c of
                                 Inl e \<Rightarrow> Inl e
                               | Inr t \<Rightarrow>
                                   (case parse cfg t of
                                      None \<Rightarrow> Inl ''SyntaxError''
                                    | Some d \<Rightarrow> Inr d))
                            else Inr raw
                        | _ \<Rightarrow> Inr raw) of
                    Inl e \<Rightarrow> (Inl e, s)
                  | Inr data \<Rightarrow> (Inr data, s\<lparr>cache := Some data\<rparr>))))"

definition readData :: "'a config \<Rightarrow> string \<Rightarrow> 'a db \<Rightarrow> (exn + 'a jdata) \<times> 'a db" where
  "readData cfg dbName s =
     try_catch (readData_try cfg dbName s) (\<lambda>e s'. (Inr (getDefaultData dbName), s'))"

definition writeData_try ::
  "'a config \<Rightarrow> string \<Rightarrow> 'a jdata \<Rightarrow> 'a db \<Rightarrow> (exn + bool) \<times> 'a db" where
  "writeData_try cfg dbName data s =
     (if dbName \<notin> set databases then (Inl (''Database '' @ dbName @ '' not found''), s)
      else
        (case (if ENCRYPTION cfg then
                 (case encrypt cfg (stringify cfg data) of
                    Inl e \<Rightarrow> Inl e
                  | Inr c \<Rightarrow> Inr (JString c))
               else Inr data) of
           Inl e \<Rightarrow> (Inl e, s)
         | Inr saveData \<Rightarrow>
             (case fs_writeJson saveData s of
                (Inl e, s1) \<Rightarrow> (Inl e, s1)
              | (Inr _, s1) \<Rightarrow> (Inr True, s1\<lparr>cache := Some data\<rparr>))))"

definition writeData :: "'a config \<Rightarrow> string \<Rightarrow> 'a jdata \<Rightarrow> 'a db \<Rightarrow> (exn + bool) \<times> 'a db" where
  "writeData cfg dbName data s =
     try_catch (writeData_try cfg dbName data s) (\<lambda>e s'. (Inr False, s'))"

text \<open>
  \<open>findOne\<close> and \<open>findMany\<close> have no handler of their own. The query objects of the
  managers hold one key, an identifier; a query is modelled as the predicate
  \<open>item[key] === query[key]\<close> on the records. \<open>find\<close> gives \<open>undefined\<close> and the
  non-array branch gives \<open>null\<close>: both are \<open>None\<close>.
\<close>

definition findOne ::
  "'a config \<Rightarrow> string \<Rightarrow> ('a \<Rightarrow> bool) \<Rightarrow> 'a db \<Rightarrow> (exn + 'a option) \<times> 'a db" where
  "findOne cfg dbName query s =
     (case readData cfg dbName s of
        (Inl e, s1) \<Rightarrow> (Inl e, s1)
      | (Inr data, s1) \<Rightarrow>
          (case data of
             JArray items \<Rightarrow> (Inr (find query items), s1)
           | _ \<Rightarrow> (Inr None, s1)))"

definition findMany ::
  "'a config \<Rightarrow> string \<Rightarrow> ('a \<Rightarrow> bool) \<Rightarrow> 'a db \<Rightarrow> (exn + 'a list) \<times> 'a db" where
  "findMany cfg dbName query s =
     (case readData cfg dbName s of
        (Inl e, s1) \<Rightarrow> (Inl e, s1)
      | (Inr data, s1) \<Rightarrow>
          (case data of
             JArray items \<Rightarrow> (Inr (filter query items), s1)
           | _ \<Rightarrow> (Inr [], s1)))"

text \<open>
  \<open>insert\<close> pushes the item onto the array \<open>readData\<close> returned. When the cache holds an
  entry, that array is the cached object itself, so the push changes the cache before
  anything is written. \<open>touch\<close> is the stamping of \<open>id\<close>, \<open>createdAt\<close> and
  \<open>updatedAt\<close> on the item.
\<close>

definition insert_db_try ::
  "'a config \<Rightarrow> string \<Rightarrow> ('a \<Rightarrow> 'a) \<Rightarrow> 'a \<Rightarrow> 'a db \<Rightarrow> (exn + 'a option) \<times> 'a db" where
  "insert_db_try cfg dbName touch item s =
     (case readData cfg dbName s of
        (Inl e, s1) \<Rightarrow> (Inl e, s1)
      | (Inr data, s1) \<Rightarrow>
          (case data of
             JArray items \<Rightarrow>
               (let pushed = JArray (items @ [touch item]);
                    s2 = (case cache s1 of
                            Some _ \<Rightarrow> s1\<lparr>cache := Some pushed\<rparr>
                          | None \<Rightarrow> s1)
                in case writeData cfg dbName pushed s2 of
                     (Inl e, s3) \<Rightarrow> (Inl e, s3)
                   | (Inr _, s3) \<Rightarrow> (Inr (Some (touch item)), s3))
           | _ \<Rightarrow> (Inl (dbName @ '' is not an array''), s1)))"

definition insert_db ::
  "'a config \<Rightarrow> string \<Rightarrow> ('a \<Rightarrow> 'a) \<Rightarrow> 'a \<Rightarrow> 'a db \<Rightarrow> (exn + 'a option) \<times> 'a db" where
  "insert_db cfg dbName touch item s =
     try_catch (insert_db_try cfg dbName touch item s) (\<lambda>e s'. (Inr None, s'))"

text \<open>
  \<open>update\<close> maps the array to a new one; \<open>merge\<close> is
  \<open>{ ...item, ...updates, updatedAt: now }\<close>. The result of \<open>writeData\<close> is not looked at.
\<close>

definition update_db_try ::
  "'a config \<Rightarrow> string \<Rightarrow> ('a \<Rightarrow> bool) \<Rightarrow> ('a \<Rightarrow> 'a) \<Rightarrow> 'a db \<Rightarrow> (exn + bool) \<times> 'a db" where
  "update_db_try cfg dbName query merge s =
     (case readData cfg dbName s of
        (Inl e, s1) \<Rightarrow> (Inl e, s1)
      | (Inr data, s1) \<Rightarrow>
          (case data of
             JArray items \<Rightarrow>
               (let updated = list_ex query items;
                    newData = map (\<lambda>item. if query item then merge item else item) items
                in if updated then
                     (case writeData cfg dbName (JArray newData) s1 of
                        (Inl e, s2) \<Rightarrow> (Inl e, s2)
                      | (Inr _, s2) \<Rightarrow> (Inr updated, s2))
                   else (Inr updated, s1))
           | _ \<Rightarrow> (Inl (dbName @ '' is not an array''), s1)))"

definition update_db ::
  "'a config \<Rightarrow> string \<Rightarrow> ('a \<Rightarrow> bool) \<Rightarrow> ('a \<Rightarrow> 'a) \<Rightarrow> 'a db \<Rightarrow> (exn + bool) \<times> 'a db" where
  "update_db cfg dbName query merge s =
     try_catch (update_db_try cfg dbName query merge s) (\<lambda>e s'. (Inr False, s'))"

definition delete_db_try ::
  "'a config \<Rightarrow> string \<Rightarrow> ('a \<Rightarrow> bool) \<Rightarrow> 'a db \<Rightarrow> (exn + bool) \<times> 'a db" where
  "delete_db_try cfg dbName query s =
     (case readData cfg dbName s of
        (Inl e, s1) \<Rightarrow> (Inl e, s1)
      | (Inr data, s1) \<Rightarrow>
          (case data of
             JArray items \<Rightarrow>
               (let newData = filter (\<lambda>item. \<not> query item) items;
                    deleted = (length items \<noteq> length newData)
                in if deleted then
                     (case writeData cfg dbName (JArray newData) s1 of
                        (Inl e, s2) \<Rightarrow> (Inl e, s2)
                      | (Inr _, s2) \<Rightarrow> (Inr deleted, s2))
                   else (Inr deleted, s1))
           | _ \<Rightarrow> (Inl (dbName @ '' is not an array''), s1)))"

definition delete_db ::
  "'a config \<Rightarrow> string \<Rightarrow> ('a \<Rightarrow> bool) \<Rightarrow> 'a db \<Rightarrow> (exn + bool) \<times> 'a db" where
  "delete_db cfg dbName query s =
     try_catch (delete_db_try cfg dbName query s) (\<lambda>e s'. (Inr False, s'))"

definition clearCache :: "'a db \<Rightarrow> 'a db" where
  "clearCache s = s\<lparr>cache := None\<rparr>"

text \<open>
  \<open>initDatabase\<close>, for the one collection file of the state: \<open>dirs_ok\<close> tells whether the
  \<open>fs.ensureDir\<close> calls succeed. Its handler logs and throws the error again.
\<close>

definition initDatabase_try ::
  "'a config \<Rightarrow> string \<Rightarrow> bool \<Rightarrow> 'a db \<Rightarrow> (exn + unit) \<times> 'a db" where
  "initDatabase_try cfg name dirs_ok s =
     (if \<not> dirs_ok then (Inl ''EACCES: ensureDir failed'', s)
      else if disk s = Missing then
        (case writeData cfg name (getDefaultData name) s of
           (Inl e, s1) \<Rightarrow> (Inl e, s1)
         | (Inr _, s1) \<Rightarrow> (Inr (), s1))
      else (Inr (), s))"

definition initDatabase :: "'a config \<Rightarrow> string \<Rightarrow> bool \<Rightarrow> 'a db \<Rightarrow> (exn + unit) \<times> 'a db" where
  "initDatabase cfg name dirs_ok s =
     try_catch (initDatabase_try cfg name dirs_ok s) (\<lambda>e s'. (Inl e, s'))"

text \<open>
  The array \<open>readData\<close> returned, changed in place to \<open>items\<close> (by \<open>sort\<close>): the cache
  entry changes with it when there is one.
\<close>

definition in_place :: "'a list \<Rightarrow> 'a db \<Rightarrow> 'a db" where
  "in_place items s =
     (case cache s of Some _ \<Rightarrow> s\<lparr>cache := Some (JArray items)\<rparr> | None \<Rightarrow> s)"

text \<open>
  \<open>cleanOldBackups\<close> works on the backup directory only, which is not modelled:
  \<open>dir_ok\<close> tells whether \<open>readdir\<close>, \<open>statSync\<close> and \<open>remove\<close> succeed. It returns
  nothing, also from its handler.
\<close>

definition cleanOldBackups_try :: "bool \<Rightarrow> 's \<Rightarrow> (exn + unit) \<times> 's" where
  "cleanOldBackups_try dir_ok s =
     (if dir_ok then (Inr (), s) else (Inl ''ENOENT: no such file or directory'', s))"

definition cleanOldBackups :: "bool \<Rightarrow> 's \<Rightarrow> (exn + unit) \<times> 's" where
  "cleanOldBackups dir_ok s = try_catch (cleanOldBackups_try dir_ok s) (\<lambda>e s'. (Inr (), s'))"

text \<open>
  The part of \<open>backup\<close> that concerns one collection: the collection is read and written
  to a backup file; \<open>copied\<close> tells whether that \<open>fs.writeJson\<close> succeeds.
\<close>

definition backup_collection ::
  "'a config \<Rightarrow> string \<Rightarrow> bool \<Rightarrow> 'a db \<Rightarrow> (exn + unit) \<times> 'a db" where
  "backup_collection cfg name copied s =
     (case readData cfg name s of
        (Inl e, s1) \<Rightarrow> (Inl e, s1)
      | (Inr data, s1) \<Rightarrow>
          if copied then (Inr (), s1) else (Inl ''EIO: write failed'', s1))"

text \<open>
  \<open>generateId\<close>: \<open>base36\<close> is \<open>toString(36)\<close> of the clock reading and \<open>random\<close> the
  digits drawn from \<open>Math.random()\<close>. \<open>startAutoBackup\<close> sets a timer whose callback
  awaits \<open>backup\<close>; the call itself does nothing else.
\<close>

definition generateId :: "(time \<Rightarrow> string) \<Rightarrow> time \<Rightarrow> string \<Rightarrow> string" where
  "generateId base36 now random = base36 now @ random"

definition startAutoBackup :: "bool \<Rightarrow> 's \<Rightarrow> (exn + unit) \<times> 's" where
  "startAutoBackup AUTO_BACKUP s = (Inr (), s)"

section \<open>OrderManager\<close>

text \<open>
  An order record, with the fields the operations below read or write (the product name,
  quantity, notes and metadata are left out). \<open>o_expiresAt\<close> is the instant the ISO string
  denotes; \<open>None\<close> stands for a missing or empty value and for a string that is no date,
  for which the sweep does nothing.
\<close>

record order =
  orderId :: string
  o_userId :: int
  o_productId :: string
  o_amount :: int
  o_status :: string
  paymentStatus :: string
  deliveryStatus :: string
  o_expiresAt :: "time option"
  o_updatedAt :: time
  o_approvedBy :: "int option"
  o_approvedAt :: "time option"
  o_rejectedBy :: "int option"
  o_rejectionReason :: "string option"
  o_rejectedAt :: "time option"
  completedAt :: "time option"
  cancellationReason :: "string option"
  o_cancelledAt :: "time option"

text \<open>\<open>newId\<close> is the identifier \<open>generateOrderId\<close> draws.\<close>

definition createOrder_try ::
  "order config \<Rightarrow> string \<Rightarrow> int \<Rightarrow> string \<Rightarrow> int \<Rightarrow> time \<Rightarrow> order db \<Rightarrow>
     (exn + order reply) \<times> order db" where
  "createOrder_try cfg newId userId productId amount now s =
     (let order = \<lparr>orderId = newId, o_userId = userId, o_productId = productId,
                    o_amount = amount, o_status = ''pending'', paymentStatus = ''unpaid'',
                    deliveryStatus = ''pending'', o_expiresAt = Some (now + 3600000),
                    o_updatedAt = now, o_approvedBy = None, o_approvedAt = None,
                    o_rejectedBy = None, o_rejectionReason = None, o_rejectedAt = None,
                    completedAt = None, cancellationReason = None, o_cancelledAt = None\<rparr>
      in case insert_db cfg ''orders'' (\<lambda>item. item\<lparr>o_updatedAt := now\<rparr>) order s of
           (Inl e, s1) \<Rightarrow> (Inl e, s1)
         | (Inr _, s1) \<Rightarrow> (Inr (Success order), s1))"

definition createOrder ::
  "order config \<Rightarrow> string \<Rightarrow> int \<Rightarrow> string \<Rightarrow> int \<Rightarrow> time \<Rightarrow> order db \<Rightarrow>
     (exn + order reply) \<times> order db" where
  "createOrder cfg newId userId productId amount now s =
     try_catch (createOrder_try cfg newId userId productId amount now s)
       (\<lambda>e s'. (Inr (Failure e), s'))"

text \<open>\<open>updates\<close> is the spread of the updates object over a record.\<close>

definition updateOrder_try ::
  "order config \<Rightarrow> string \<Rightarrow> (order \<Rightarrow> order) \<Rightarrow> time \<Rightarrow> order db \<Rightarrow> (exn + bool) \<times> order db" where
  "updateOrder_try cfg oid updates now s =
     (case update_db cfg ''orders'' (\<lambda>item. orderId item = oid)
             (\<lambda>item. (updates item)\<lparr>o_updatedAt := now\<rparr>) s of
        (Inl e, s1) \<Rightarrow> (Inl e, s1)
      | (Inr success, s1) \<Rightarrow> (Inr success, s1))"

definition updateOrder ::
  "order config \<Rightarrow> string \<Rightarrow> (order \<Rightarrow> order) \<Rightarrow> time \<Rightarrow> order db \<Rightarrow> (exn + bool) \<times> order db" where
  "updateOrder cfg oid updates now s =
     try_catch (updateOrder_try cfg oid updates now s) (\<lambda>e s'. (Inr False, s'))"

definition getOrder :: "order config \<Rightarrow> string \<Rightarrow> order db \<Rightarrow> (exn + order option) \<times> order db" where
  "getOrder cfg oid s =
     try_catch (findOne cfg ''orders'' (\<lambda>item. orderId item = oid) s) (\<lambda>e s'. (Inr None, s'))"

definition approveOrder_try ::
  "order config \<Rightarrow> string \<Rightarrow> int \<Rightarrow> time \<Rightarrow> order db \<Rightarrow> (exn + order reply) \<times> order db" where
  "approveOrder_try cfg oid approvedBy now s =
     (case getOrder cfg oid s of
        (Inl e, s1) \<Rightarrow> (Inl e, s1)
      | (Inr None, s1) \<Rightarrow> (Inl ''Order not found'', s1)
      | (Inr (Some order), s1) \<Rightarrow>
          if o_status order \<noteq> ''pending'' then (Inl ''Order cannot be approved'', s1)
          else
            (case updateOrder cfg oid
                    (\<lambda>item. item\<lparr>o_status := ''processing'', paymentStatus := ''paid'',
                                  o_approvedBy := Some approvedBy, o_approvedAt := Some now\<rparr>)
                    now s1 of
               (Inl e, s2) \<Rightarrow> (Inl e, s2)
             | (Inr _, s2) \<Rightarrow> (Inr (Success order), s2)))"

definition approveOrder ::
  "order config \<Rightarrow> string \<Rightarrow> int \<Rightarrow> time \<Rightarrow> order db \<Rightarrow> (exn + order reply) \<times> order db" where
  "approveOrder cfg oid approvedBy now s =
     try_catch (approveOrder_try cfg oid approvedBy now s) (\<lambda>e s'. (Inr (Failure e), s'))"

definition rejectOrder_try ::
  "order config \<Rightarrow> string \<Rightarrow> string \<Rightarrow> int \<Rightarrow> time \<Rightarrow> order db \<Rightarrow>
     (exn + order reply) \<times> order db" where
  "rejectOrder_try cfg oid reason rejectedBy now s =
     (case getOrder cfg oid s of
        (Inl e, s1) \<Rightarrow> (Inl e, s1)
      | (Inr None, s1) \<Rightarrow> (Inl ''Order not found'', s1)
      | (Inr (Some order), s1) \<Rightarrow>
          (case updateOrder cfg oid
                  (\<lambda>item. item\<lparr>o_status := ''cancelled'', paymentStatus := ''refunded'',
                                o_rejectedBy := Some rejectedBy,
                                o_rejectionReason := Some reason, o_rejectedAt := Some now\<rparr>)
                  now s1 of
             (Inl e, s2) \<Rightarrow> (Inl e, s2)
           | (Inr _, s2) \<Rightarrow> (Inr (Success order), s2)))"

definition rejectOrder ::
  "order config \<Rightarrow> string \<Rightarrow> string \<Rightarrow> int \<Rightarrow> time \<Rightarrow> order db \<Rightarrow>
     (exn + order reply) \<times> order db" where
  "rejectOrder cfg oid reason rejectedBy now s =
     try_catch (rejectOrder_try cfg oid reason rejectedBy now s)
       (\<lambda>e s'. (Inr (Failure e), s'))"

definition completeOrder_try ::
  "order config \<Rightarrow> string \<Rightarrow> time \<Rightarrow> order db \<Rightarrow> (exn + order reply) \<times> order db" where
  "completeOrder_try cfg oid now s =
     (case getOrder cfg oid s of
        (Inl e, s1) \<Rightarrow> (Inl e, s1)
      | (Inr None, s1) \<Rightarrow> (Inl ''Order not found'', s1)
      | (Inr (Some order), s1) \<Rightarrow>
          (case updateOrder cfg oid
                  (\<lambda>item. item\<lparr>o_status := ''completed'', deliveryStatus := ''delivered'',
                                completedAt := Some now\<rparr>)
                  now s1 of
             (Inl e, s2) \<Rightarrow> (Inl e, s2)
           | (Inr _, s2) \<Rightarrow> (Inr (Success order), s2)))"

definition completeOrder ::
  "order config \<Rightarrow> string \<Rightarrow> time \<Rightarrow> order db \<Rightarrow> (exn + order reply) \<times> order db" where
  "completeOrder cfg oid now s =
     try_catch (completeOrder_try cfg oid now s) (\<lambda>e s'. (Inr (Failure e), s'))"

definition cancelOrder_try ::
  "order config \<Rightarrow> string \<Rightarrow> string \<Rightarrow> time \<Rightarrow> order db \<Rightarrow> (exn + order reply) \<times> order db" where
  "cancelOrder_try cfg oid reason now s =
     (case getOrder cfg oid s of
        (Inl e, s1) \<Rightarrow> (Inl e, s1)
      | (Inr None, s1) \<Rightarrow> (Inl ''Order not found'', s1)
      | (Inr (Some order), s1) \<Rightarrow>
          if o_status order \<notin> set [''pending'', ''processing'']
          then (Inl ''Order cannot be cancelled'', s1)
          else
            (case updateOrder cfg oid
                    (\<lambda>item. item\<lparr>o_status := ''cancelled'', cancellationReason := Some reason,
                                  o_cancelledAt := Some now\<rparr>)
                    now s1 of
               (Inl e, s2) \<Rightarrow> (Inl e, s2)
             | (Inr _, s2) \<Rightarrow> (Inr (Success order), s2)))"

definition cancelOrder ::
  "order config \<Rightarrow> string \<Rightarrow> string \<Rightarrow> time \<Rightarrow> order db \<Rightarrow> (exn + order reply) \<times> order db" where
  "cancelOrder cfg oid reason now s =
     try_catch (cancelOrder_try cfg oid reason now s) (\<lambda>e s'. (Inr (Failure e), s'))"

text \<open>
  The sweep runs over the array read at its start, one \<open>cancelOrder\<close> call for each pending
  order past its expiry. A \<open>for ... of\<close> over a string visits its characters, none of which
  has a status; over any other non-array value it throws a TypeError.
\<close>

fun cleanupExpiredOrders_loop ::
  "order config \<Rightarrow> time \<Rightarrow> order list \<Rightarrow> nat \<Rightarrow> order db \<Rightarrow> (exn + nat) \<times> order db" where
  "cleanupExpiredOrders_loop cfg now [] cleanedCount s = (Inr cleanedCount, s)"
| "cleanupExpiredOrders_loop cfg now (order # rest) cleanedCount s =
     (if o_status order = ''pending'' then
        (case o_expiresAt order of
           None \<Rightarrow> cleanupExpiredOrders_loop cfg now rest cleanedCount s
         | Some expiryTime \<Rightarrow>
             if now > expiryTime then
               (case cancelOrder cfg (orderId order) ''Order expired'' now s of
                  (Inl e, s1) \<Rightarrow> (Inl e, s1)
                | (Inr _, s1) \<Rightarrow> cleanupExpiredOrders_loop cfg now rest (cleanedCount + 1) s1)
             else cleanupExpiredOrders_loop cfg now rest cleanedCount s)
      else cleanupExpiredOrders_loop cfg now rest cleanedCount s)"

definition cleanupExpiredOrders_try ::
  "order config \<Rightarrow> time \<Rightarrow> order db \<Rightarrow> (exn + nat) \<times> order db" where
  "cleanupExpiredOrders_try cfg now s =
     (case readData cfg ''orders'' s of
        (Inl e, s1) \<Rightarrow> (Inl e, s1)
      | (Inr data, s1) \<Rightarrow>
          (case data of
             JArray orders \<Rightarrow> cleanupExpiredOrders_loop cfg now orders 0 s1
           | JString _ \<Rightarrow> (Inr 0, s1)
           | JOther _ \<Rightarrow> (Inl ''TypeError: orders is not iterable'', s1)))"

definition cleanupExpiredOrders :: "order config \<Rightarrow> time \<Rightarrow> order db \<Rightarrow> (exn + nat) \<times> order db" where
  "cleanupExpiredOrders cfg now s =
     try_catch (cleanupExpiredOrders_try cfg now s) (\<lambda>e s'. (Inr 0, s'))"

text \<open>
  The filters of \<open>getUserOrders\<close> and \<open>getAllOrders\<close>. Each filter that is given
  makes a new array; when none is given, \<open>getAllOrders\<close> sorts the array that
  \<open>readData\<close> returned. A string or an object in place of the array has no \<open>filter\<close>
  and no \<open>sort\<close>.
\<close>

record order_filters =
  of_status :: "string option"
  of_paymentStatus :: "string option"
  of_userId :: "int option"
  of_productId :: "string option"

definition no_order_filters :: order_filters where
  "no_order_filters =
     \<lparr>of_status = None, of_paymentStatus = None, of_userId = None, of_productId = None\<rparr>"

definition getUserOrders_try ::
  "order config \<Rightarrow> (order \<Rightarrow> time) \<Rightarrow> int \<Rightarrow> order_filters \<Rightarrow> order db \<Rightarrow>
     (exn + order list) \<times> order db" where
  "getUserOrders_try cfg createdAt userId filters s =
     (case findMany cfg ''orders'' (\<lambda>item. o_userId item = userId) s of
        (Inl e, s1) \<Rightarrow> (Inl e, s1)
      | (Inr orders, s1) \<Rightarrow>
          (let orders1 = (if given (of_status filters)
                          then filter (\<lambda>item. Some (o_status item) = of_status filters) orders
                          else orders);
               orders2 = (if given (of_paymentStatus filters)
                          then filter (\<lambda>item. Some (paymentStatus item) = of_paymentStatus filters)
                                 orders1
                          else orders1)
           in (Inr (newest_first createdAt orders2), s1)))"

definition getUserOrders ::
  "order config \<Rightarrow> (order \<Rightarrow> time) \<Rightarrow> int \<Rightarrow> order_filters \<Rightarrow> order db \<Rightarrow>
     (exn + order list) \<times> order db" where
  "getUserOrders cfg createdAt userId filters s =
     try_catch (getUserOrders_try cfg createdAt userId filters s) (\<lambda>e s'. (Inr [], s'))"

definition getAllOrders_try ::
  "order config \<Rightarrow> (order \<Rightarrow> time) \<Rightarrow> order_filters \<Rightarrow> order db \<Rightarrow>
     (exn + order list) \<times> order db" where
  "getAllOrders_try cfg createdAt filters s =
     (case readData cfg ''orders'' s of
        (Inl e, s1) \<Rightarrow> (Inl e, s1)
      | (Inr data, s1) \<Rightarrow>
          (let filtering = (given (of_status filters) \<or> given (of_paymentStatus filters) \<or>
                            given_number (of_userId filters) \<or> given (of_productId filters))
           in case data of
                JArray orders \<Rightarrow>
                  (let orders1 = (if given (of_status filters)
                                  then filter (\<lambda>item. Some (o_status item) = of_status filters) orders
                                  else orders);
                       orders2 = (if given (of_paymentStatus filters)
                                  then filter (\<lambda>item. Some (paymentStatus item) =
                                                   of_paymentStatus filters) orders1
                                  else orders1);
                       orders3 = (if given_number (of_userId filters)
                                  then filter (\<lambda>item. Some (o_userId item) = of_userId filters) orders2
                                  else orders2);
                       orders4 = (if given (of_productId filters)
                                  then filter (\<lambda>item. Some (o_productId item) = of_productId filters)
                                         orders3
                                  else orders3);
                       sorted = newest_first createdAt orders4
                   in if filtering then (Inr sorted, s1) else (Inr sorted, in_place sorted s1))
              | _ \<Rightarrow>
                  if filtering then (Inl ''TypeError: orders.filter is not a function'', s1)
                  else (Inl ''TypeError: orders.sort is not a function'', s1)))"

definition getAllOrders ::
  "order config \<Rightarrow> (order \<Rightarrow> time) \<Rightarrow> order_filters \<Rightarrow> order db \<Rightarrow>
     (exn + order list) \<times> order db" where
  "getAllOrders cfg createdAt filters s =
     try_catch (getAllOrders_try cfg createdAt filters s) (\<lambda>e s'. (Inr [], s'))"

text \<open>
  \<open>getOrderStats\<close>. \<open>Math.round\<close> of a quotient of integers rounds to the nearest
  integer, a half upwards.
\<close>

record order_stats =
  os_total :: nat
  os_pending :: nat
  os_processing :: nat
  os_completed :: nat
  os_cancelled :: nat
  os_totalRevenue :: int
  averageOrderValue :: int

definition rounded_quotient :: "int \<Rightarrow> nat \<Rightarrow> int" where
  "rounded_quotient amount n = (2 * amount + int n) div (2 * int n)"

definition getOrderStats_try ::
  "order config \<Rightarrow> (order \<Rightarrow> time) \<Rightarrow> order_filters \<Rightarrow> order db \<Rightarrow>
     (exn + order_stats option) \<times> order db" where
  "getOrderStats_try cfg createdAt filters s =
     (case getAllOrders cfg createdAt filters s of
        (Inl e, s1) \<Rightarrow> (Inl e, s1)
      | (Inr orders, s1) \<Rightarrow>
          (let completed = filter (\<lambda>item. o_status item = ''completed'') orders;
               revenue = sum_list (map o_amount completed)
           in (Inr (Some
                 \<lparr>os_total = length orders,
                  os_pending = length (filter (\<lambda>item. o_status item = ''pending'') orders),
                  os_processing = length (filter (\<lambda>item. o_status item = ''processing'') orders),
                  os_completed = length completed,
                  os_cancelled = length (filter (\<lambda>item. o_status item = ''cancelled'') orders),
                  os_totalRevenue = revenue,
                  averageOrderValue =
                    (if length completed > 0 then rounded_quotient revenue (length completed)
                     else 0)\<rparr>), s1)))"

definition getOrderStats ::
  "order config \<Rightarrow> (order \<Rightarrow> time) \<Rightarrow> order_filters \<Rightarrow> order db \<Rightarrow>
     (exn + order_stats option) \<times> order db" where
  "getOrderStats cfg createdAt filters s =
     try_catch (getOrderStats_try cfg createdAt filters s) (\<lambda>e s'. (Inr None, s'))"

text \<open>
  \<open>addOrderNote\<close> appends to \<open>notes\<close>, a property the record leaves out, on the order
  found and hands the new notes to \<open>updateOrder\<close>, which stamps \<open>updatedAt\<close>.
\<close>

definition addOrderNote_try ::
  "order config \<Rightarrow> string \<Rightarrow> string \<Rightarrow> time \<Rightarrow> order db \<Rightarrow> (exn + bool) \<times> order db" where
  "addOrderNote_try cfg oid note now s =
     (case getOrder cfg oid s of
        (Inl e, s1) \<Rightarrow> (Inl e, s1)
      | (Inr None, s1) \<Rightarrow> (Inl ''Order not found'', s1)
      | (Inr (Some order), s1) \<Rightarrow>
          (case updateOrder cfg oid (\<lambda>item. item) now s1 of
             (Inl e, s2) \<Rightarrow> (Inl e, s2)
           | (Inr _, s2) \<Rightarrow> (Inr True, s2)))"

definition addOrderNote ::
  "order config \<Rightarrow> string \<Rightarrow> string \<Rightarrow> time \<Rightarrow> order db \<Rightarrow> (exn + bool) \<times> order db" where
  "addOrderNote cfg oid note now s =
     try_catch (addOrderNote_try cfg oid note now s) (\<lambda>e s'. (Inr False, s'))"

text \<open>
  \<open>searchOrders\<close>: the test on an order looks at \<open>productName\<close>, which the record leaves
  out, only when the identifier does not match; lowering it throws unless it is a string.
\<close>

definition searchOrders_try ::
  "order config \<Rightarrow> (order \<Rightarrow> time) \<Rightarrow> order props \<Rightarrow> (string \<Rightarrow> string) \<Rightarrow> string \<Rightarrow>
     order db \<Rightarrow> (exn + order list) \<times> order db" where
  "searchOrders_try cfg createdAt prop toLowerCase query s =
     (case getAllOrders cfg createdAt no_order_filters s of
        (Inl e, s1) \<Rightarrow> (Inl e, s1)
      | (Inr orders, s1) \<Rightarrow>
          (let searchTerm = toLowerCase query
           in case filter_throwing
                     (\<lambda>order.
                        if str_includes (toLowerCase (orderId order)) searchTerm then Inr True
                        else
                          (case lowered toLowerCase (prop order ''productName'') of
                             Inl e \<Rightarrow> Inl e
                           | Inr name \<Rightarrow>
                               if str_includes name searchTerm then Inr True
                               else Inr (str_includes (toString (o_userId order)) searchTerm)))
                     orders of
                Inl e \<Rightarrow> (Inl e, s1)
              | Inr found \<Rightarrow> (Inr found, s1)))"

definition searchOrders ::
  "order config \<Rightarrow> (order \<Rightarrow> time) \<Rightarrow> order props \<Rightarrow> (string \<Rightarrow> string) \<Rightarrow> string \<Rightarrow>
     order db \<Rightarrow> (exn + order list) \<times> order db" where
  "searchOrders cfg createdAt prop toLowerCase query s =
     try_catch (searchOrders_try cfg createdAt prop toLowerCase query s)
       (\<lambda>e s'. (Inr [], s'))"

text \<open>
  The receipt of \<open>getOrderReceipt\<close>, with the properties the order record holds (the
  date, product name, quantity and payment method are left out).
\<close>

record receipt =
  r_orderId :: string
  r_amount :: int
  r_status :: string
  r_paymentStatus :: string

definition getOrderReceipt_try ::
  "order config \<Rightarrow> string \<Rightarrow> order db \<Rightarrow> (exn + receipt option) \<times> order db" where
  "getOrderReceipt_try cfg oid s =
     (case getOrder cfg oid s of
        (Inl e, s1) \<Rightarrow> (Inl e, s1)
      | (Inr None, s1) \<Rightarrow> (Inl ''Order not found'', s1)
      | (Inr (Some order), s1) \<Rightarrow>
          (Inr (Some \<lparr>r_orderId = orderId order, r_amount = o_amount order,
                       r_status = o_status order, r_paymentStatus = paymentStatus order\<rparr>), s1))"

definition getOrderReceipt ::
  "order config \<Rightarrow> string \<Rightarrow> order db \<Rightarrow> (exn + receipt option) \<times> order db" where
  "getOrderReceipt cfg oid s =
     try_catch (getOrderReceipt_try cfg oid s) (\<lambda>e s'. (Inr None, s'))"

section \<open>UserManager\<close>

text \<open>
  A user record with the fields used below. \<open>totalOrders_nested\<close> is
  \<open>user.statistics.totalOrders\<close> and \<open>totalOrders_key\<close> is the top-level property named
  \<open>'statistics.totalOrders'\<close> that \<open>incrementOrderCount\<close> writes.
\<close>

record user =
  u_userId :: int
  balance :: int
  u_status :: string
  lastActivity :: time
  u_updatedAt :: time
  totalOrders_nested :: "int option"
  totalOrders_key :: "int option"

definition getUser :: "user config \<Rightarrow> int \<Rightarrow> user db \<Rightarrow> (exn + user option) \<times> user db" where
  "getUser cfg userId s =
     try_catch (findOne cfg ''users'' (\<lambda>item. u_userId item = userId) s)
       (\<lambda>e s'. (Inr None, s'))"

definition updateUser_try ::
  "user config \<Rightarrow> int \<Rightarrow> (user \<Rightarrow> user) \<Rightarrow> time \<Rightarrow> user db \<Rightarrow> (exn + bool) \<times> user db" where
  "updateUser_try cfg userId updates now s =
     (case update_db cfg ''users'' (\<lambda>item. u_userId item = userId)
             (\<lambda>item. (updates item)\<lparr>lastActivity := now, u_updatedAt := now\<rparr>) s of
        (Inl e, s1) \<Rightarrow> (Inl e, s1)
      | (Inr success, s1) \<Rightarrow> (Inr success, s1))"

definition updateUser ::
  "user config \<Rightarrow> int \<Rightarrow> (user \<Rightarrow> user) \<Rightarrow> time \<Rightarrow> user db \<Rightarrow> (exn + bool) \<times> user db" where
  "updateUser cfg userId updates now s =
     try_catch (updateUser_try cfg userId updates now s) (\<lambda>e s'. (Inr False, s'))"

text \<open>The reply of \<open>updateBalance\<close> carries \<open>newBalance\<close>.\<close>

definition updateBalance_try ::
  "user config \<Rightarrow> int \<Rightarrow> int \<Rightarrow> string \<Rightarrow> time \<Rightarrow> user db \<Rightarrow> (exn + int reply) \<times> user db" where
  "updateBalance_try cfg userId amount type now s =
     (case getUser cfg userId s of
        (Inl e, s1) \<Rightarrow> (Inl e, s1)
      | (Inr None, s1) \<Rightarrow> (Inl ''User not found'', s1)
      | (Inr (Some user), s1) \<Rightarrow>
          (case (if type = ''add'' then Inr (balance user + amount)
                 else if type = ''subtract'' then
                   (if balance user < amount then Inl ''Insufficient balance''
                    else Inr (balance user - amount))
                 else if type = ''set'' then Inr amount
                 else Inr (balance user)) of
             Inl e \<Rightarrow> (Inl e, s1)
           | Inr newBalance \<Rightarrow>
               (case updateUser cfg userId (\<lambda>item. item\<lparr>balance := newBalance\<rparr>) now s1 of
                  (Inl e, s2) \<Rightarrow> (Inl e, s2)
                | (Inr _, s2) \<Rightarrow> (Inr (Success newBalance), s2))))"

definition updateBalance ::
  "user config \<Rightarrow> int \<Rightarrow> int \<Rightarrow> string \<Rightarrow> time \<Rightarrow> user db \<Rightarrow> (exn + int reply) \<times> user db" where
  "updateBalance cfg userId amount type now s =
     try_catch (updateBalance_try cfg userId amount type now s) (\<lambda>e s'. (Inr (Failure e), s'))"

definition incrementOrderCount_try ::
  "user config \<Rightarrow> int \<Rightarrow> time \<Rightarrow> user db \<Rightarrow> (exn + bool) \<times> user db" where
  "incrementOrderCount_try cfg userId now s =
     (case getUser cfg userId s of
        (Inl e, s1) \<Rightarrow> (Inl e, s1)
      | (Inr None, s1) \<Rightarrow> (Inr False, s1)
      | (Inr (Some user), s1) \<Rightarrow>
          (case updateUser cfg userId
                  (\<lambda>item. item\<lparr>totalOrders_key :=
                      Some ((case totalOrders_nested user of None \<Rightarrow> 0 | Some n \<Rightarrow> n) + 1)\<rparr>)
                  now s1 of
             (Inl e, s2) \<Rightarrow> (Inl e, s2)
           | (Inr _, s2) \<Rightarrow> (Inr True, s2)))"

definition incrementOrderCount ::
  "user config \<Rightarrow> int \<Rightarrow> time \<Rightarrow> user db \<Rightarrow> (exn + bool) \<times> user db" where
  "incrementOrderCount cfg userId now s =
     try_catch (incrementOrderCount_try cfg userId now s) (\<lambda>e s'. (Inr False, s'))"

section \<open>ProductManager\<close>

text \<open>
  A product record. \<open>stock\<close> and \<open>totalSales\<close> are optional because the code reads them
  as \<open>product.stock || 0\<close>: a missing value counts as 0.
\<close>

record product =
  p_productId :: string
  price :: int
  stock :: "int option"
  totalSales :: "int option"
  p_status :: string
  p_updatedAt :: time

definition or_zero :: "int option \<Rightarrow> int" where
  "or_zero v = (case v of None \<Rightarrow> 0 | Some n \<Rightarrow> n)"

definition getProduct ::
  "product config \<Rightarrow> string \<Rightarrow> product db \<Rightarrow> (exn + product option) \<times> product db" where
  "getProduct cfg productId s =
     try_catch (findOne cfg ''products'' (\<lambda>item. p_productId item = productId) s)
       (\<lambda>e s'. (Inr None, s'))"

text \<open>
  The sanitising of \<open>updates.name\<close> and \<open>updates.description\<close> in \<open>updateProduct\<close>
  concerns fields that are not modelled.
\<close>

definition updateProduct_try ::
  "product config \<Rightarrow> string \<Rightarrow> (product \<Rightarrow> product) \<Rightarrow> time \<Rightarrow> product db \<Rightarrow>
     (exn + bool) \<times> product db" where
  "updateProduct_try cfg productId updates now s =
     (case update_db cfg ''products'' (\<lambda>item. p_productId item = productId)
             (\<lambda>item. (updates item)\<lparr>p_updatedAt := now\<rparr>) s of
        (Inl e, s1) \<Rightarrow> (Inl e, s1)
      | (Inr success, s1) \<Rightarrow> (Inr success, s1))"

definition updateProduct ::
  "product config \<Rightarrow> string \<Rightarrow> (product \<Rightarrow> product) \<Rightarrow> time \<Rightarrow> product db \<Rightarrow>
     (exn + bool) \<times> product db" where
  "updateProduct cfg productId updates now s =
     try_catch (updateProduct_try cfg productId updates now s) (\<lambda>e s'. (Inr False, s'))"

definition incrementSalesCount_try ::
  "product config \<Rightarrow> string \<Rightarrow> time \<Rightarrow> product db \<Rightarrow> (exn + bool) \<times> product db" where
  "incrementSalesCount_try cfg productId now s =
     (case getProduct cfg productId s of
        (Inl e, s1) \<Rightarrow> (Inl e, s1)
      | (Inr None, s1) \<Rightarrow> (Inr False, s1)
      | (Inr (Some product), s1) \<Rightarrow>
          (let newStock = max 0 (or_zero (stock product) - 1)
           in case updateProduct cfg productId
                     (\<lambda>item. item\<lparr>totalSales := Some (or_zero (totalSales product) + 1),
                                   stock := Some newStock\<rparr>)
                     now s1 of
                (Inl e, s2) \<Rightarrow> (Inl e, s2)
              | (Inr _, s2) \<Rightarrow> (Inr True, s2)))"

definition incrementSalesCount ::
  "product config \<Rightarrow> string \<Rightarrow> time \<Rightarrow> product db \<Rightarrow> (exn + bool) \<times> product db" where
  "incrementSalesCount cfg productId now s =
     try_catch (incrementSalesCount_try cfg productId now s) (\<lambda>e s'. (Inr False, s'))"

text \<open>The reply of \<open>updateStock\<close> carries \<open>newStock\<close>.\<close>

definition updateStock_try ::
  "product config \<Rightarrow> string \<Rightarrow> int \<Rightarrow> string \<Rightarrow> time \<Rightarrow> product db \<Rightarrow>
     (exn + int reply) \<times> product db" where
  "updateStock_try cfg productId quantity operation now s =
     (case getProduct cfg productId s of
        (Inl e, s1) \<Rightarrow> (Inl e, s1)
      | (Inr None, s1) \<Rightarrow> (Inl ''Product not found'', s1)
      | (Inr (Some product), s1) \<Rightarrow>
          (let newStock =
                 (if operation = ''add'' then or_zero (stock product) + quantity
                  else if operation = ''subtract'' then
                    max 0 (or_zero (stock product) - quantity)
                  else if operation = ''set'' then quantity
                  else or_zero (stock product))
           in case updateProduct cfg productId (\<lambda>item. item\<lparr>stock := Some newStock\<rparr>) now s1 of
                (Inl e, s2) \<Rightarrow> (Inl e, s2)
              | (Inr _, s2) \<Rightarrow> (Inr (Success newStock), s2)))"

definition updateStock ::
  "product config \<Rightarrow> string \<Rightarrow> int \<Rightarrow> string \<Rightarrow> time \<Rightarrow> product db \<Rightarrow>
     (exn + int reply) \<times> product db" where
  "updateStock cfg productId quantity operation now s =
     try_catch (updateStock_try cfg productId quantity operation now s)
       (\<lambda>e s'. (Inr (Failure e), s'))"

section \<open>PaymentManager\<close>

text \<open>
  A deposit record (QR and payment URLs, proof and metadata are left out). \<open>d_expiresAt\<close>
  is read as for orders. \<open>externalId\<close> is \<open>None\<close> for \<open>null\<close>.
\<close>

record deposit =
  depositId :: string
  d_userId :: int
  d_amount :: int
  d_method :: string
  d_status :: string
  externalId :: "string option"
  d_expiresAt :: "time option"
  d_updatedAt :: time
  d_approvedBy :: "string option"
  d_approvedAt :: "time option"
  d_rejectedBy :: "string option"
  d_rejectionReason :: "string option"
  d_rejectedAt :: "time option"
  expiredAt :: "time option"
  d_cancelledAt :: "time option"

definition updateDeposit_try ::
  "deposit config \<Rightarrow> string \<Rightarrow> (deposit \<Rightarrow> deposit) \<Rightarrow> time \<Rightarrow> deposit db \<Rightarrow>
     (exn + bool) \<times> deposit db" where
  "updateDeposit_try cfg did updates now s =
     (case update_db cfg ''deposits'' (\<lambda>item. depositId item = did)
             (\<lambda>item. (updates item)\<lparr>d_updatedAt := now\<rparr>) s of
        (Inl e, s1) \<Rightarrow> (Inl e, s1)
      | (Inr success, s1) \<Rightarrow> (Inr success, s1))"

definition updateDeposit ::
  "deposit config \<Rightarrow> string \<Rightarrow> (deposit \<Rightarrow> deposit) \<Rightarrow> time \<Rightarrow> deposit db \<Rightarrow>
     (exn + bool) \<times> deposit db" where
  "updateDeposit cfg did updates now s =
     try_catch (updateDeposit_try cfg did updates now s) (\<lambda>e s'. (Inr False, s'))"

definition getDeposit ::
  "deposit config \<Rightarrow> string \<Rightarrow> deposit db \<Rightarrow> (exn + deposit option) \<times> deposit db" where
  "getDeposit cfg did s =
     try_catch (findOne cfg ''deposits'' (\<lambda>item. depositId item = did) s)
       (\<lambda>e s'. (Inr None, s'))"

definition approveDeposit_try ::
  "deposit config \<Rightarrow> string \<Rightarrow> string \<Rightarrow> time \<Rightarrow> deposit db \<Rightarrow>
     (exn + deposit reply) \<times> deposit db" where
  "approveDeposit_try cfg did approvedBy now s =
     (case getDeposit cfg did s of
        (Inl e, s1) \<Rightarrow> (Inl e, s1)
      | (Inr None, s1) \<Rightarrow> (Inl ''Deposit not found'', s1)
      | (Inr (Some deposit), s1) \<Rightarrow>
          if d_status deposit \<noteq> ''pending'' then (Inl ''Deposit cannot be approved'', s1)
          else
            (case updateDeposit cfg did
                    (\<lambda>item. item\<lparr>d_status := ''completed'', d_approvedBy := Some approvedBy,
                                  d_approvedAt := Some now\<rparr>)
                    now s1 of
               (Inl e, s2) \<Rightarrow> (Inl e, s2)
             | (Inr _, s2) \<Rightarrow> (Inr (Success deposit), s2)))"

definition approveDeposit ::
  "deposit config \<Rightarrow> string \<Rightarrow> string \<Rightarrow> time \<Rightarrow> deposit db \<Rightarrow>
     (exn + deposit reply) \<times> deposit db" where
  "approveDeposit cfg did approvedBy now s =
     try_catch (approveDeposit_try cfg did approvedBy now s) (\<lambda>e s'. (Inr (Failure e), s'))"

definition rejectDeposit_try ::
  "deposit config \<Rightarrow> string \<Rightarrow> string \<Rightarrow> string \<Rightarrow> time \<Rightarrow> deposit db \<Rightarrow>
     (exn + deposit reply) \<times> deposit db" where
  "rejectDeposit_try cfg did reason rejectedBy now s =
     (case getDeposit cfg did s of
        (Inl e, s1) \<Rightarrow> (Inl e, s1)
      | (Inr None, s1) \<Rightarrow> (Inl ''Deposit not found'', s1)
      | (Inr (Some deposit), s1) \<Rightarrow>
          (case updateDeposit cfg did
                  (\<lambda>item. item\<lparr>d_status := ''rejected'', d_rejectedBy := Some rejectedBy,
                                d_rejectionReason := Some reason, d_rejectedAt := Some now\<rparr>)
                  now s1 of
             (Inl e, s2) \<Rightarrow> (Inl e, s2)
           | (Inr _, s2) \<Rightarrow> (Inr (Success deposit), s2)))"

definition rejectDeposit ::
  "deposit config \<Rightarrow> string \<Rightarrow> string \<Rightarrow> string \<Rightarrow> time \<Rightarrow> deposit db \<Rightarrow>
     (exn + deposit reply) \<times> deposit db" where
  "rejectDeposit cfg did reason rejectedBy now s =
     try_catch (rejectDeposit_try cfg did reason rejectedBy now s)
       (\<lambda>e s'. (Inr (Failure e), s'))"

text \<open>
  \<open>cancelQRISPayment\<close> posts to the payment gateway and touches no collection.
  \<open>gateway\<close> tells, for an external id, whether the post comes back with
  \<open>status === true\<close>; a failed post is caught inside and reported as a failure reply.
\<close>

definition cancelQRISPayment ::
  "(string \<Rightarrow> bool) \<Rightarrow> string \<Rightarrow> 's \<Rightarrow> (exn + unit reply) \<times> 's" where
  "cancelQRISPayment gateway ext s =
     (if gateway ext then (Inr (Success ()), s) else (Inr (Failure ''Failed to cancel payment''), s))"

fun cleanupExpiredDeposits_loop ::
  "deposit config \<Rightarrow> (string \<Rightarrow> bool) \<Rightarrow> time \<Rightarrow> deposit list \<Rightarrow> nat \<Rightarrow> deposit db \<Rightarrow>
     (exn + nat) \<times> deposit db" where
  "cleanupExpiredDeposits_loop cfg gateway now [] cleanedCount s = (Inr cleanedCount, s)"
| "cleanupExpiredDeposits_loop cfg gateway now (deposit # rest) cleanedCount s =
     (if d_status deposit = ''pending'' then
        (case d_expiresAt deposit of
           None \<Rightarrow> cleanupExpiredDeposits_loop cfg gateway now rest cleanedCount s
         | Some expiryTime \<Rightarrow>
             if now > expiryTime then
               (case (case externalId deposit of
                        None \<Rightarrow> (Inr (Success ()), s)
                      | Some ext \<Rightarrow> cancelQRISPayment gateway ext s) of
                  (Inl e, s1) \<Rightarrow> (Inl e, s1)
                | (Inr _, s1) \<Rightarrow>
                    (case updateDeposit cfg (depositId deposit)
                            (\<lambda>item. item\<lparr>d_status := ''expired'', expiredAt := Some now\<rparr>)
                            now s1 of
                       (Inl e, s2) \<Rightarrow> (Inl e, s2)
                     | (Inr _, s2) \<Rightarrow>
                         cleanupExpiredDeposits_loop cfg gateway now rest (cleanedCount + 1) s2))
             else cleanupExpiredDeposits_loop cfg gateway now rest cleanedCount s)
      else cleanupExpiredDeposits_loop cfg gateway now rest cleanedCount s)"

definition cleanupExpiredDeposits_try ::
  "deposit config \<Rightarrow> (string \<Rightarrow> bool) \<Rightarrow> time \<Rightarrow> deposit db \<Rightarrow> (exn + nat) \<times> deposit db" where
  "cleanupExpiredDeposits_try cfg gateway now s =
     (case readData cfg ''deposits'' s of
        (Inl e, s1) \<Rightarrow> (Inl e, s1)
      | (Inr data, s1) \<Rightarrow>
          (case data of
             JArray deposits \<Rightarrow> cleanupExpiredDeposits_loop cfg gateway now deposits 0 s1
           | JString _ \<Rightarrow> (Inr 0, s1)
           | JOther _ \<Rightarrow> (Inl ''TypeError: deposits is not iterable'', s1)))"

definition cleanupExpiredDeposits ::
  "deposit config \<Rightarrow> (string \<Rightarrow> bool) \<Rightarrow> time \<Rightarrow> deposit db \<Rightarrow> (exn + nat) \<times> deposit db" where
  "cleanupExpiredDeposits cfg gateway now s =
     try_catch (cleanupExpiredDeposits_try cfg gateway now s) (\<lambda>e s'. (Inr 0, s'))"

section \<open>The callback handlers\<close>

text \<open>
  The \<open>cancel\<close> branch of \<open>handleDepositActions\<close>. \<open>ui_ok\<close> tells whether the call of
  \<open>bot.editMessageText\<close> that follows succeeds; the handler of the function sends a text
  and ends it. The messages themselves are not modelled.
\<close>

definition handleDepositActions_cancel_try ::
  "deposit config \<Rightarrow> (string \<Rightarrow> bool) \<Rightarrow> bool \<Rightarrow> string \<Rightarrow> time \<Rightarrow> deposit db \<Rightarrow>
     (exn + unit) \<times> deposit db" where
  "handleDepositActions_cancel_try cfg gateway ui_ok did now s =
     (case getDeposit cfg did s of
        (Inl e, s1) \<Rightarrow> (Inl e, s1)
      | (Inr deposit, s1) \<Rightarrow>
          (case (case deposit of
                   None \<Rightarrow> (Inr (Success ()), s1)
                 | Some d \<Rightarrow>
                     (case externalId d of
                        None \<Rightarrow> (Inr (Success ()), s1)
                      | Some ext \<Rightarrow> cancelQRISPayment gateway ext s1)) of
             (Inl e, s2) \<Rightarrow> (Inl e, s2)
           | (Inr _, s2) \<Rightarrow>
               (case updateDeposit cfg did
                       (\<lambda>item. item\<lparr>d_status := ''cancelled'', d_cancelledAt := Some now\<rparr>)
                       now s2 of
                  (Inl e, s3) \<Rightarrow> (Inl e, s3)
                | (Inr _, s3) \<Rightarrow>
                    if ui_ok then (Inr (), s3) else (Inl ''ETELEGRAM'', s3))))"

definition handleDepositActions_cancel ::
  "deposit config \<Rightarrow> (string \<Rightarrow> bool) \<Rightarrow> bool \<Rightarrow> string \<Rightarrow> time \<Rightarrow> deposit db \<Rightarrow>
     (exn + unit) \<times> deposit db" where
  "handleDepositActions_cancel cfg gateway ui_ok did now s =
     try_catch (handleDepositActions_cancel_try cfg gateway ui_ok did now s)
       (\<lambda>e s'. (Inr (), s'))"

text \<open>
  The \<open>balance\<close> branch of \<open>handlePaymentActions\<close>, over the three collections it touches,
  each behind the DatabaseManager instance of its manager. \<open>REQUIRE_APPROVAL\<close> is
  \<open>config.BUSINESS.REQUIRE_APPROVAL\<close>. The two early exits answer the callback through
  \<open>query\<close>, a name that is not bound in this function, so they end in the handler as
  well; a missing user makes \<open>user.balance\<close> throw.
\<close>

record world =
  products :: "product db"
  users :: "user db"
  orders :: "order db"

record configs =
  products_cfg :: "product config"
  users_cfg :: "user config"
  orders_cfg :: "order config"
  REQUIRE_APPROVAL :: bool

definition handlePaymentActions_balance_try ::
  "configs \<Rightarrow> bool \<Rightarrow> string \<Rightarrow> int \<Rightarrow> string \<Rightarrow> time \<Rightarrow> world \<Rightarrow> (exn + unit) \<times> world" where
  "handlePaymentActions_balance_try c ui_ok newId userId productId now w =
     (case getProduct (products_cfg c) productId (products w) of
        (Inl e, p1) \<Rightarrow> (Inl e, w\<lparr>products := p1\<rparr>)
      | (Inr product, p1) \<Rightarrow>
     (case getUser (users_cfg c) userId (users w) of
        (Inl e, u1) \<Rightarrow> (Inl e, w\<lparr>products := p1, users := u1\<rparr>)
      | (Inr user, u1) \<Rightarrow>
     (case product of
        None \<Rightarrow> (Inl ''ReferenceError: query is not defined'', w\<lparr>products := p1, users := u1\<rparr>)
      | Some product \<Rightarrow>
     (case user of
        None \<Rightarrow> (Inl ''TypeError: user is null'', w\<lparr>products := p1, users := u1\<rparr>)
      | Some user \<Rightarrow>
     if balance user < price product
     then (Inl ''ReferenceError: query is not defined'', w\<lparr>products := p1, users := u1\<rparr>)
     else
     (case createOrder (orders_cfg c) newId userId (p_productId product) (price product) now
             (orders w) of
        (Inl e, o1) \<Rightarrow> (Inl e, w\<lparr>products := p1, users := u1, orders := o1\<rparr>)
      | (Inr (Failure _), o1) \<Rightarrow>
          (Inl ''ReferenceError: query is not defined'',
           w\<lparr>products := p1, users := u1, orders := o1\<rparr>)
      | (Inr (Success order), o1) \<Rightarrow>
     (case updateBalance (users_cfg c) userId (price product) ''subtract'' now u1 of
        (Inl e, u2) \<Rightarrow> (Inl e, w\<lparr>products := p1, users := u2, orders := o1\<rparr>)
      | (Inr _, u2) \<Rightarrow>
     (case (if REQUIRE_APPROVAL c then
              (case updateOrder (orders_cfg c) (orderId order)
                      (\<lambda>item. item\<lparr>paymentStatus := ''paid'', o_status := ''processing''\<rparr>)
                      now o1 of
                 (Inl e, o2) \<Rightarrow> (Inl e, w\<lparr>products := p1, users := u2, orders := o2\<rparr>)
               | (Inr _, o2) \<Rightarrow>
                   if ui_ok then (Inr (), w\<lparr>products := p1, users := u2, orders := o2\<rparr>)
                   else (Inl ''ETELEGRAM'', w\<lparr>products := p1, users := u2, orders := o2\<rparr>))
            else
              (case completeOrder (orders_cfg c) (orderId order) now o1 of
                 (Inl e, o2) \<Rightarrow> (Inl e, w\<lparr>products := p1, users := u2, orders := o2\<rparr>)
               | (Inr _, o2) \<Rightarrow>
              (case incrementSalesCount (products_cfg c) productId now p1 of
                 (Inl e, p2) \<Rightarrow> (Inl e, w\<lparr>products := p2, users := u2, orders := o2\<rparr>)
               | (Inr _, p2) \<Rightarrow>
                   if ui_ok then (Inr (), w\<lparr>products := p2, users := u2, orders := o2\<rparr>)
                   else (Inl ''ETELEGRAM'', w\<lparr>products := p2, users := u2, orders := o2\<rparr>)))) of
        (Inl e, w1) \<Rightarrow> (Inl e, w1)
      | (Inr _, w1) \<Rightarrow>
     (case incrementOrderCount (users_cfg c) userId now (users w1) of
        (Inl e, u3) \<Rightarrow> (Inl e, w1\<lparr>users := u3\<rparr>)
      | (Inr _, u3) \<Rightarrow> (Inr (), w1\<lparr>users := u3\<rparr>)))))))))"

definition handlePaymentActions_balance ::
  "configs \<Rightarrow> bool \<Rightarrow> string \<Rightarrow> int \<Rightarrow> string \<Rightarrow> time \<Rightarrow> world \<Rightarrow> (exn + unit) \<times> world" where
  "handlePaymentActions_balance c ui_ok newId userId productId now w =
     try_catch (handlePaymentActions_balance_try c ui_ok newId userId productId now w)
       (\<lambda>e w'. (Inr (), w'))"

section \<open>Observations\<close>

text \<open>
  \<open>peek\<close> is the value a call of \<open>readData\<close> returns in a state, and \<open>visible\<close> the
  records in it. \<open>write_ok\<close> says that the next write of the collection goes through:
  the key is accepted when encryption is on, and the next \<open>fs.writeJson\<close> succeeds;
  \<open>writes_ok\<close> says so of every coming write.
\<close>

definition peek :: "'a config \<Rightarrow> string \<Rightarrow> 'a db \<Rightarrow> 'a jdata" where
  "peek cfg dbName s =
     (case readData cfg dbName s of (Inr d, _) \<Rightarrow> d | (Inl _, _) \<Rightarrow> getDefaultData dbName)"

definition items_of :: "'a jdata \<Rightarrow> 'a list" where
  "items_of d = (case d of JArray items \<Rightarrow> items | _ \<Rightarrow> [])"

definition visible :: "'a config \<Rightarrow> string \<Rightarrow> 'a db \<Rightarrow> 'a list" where
  "visible cfg dbName s = items_of (peek cfg dbName s)"

definition write_ok :: "'a config \<Rightarrow> 'a db \<Rightarrow> bool" where
  "write_ok cfg s =
     ((if ENCRYPTION cfg then key_ok cfg else True) \<and>
      (case writes s of [] \<Rightarrow> True | ok # _ \<Rightarrow> ok))"

definition writes_ok :: "'a config \<Rightarrow> 'a db \<Rightarrow> bool" where
  "writes_ok cfg s = ((if ENCRYPTION cfg then key_ok cfg else True) \<and> list_all id (writes s))"

text \<open>
  \<open>change q m\<close> is the array \<open>update\<close> builds: \<open>m\<close> applied to the records that match
  \<open>q\<close>. \<open>saveData\<close> is the value \<open>writeData\<close> hands to \<open>fs.writeJson\<close>.
\<close>

definition change :: "('a \<Rightarrow> bool) \<Rightarrow> ('a \<Rightarrow> 'a) \<Rightarrow> 'a list \<Rightarrow> 'a list" where
  "change q m items = map (\<lambda>item. if q item then m item else item) items"

definition saveData :: "'a config \<Rightarrow> 'a jdata \<Rightarrow> 'a jdata" where
  "saveData cfg data =
     (if ENCRYPTION cfg then JString (cipher cfg (stringify cfg data)) else data)"

text \<open>
  Two relations between the state before and after a call, used to describe the managers:
  \<open>same\<close> when nothing was written, and \<open>updated\<close> for one call of \<open>update\<close> with
  query \<open>q\<close> and merge \<open>m\<close>, whose write may go through or fail.
\<close>

definition same :: "'a config \<Rightarrow> string \<Rightarrow> 'a db \<Rightarrow> 'a db \<Rightarrow> bool" where
  "same cfg dbName s s' =
     (visible cfg dbName s' = visible cfg dbName s \<and> writes s' = writes s \<and> disk s' = disk s)"

definition updated ::
  "'a config \<Rightarrow> string \<Rightarrow> ('a \<Rightarrow> bool) \<Rightarrow> ('a \<Rightarrow> 'a) \<Rightarrow> 'a db \<Rightarrow> 'a db \<Rightarrow> bool" where
  "updated cfg dbName q m s s' =
     ((writes s' = writes s \<or> writes s' = tl (writes s)) \<and>
      (if write_ok cfg s then
         visible cfg dbName s' = change q m (visible cfg dbName s) \<and>
         (if list_ex q (visible cfg dbName s)
          then disk s' = Content (saveData cfg (JArray (change q m (visible cfg dbName s))))
          else disk s' = disk s)
       else visible cfg dbName s' = visible cfg dbName s \<and> disk s' = disk s))"

text \<open>
  For the cache: \<open>loaded\<close> is what \<open>readData\<close> makes of the content of the file, and a
  state is \<open>coherent\<close> when the cache entry, if there is one, is the data the file was last
  written from (the file holds what \<open>writeData\<close> saves for it) or the data last read from
  the file (the file loads to it).
\<close>

definition loaded :: "'a config \<Rightarrow> 'a jdata \<Rightarrow> exn + 'a jdata" where
  "loaded cfg raw =
     (case raw of
        JString c \<Rightarrow>
          if ENCRYPTION cfg then
            (case decrypt cfg c of
               Inl e \<Rightarrow> Inl e
             | Inr t \<Rightarrow> (case parse cfg t of None \<Rightarrow> Inl ''SyntaxError'' | Some d \<Rightarrow> Inr d))
          else Inr raw
      | _ \<Rightarrow> Inr raw)"

definition coherent :: "'a config \<Rightarrow> 'a db \<Rightarrow> bool" where
  "coherent cfg s =
     (case cache s of
        None \<Rightarrow> True
      | Some entry \<Rightarrow>
          (case disk s of
             Content raw \<Rightarrow> raw = saveData cfg entry \<or> loaded cfg raw = Inr entry
           | _ \<Rightarrow> False))"

text \<open>
  For the two sweeps: the test a sweep applies to a record of the array it read, and the
  record the deposit sweep writes for it.
\<close>

definition overdue :: "time \<Rightarrow> deposit \<Rightarrow> bool" where
  "overdue now d =
     (d_status d = ''pending'' \<and> (case d_expiresAt d of None \<Rightarrow> False | Some t \<Rightarrow> now > t))"

definition expire :: "time \<Rightarrow> deposit \<Rightarrow> deposit" where
  "expire now d = d\<lparr>d_status := ''expired'', expiredAt := Some now, d_updatedAt := now\<rparr>"

definition overdue_order :: "time \<Rightarrow> order \<Rightarrow> bool" where
  "overdue_order now item =
     (o_status item = ''pending'' \<and>
      (case o_expiresAt item of None \<Rightarrow> False | Some t \<Rightarrow> now > t))"

definition cancel_expired :: "time \<Rightarrow> order \<Rightarrow> order" where
  "cancel_expired now item =
     item\<lparr>o_status := ''cancelled'', cancellationReason := Some ''Order expired'',
          o_cancelledAt := Some now, o_updatedAt := now\<rparr>"


text \<open>The record \<open>createOrder\<close> builds and hands to \<open>insert\<close>.\<close>

definition created_order :: "string \<Rightarrow> int \<Rightarrow> string \<Rightarrow> int \<Rightarrow> time \<Rightarrow> order" where
  "created_order newId userId productId amount now =
     \<lparr>orderId = newId, o_userId = userId, o_productId = productId, o_amount = amount,
      o_status = ''pending'', paymentStatus = ''unpaid'', deliveryStatus = ''pending'',
      o_expiresAt = Some (now + 3600000), o_updatedAt = now, o_approvedBy = None,
      o_approvedAt = None, o_rejectedBy = None, o_rejectionReason = None,
      o_rejectedAt = None, completedAt = None, cancellationReason = None,
      o_cancelledAt = None\<rparr>"

section \<open>Example configurations and states\<close>

text \<open>
  A configuration with encryption switched off, and a collection that sits in its file with
  nothing cached; \<open>w\<close> lists the outcomes of the coming writes.
\<close>

definition plain_cfg :: "'a config" where
  "plain_cfg = \<lparr>ENCRYPTION = False, ENCRYPTION_KEY = [], ENCRYPTION_IV = [],
     aes_accepts = (\<lambda>key iv. False), aes_encrypt = (\<lambda>key iv text. text),
     aes_decrypt = (\<lambda>key iv text. None), stringify = (\<lambda>d. []), parse = (\<lambda>t. None)\<rparr>"

definition on_disk :: "'a list \<Rightarrow> bool list \<Rightarrow> 'a db" where
  "on_disk items w = \<lparr>disk = Content (JArray items), cache = None, writes = w\<rparr>"

definition order1 :: order where
  "order1 = \<lparr>orderId = ''ORD-1'', o_userId = 7, o_productId = ''P1'', o_amount = 5000,
     o_status = ''pending'', paymentStatus = ''unpaid'', deliveryStatus = ''pending'',
     o_expiresAt = Some 3600000, o_updatedAt = 0, o_approvedBy = None, o_approvedAt = None,
     o_rejectedBy = None, o_rejectionReason = None, o_rejectedAt = None, completedAt = None,
     cancellationReason = None, o_cancelledAt = None\<rparr>"

definition order2 :: order where
  "order2 = \<lparr>orderId = ''ORD-2'', o_userId = 8, o_productId = ''P1'', o_amount = 5000,
     o_status = ''completed'', paymentStatus = ''paid'', deliveryStatus = ''delivered'',
     o_expiresAt = Some 3600000, o_updatedAt = 10, o_approvedBy = Some 1,
     o_approvedAt = Some 10, o_rejectedBy = None, o_rejectionReason = None,
     o_rejectedAt = None, completedAt = Some 10, cancellationReason = None,
     o_cancelledAt = None\<rparr>"

definition user1 :: user where
  "user1 = \<lparr>u_userId = 7, balance = 5000, u_status = ''active'', lastActivity = 0,
     u_updatedAt = 0, totalOrders_nested = Some 0, totalOrders_key = None\<rparr>"

definition product1 :: product where
  "product1 = \<lparr>p_productId = ''P1'', price = 1000, stock = Some 1, totalSales = Some 4,
     p_status = ''active'', p_updatedAt = 0\<rparr>"

definition deposit1 :: deposit where
  "deposit1 = \<lparr>depositId = ''D1'', d_userId = 7, d_amount = 20000, d_method = ''DANA'',
     d_status = ''pending'', externalId = None, d_expiresAt = Some 50, d_updatedAt = 0,
     d_approvedBy = None, d_approvedAt = None, d_rejectedBy = None,
     d_rejectionReason = None, d_rejectedAt = None, expiredAt = None,
     d_cancelledAt = None\<rparr>"

definition deposit2 :: deposit where
  "deposit2 = \<lparr>depositId = ''D2'', d_userId = 7, d_amount = 30000, d_method = ''QRIS_AUTO'',
     d_status = ''completed'', externalId = Some ''T2'', d_expiresAt = Some 50,
     d_updatedAt = 10, d_approvedBy = Some ''AUTO_SYSTEM'', d_approvedAt = Some 10,
     d_rejectedBy = None, d_rejectionReason = None, d_rejectedAt = None, expiredAt = None,
     d_cancelledAt = None\<rparr>"

text \<open>
  A configuration with encryption switched on, over collections of numbers. A number is an
  integer, \<open>NaN\<close> or \<open>null\<close>. \<open>numbers_stringify\<close> and \<open>numbers_parse\<close> are
  \<open>JSON.stringify\<close> and \<open>JSON.parse\<close> on arrays of such numbers: integers in decimal,
  \<open>NaN\<close> and \<open>null\<close> both as \<open>null\<close>, no white space. Other values are given the
  empty text, which no parse accepts.
\<close>

datatype jsnumber = Num int | NaN | Null

definition number_text :: "jsnumber \<Rightarrow> string" where
  "number_text v =
     (case v of
        Num i \<Rightarrow> toString i
      | NaN \<Rightarrow> ''null''
      | Null \<Rightarrow> ''null'')"

fun commas :: "string list \<Rightarrow> string" where
  "commas [] = []"
| "commas [t] = t"
| "commas (t # u # ts) = t @ '','' @ commas (u # ts)"

definition numbers_stringify :: "jsnumber jdata \<Rightarrow> string" where
  "numbers_stringify d =
     (case d of JArray items \<Rightarrow> ''['' @ commas (map number_text items) @ '']'' | _ \<Rightarrow> [])"

definition digit_value :: "char \<Rightarrow> nat option" where
  "digit_value c =
     (if c \<in> set ''0123456789''
      then Some (length (takeWhile (\<lambda>d. d \<noteq> c) ''0123456789'')) else None)"

fun read_digits :: "string \<Rightarrow> nat \<Rightarrow> nat option" where
  "read_digits [] n = Some n"
| "read_digits (c # cs) n =
     (case digit_value c of None \<Rightarrow> None | Some d \<Rightarrow> read_digits cs (10 * n + d))"

definition read_natural :: "string \<Rightarrow> nat option" where
  "read_natural t =
     (case t of
        [] \<Rightarrow> None
      | c # cs \<Rightarrow> if c = CHR ''0'' \<and> cs \<noteq> [] then None else read_digits t 0)"

definition read_number :: "string \<Rightarrow> jsnumber option" where
  "read_number t =
     (if t = ''null'' then Some Null
      else
        (case t of
           [] \<Rightarrow> None
         | c # cs \<Rightarrow>
             if c = CHR ''-'' then map_option (\<lambda>n. Num (- int n)) (read_natural cs)
             else map_option (\<lambda>n. Num (int n)) (read_natural t)))"

fun fields :: "string \<Rightarrow> string \<Rightarrow> string list" where
  "fields [] cur = [cur]"
| "fields (c # cs) cur =
     (if c = CHR '','' then cur # fields cs [] else fields cs (cur @ [c]))"

definition numbers_parse :: "string \<Rightarrow> jsnumber jdata option" where
  "numbers_parse t =
     (if t = ''[]'' then Some (JArray [])
      else
        (case t of
           [] \<Rightarrow> None
         | c # cs \<Rightarrow>
             if c = CHR ''['' \<and> cs \<noteq> [] \<and> last cs = CHR '']''
             then map_option JArray (those (map read_number (fields (butlast cs) [])))
             else None))"

text \<open>
  A stand-in for the AES functions that takes its key and IV seriously: the cipher text is
  the key, the IV and the reversed text, so that deciphering under another key or IV
  fails; a key of 64 hex digits and an IV of 32 are accepted.
\<close>

definition example_accepts :: "string \<Rightarrow> string \<Rightarrow> bool" where
  "example_accepts key iv = (length key = 64 \<and> length iv = 32)"

definition example_encrypt :: "string \<Rightarrow> string \<Rightarrow> string \<Rightarrow> string" where
  "example_encrypt key iv text = key @ iv @ rev text"

definition example_decrypt :: "string \<Rightarrow> string \<Rightarrow> string \<Rightarrow> string option" where
  "example_decrypt key iv text =
     (if take (length key + length iv) text = key @ iv
      then Some (rev (drop (length key + length iv) text)) else None)"

definition numbers_cfg :: "jsnumber config" where
  "numbers_cfg = \<lparr>ENCRYPTION = True,
     ENCRYPTION_KEY = ''000102030405060708090a0b0c0d0e0f101112131415161718191a1b1c1d1e1f'',
     ENCRYPTION_IV = ''f0e0d0c0b0a090807060504030201000'',
     aes_accepts = example_accepts, aes_encrypt = example_encrypt,
     aes_decrypt = example_decrypt, stringify = numbers_stringify, parse = numbers_parse\<rparr>"

text \<open>
  A shop with one product, one user and one earlier order, approval required, in which
  the next write of the users file fails.
\<close>

definition configs0 :: configs where
  "configs0 = \<lparr>products_cfg = plain_cfg, users_cfg = plain_cfg, orders_cfg = plain_cfg,
     REQUIRE_APPROVAL = True\<rparr>"

definition world0 :: world where
  "world0 = \<lparr>products = on_disk [product1] [], users = on_disk [user1] [False],
     orders = on_disk [order2] []\<rparr>"

section \<open>Facts about the data layer\<close>

lemma known_databases:
  "''users'' \<in> set databases" "''products'' \<in> set databases"
  "''orders'' \<in> set databases" "''deposits'' \<in> set databases"
  by (simp_all add: databases_def)

lemma readData_hit: "cache s = Some d \<Longrightarrow> readData cfg dbName s = (Inr d, s)"
  by (simp add: readData_def readData_try_def try_catch_def)

lemma readData_returns: "\<exists>d s'. readData cfg dbName s = (Inr d, s')"
  by (auto simp: readData_def readData_try_def try_catch_def
      split: option.splits jfile.splits jdata.splits sum.splits)

lemma readData_effect:
  assumes "readData cfg dbName s = (r, s')"
  shows "(s' = s \<and> (cache s = None \<or> r = Inr (the (cache s)))) \<or>
         (cache s = None \<and> (\<exists>d. r = Inr d \<and> s' = s\<lparr>cache := Some d\<rparr>))"
  using assms
  by (auto simp: readData_def readData_try_def try_catch_def
      split: option.splits jfile.splits jdata.splits sum.splits if_splits)

lemma readData_again:
  assumes "readData cfg dbName s = (Inr d, s')"
  shows "readData cfg dbName s' = (Inr d, s')"
proof -
  from readData_effect [OF assms] show ?thesis
  proof
    assume "s' = s \<and> (cache s = None \<or> Inr d = Inr (the (cache s)))"
    then show ?thesis using assms by simp
  next
    assume "cache s = None \<and> (\<exists>d'. Inr d = Inr d' \<and> s' = s\<lparr>cache := Some d'\<rparr>)"
    then have "cache s' = Some d" by auto
    then show ?thesis by (rule readData_hit)
  qed
qed

lemma readData_peek: "\<exists>s'. readData cfg dbName s = (Inr (peek cfg dbName s), s')"
  using readData_returns [of cfg dbName s] by (auto simp: peek_def)

lemma peek_cong:
  "cache s = cache t \<Longrightarrow> disk s = disk t \<Longrightarrow> peek cfg dbName s = peek cfg dbName t"
  by (auto simp: peek_def readData_def readData_try_def try_catch_def
      split: option.splits jfile.splits jdata.splits sum.splits)

lemma peek_hit: "cache s = Some d \<Longrightarrow> peek cfg dbName s = d"
  by (simp add: peek_def readData_hit)

lemma readData_state:
  assumes "readData cfg dbName s = (r, s')"
  shows "disk s' = disk s" "writes s' = writes s"
    "cache s' = cache s \<or> cache s = None \<and> cache s' = Some (peek cfg dbName s)"
    "r = Inr (peek cfg dbName s)" "peek cfg dbName s' = peek cfg dbName s"
proof -
  show r: "r = Inr (peek cfg dbName s)"
    using assms readData_peek [of cfg dbName s] by auto
  from readData_effect [OF assms]
  show "disk s' = disk s" "writes s' = writes s" by auto
  from readData_effect [OF assms] r
  show "cache s' = cache s \<or> cache s = None \<and> cache s' = Some (peek cfg dbName s)" by auto
  from assms r have "readData cfg dbName s' = (Inr (peek cfg dbName s), s')"
    using readData_again by blast
  then show "peek cfg dbName s' = peek cfg dbName s" by (simp add: peek_def)
qed

lemma writeData_returns: "\<exists>ok s'. writeData cfg dbName d s = (Inr ok, s')"
  by (auto simp: writeData_def writeData_try_def try_catch_def fs_writeJson_def encrypt_def
      split: list.splits sum.splits prod.splits)

lemma writeData_effect:
  assumes "writeData cfg dbName d s = (r, s')"
  shows "(r = Inr True \<and> cache s' = Some d \<and> (\<exists>saved. disk s' = Content saved)) \<or>
         (r = Inr False \<and> cache s' = cache s \<and> disk s' = disk s)"
    and "writes s' = writes s \<or> writes s' = tl (writes s)"
  using assms
  by (auto simp: writeData_def writeData_try_def try_catch_def fs_writeJson_def encrypt_def
      split: list.splits sum.splits prod.splits if_splits)

lemma writeData_ok:
  assumes "write_ok cfg s" "dbName \<in> set databases"
  shows "\<exists>s'. writeData cfg dbName d s = (Inr True, s') \<and> cache s' = Some d \<and>
           writes s' = tl (writes s) \<and>
           disk s' = Content (if ENCRYPTION cfg then JString (cipher cfg (stringify cfg d)) else d)"
  using assms
  by (auto simp: write_ok_def writeData_def writeData_try_def try_catch_def fs_writeJson_def
      encrypt_def split: list.splits)

lemma writeData_true:
  assumes "writeData cfg dbName d s = (Inr True, s')"
  shows "dbName \<in> set databases" "ENCRYPTION cfg \<Longrightarrow> key_ok cfg" "cache s' = Some d"
    "disk s' = Content (saveData cfg d)"
  using assms
  by (auto simp: writeData_def writeData_try_def try_catch_def fs_writeJson_def encrypt_def
      saveData_def split: list.splits sum.splits prod.splits if_splits)

lemma writes_ok_tl: "writes_ok cfg s \<Longrightarrow> writes s' = tl (writes s) \<or> writes s' = writes s \<Longrightarrow> writes_ok cfg s'"
  by (cases "writes s") (auto simp: writes_ok_def)

lemma writes_ok_write_ok: "writes_ok cfg s \<Longrightarrow> write_ok cfg s"
  by (cases "writes s") (auto simp: writes_ok_def write_ok_def)

lemma visible_state:
  assumes "readData cfg dbName s = (r, s')"
  shows "visible cfg dbName s' = visible cfg dbName s"
  using readData_state(5) [OF assms] by (simp add: visible_def)

lemma visible_cong:
  "cache s = cache t \<Longrightarrow> disk s = disk t \<Longrightarrow> visible cfg dbName s = visible cfg dbName t"
  by (simp add: visible_def peek_cong [of s t])

lemma findOne_visible:
  "\<exists>s1. findOne cfg dbName q s = (Inr (find q (visible cfg dbName s)), s1) \<and>
        readData cfg dbName s = (Inr (peek cfg dbName s), s1)"
proof -
  obtain s1 where R: "readData cfg dbName s = (Inr (peek cfg dbName s), s1)"
    using readData_peek by blast
  then show ?thesis
    by (cases "peek cfg dbName s") (simp_all add: findOne_def visible_def items_of_def)
qed

lemma change_no_match: "\<not> list_ex q xs \<Longrightarrow> change q m xs = xs"
  by (induction xs) (auto simp: change_def)

lemma writeData_fail:
  assumes "\<not> write_ok cfg s"
  shows "\<exists>s'. writeData cfg dbName d s = (Inr False, s') \<and> cache s' = cache s \<and>
           disk s' = disk s \<and> (writes s' = writes s \<or> writes s' = tl (writes s))"
  using assms
  by (auto simp: write_ok_def writeData_def writeData_try_def try_catch_def fs_writeJson_def
      encrypt_def split: list.splits if_splits)

lemma update_db_unfold:
  obtains s1 where "readData cfg dbName s = (Inr (peek cfg dbName s), s1)"
    and "update_db cfg dbName q m s =
          (if list_ex q (visible cfg dbName s) then
             (Inr True, snd (writeData cfg dbName (JArray (change q m (visible cfg dbName s))) s1))
           else (Inr False, s1))"
proof -
  obtain s1 where R: "readData cfg dbName s = (Inr (peek cfg dbName s), s1)"
    using readData_peek by blast
  let ?xs = "visible cfg dbName s"
  obtain ok s2 where W: "writeData cfg dbName (JArray (change q m ?xs)) s1 = (Inr ok, s2)"
    using writeData_returns by blast
  have "update_db cfg dbName q m s =
          (if list_ex q ?xs then (Inr True, s2) else (Inr False, s1))"
  proof (cases "peek cfg dbName s")
    case (JArray xs)
    then have "?xs = xs" by (simp add: visible_def items_of_def)
    with R JArray W show ?thesis
      by (simp add: update_db_def update_db_try_def try_catch_def change_def)
  next
    case (JString t)
    then have "?xs = []" by (simp add: visible_def items_of_def)
    with R JString show ?thesis
      by (simp add: update_db_def update_db_try_def try_catch_def)
  next
    case (JOther t)
    then have "?xs = []" by (simp add: visible_def items_of_def)
    with R JOther show ?thesis
      by (simp add: update_db_def update_db_try_def try_catch_def)
  qed
  with W R that show thesis by simp
qed

lemma visible_cache: "cache s = Some (JArray xs) \<Longrightarrow> visible cfg dbName s = xs"
  by (simp add: visible_def peek_hit items_of_def)

text \<open>What one call of \<open>update\<close> does to the records a later read returns.\<close>

lemma update_db_effect:
  assumes U: "update_db cfg dbName q m s = (r, s')"
  shows "r = Inr (list_ex q (visible cfg dbName s))"
    and "visible cfg dbName s' = visible cfg dbName s \<or>
         visible cfg dbName s' = change q m (visible cfg dbName s)"
    and "writes s' = writes s \<or> writes s' = tl (writes s)"
    and "write_ok cfg s \<Longrightarrow> dbName \<in> set databases \<Longrightarrow>
         visible cfg dbName s' = change q m (visible cfg dbName s)"
    and "\<not> write_ok cfg s \<Longrightarrow> visible cfg dbName s' = visible cfg dbName s \<and> disk s' = disk s"
    and "write_ok cfg s \<Longrightarrow> dbName \<in> set databases \<Longrightarrow> list_ex q (visible cfg dbName s) \<Longrightarrow>
         disk s' = Content (saveData cfg (JArray (change q m (visible cfg dbName s))))"
proof -
  let ?xs = "visible cfg dbName s"
  obtain s1 where R: "readData cfg dbName s = (Inr (peek cfg dbName s), s1)"
    and E: "update_db cfg dbName q m s =
          (if list_ex q ?xs then
             (Inr True, snd (writeData cfg dbName (JArray (change q m ?xs)) s1))
           else (Inr False, s1))"
    by (rule update_db_unfold)
  note S1 = readData_state [OF R] visible_state [OF R]
  have wo: "write_ok cfg s1 = write_ok cfg s" using S1(2) by (simp add: write_ok_def)
  obtain ok s2 where W: "writeData cfg dbName (JArray (change q m ?xs)) s1 = (Inr ok, s2)"
    using writeData_returns by blast
  from U E W show "r = Inr (list_ex q ?xs)" by (auto split: if_splits)
  show "visible cfg dbName s' = ?xs \<or> visible cfg dbName s' = change q m ?xs"
  proof (cases "list_ex q ?xs")
    case True
    with U E W have s': "s' = s2" by simp
    from writeData_effect(1) [OF W]
    consider (a) "cache s2 = Some (JArray (change q m ?xs))"
      | (b) "cache s2 = cache s1" "disk s2 = disk s1" by blast
    then show ?thesis
    proof cases
      case a
      then show ?thesis using s' by (simp add: visible_cache)
    next
      case b
      then have "visible cfg dbName s2 = visible cfg dbName s1" by (rule visible_cong)
      with S1 s' show ?thesis by simp
    qed
  next
    case False
    with U E S1 show ?thesis by simp
  qed
  show "writes s' = writes s \<or> writes s' = tl (writes s)"
    using U E W writeData_effect(2) [OF W] S1(2) by (auto split: if_splits)
  show "visible cfg dbName s' = change q m ?xs"
    if "write_ok cfg s" "dbName \<in> set databases"
  proof (cases "list_ex q ?xs")
    case True
    from that wo have "write_ok cfg s1" by simp
    from writeData_ok [OF this that(2), of "JArray (change q m ?xs)"] W U E True
    show ?thesis by (auto simp: visible_cache)
  next
    case False
    with U E S1 show ?thesis by (simp add: change_no_match)
  qed
  show "visible cfg dbName s' = ?xs \<and> disk s' = disk s" if "\<not> write_ok cfg s"
  proof (cases "list_ex q ?xs")
    case True
    from that wo have "\<not> write_ok cfg s1" by simp
    from writeData_fail [OF this, of dbName "JArray (change q m ?xs)"] W U E True
    have c: "cache s' = cache s1" and d: "disk s' = disk s1" by auto
    from c d have "visible cfg dbName s' = visible cfg dbName s1" by (rule visible_cong)
    with d S1 show ?thesis by simp
  next
    case False
    with U E S1 show ?thesis by simp
  qed
  show "disk s' = Content (saveData cfg (JArray (change q m ?xs)))"
    if "write_ok cfg s" "dbName \<in> set databases" "list_ex q ?xs"
  proof -
    from that wo have "write_ok cfg s1" by simp
    from writeData_ok [OF this that(2), of "JArray (change q m ?xs)"] W U E that(3)
    show ?thesis by (auto simp: saveData_def)
  qed
qed

section \<open>Lookups and updates through the managers\<close>

lemma get_visible:
  "\<exists>s1. try_catch (findOne cfg dbName q s) h = (Inr (find q (visible cfg dbName s)), s1) \<and>
     same cfg dbName s s1"
proof -
  obtain s1 where F: "findOne cfg dbName q s = (Inr (find q (visible cfg dbName s)), s1)"
    and R: "readData cfg dbName s = (Inr (peek cfg dbName s), s1)"
    using findOne_visible by blast
  from F readData_state [OF R] visible_state [OF R] show ?thesis
    by (simp add: try_catch_def same_def)
qed

lemma update_db_updated:
  assumes "dbName \<in> set databases"
  shows "\<exists>s'. update_db cfg dbName q m s = (Inr (list_ex q (visible cfg dbName s)), s') \<and>
           updated cfg dbName q m s s'"
proof -
  obtain r s' where U: "update_db cfg dbName q m s = (r, s')"
    by (cases "update_db cfg dbName q m s")
  have "disk s' = disk s" if "\<not> list_ex q (visible cfg dbName s)"
  proof -
    obtain s1 where R: "readData cfg dbName s = (Inr (peek cfg dbName s), s1)"
      and E: "update_db cfg dbName q m s =
          (if list_ex q (visible cfg dbName s) then
             (Inr True, snd (writeData cfg dbName (JArray (change q m (visible cfg dbName s))) s1))
           else (Inr False, s1))"
      by (rule update_db_unfold)
    from U E that readData_state(1) [OF R] show ?thesis by simp
  qed
  with update_db_effect [OF U] assms U show ?thesis
    by (auto simp: updated_def)
qed

lemma update_wrapper:
  "try_catch (case update_db cfg dbName q m s of (Inl e, s1) \<Rightarrow> (Inl e, s1)
              | (Inr success, s1) \<Rightarrow> (Inr success, s1)) h = update_db cfg dbName q m s"
proof -
  obtain r s' where U: "update_db cfg dbName q m s = (r, s')" by (cases "update_db cfg dbName q m s")
  from update_db_effect(1) [OF U] U show ?thesis by (auto simp: try_catch_def)
qed

lemma updated_after_same:
  "same cfg dbName s s1 \<Longrightarrow> updated cfg dbName q m s1 s2 \<Longrightarrow> updated cfg dbName q m s s2"
  by (simp add: same_def updated_def write_ok_def)

lemma same_refl: "same cfg dbName s s"
  by (simp add: same_def)

text \<open>A lookup followed by an update, as every status change of the managers does it.\<close>

lemma get_then_update:
  assumes "dbName \<in> set databases"
  obtains s1 s2 where
    "try_catch (findOne cfg dbName q s) h = (Inr (find q (visible cfg dbName s)), s1)"
    "same cfg dbName s s1"
    "update_db cfg dbName q' m s1 = (Inr (list_ex q' (visible cfg dbName s)), s2)"
    "updated cfg dbName q' m s s2"
proof -
  obtain s1 where G: "try_catch (findOne cfg dbName q s) h = (Inr (find q (visible cfg dbName s)), s1)"
    and S: "same cfg dbName s s1" using get_visible by blast
  obtain s2 where U: "update_db cfg dbName q' m s1 = (Inr (list_ex q' (visible cfg dbName s1)), s2)"
    and E: "updated cfg dbName q' m s1 s2" using update_db_updated [OF assms] by blast
  from S have "visible cfg dbName s1 = visible cfg dbName s" by (simp add: same_def)
  with G S U updated_after_same [OF S E] that show thesis by simp
qed

lemma update_after_same:
  assumes "dbName \<in> set databases" "same cfg dbName s s1"
  shows "\<exists>s2. update_db cfg dbName q m s1 = (Inr (list_ex q (visible cfg dbName s)), s2) \<and>
           updated cfg dbName q m s s2"
proof -
  obtain s2 where U: "update_db cfg dbName q m s1 = (Inr (list_ex q (visible cfg dbName s1)), s2)"
    and E: "updated cfg dbName q m s1 s2" using update_db_updated [OF assms(1)] by blast
  from assms(2) have "visible cfg dbName s1 = visible cfg dbName s" by (simp add: same_def)
  with U updated_after_same [OF assms(2) E] show ?thesis by simp
qed

lemma change_rel:
  assumes "\<And>x. R x x" "\<And>x. x \<in> set xs \<Longrightarrow> q x \<Longrightarrow> R x (m x)"
  shows "list_all2 R xs (change q m xs)"
  using assms(2) by (induction xs) (auto simp: change_def assms(1))

lemma same_rel:
  assumes "same cfg dbName s s'" "\<And>x. R x x"
  shows "list_all2 R (visible cfg dbName s) (visible cfg dbName s')"
  using assms by (simp add: same_def list_all2_same)

lemma updated_rel:
  assumes "updated cfg dbName q m s s'" "\<And>x. R x x"
    "\<And>x. x \<in> set (visible cfg dbName s) \<Longrightarrow> q x \<Longrightarrow> R x (m x)"
  shows "list_all2 R (visible cfg dbName s) (visible cfg dbName s')"
proof (cases "write_ok cfg s")
  case True
  with assms(1) have "visible cfg dbName s' = change q m (visible cfg dbName s)"
    by (simp add: updated_def)
  with change_rel [of R "visible cfg dbName s" q m, OF assms(2,3)] show ?thesis by simp
next
  case False
  with assms(1) have "visible cfg dbName s' = visible cfg dbName s"
    by (simp add: updated_def)
  with assms(2) show ?thesis by (simp add: list_all2_same)
qed

lemma find_set: "find q xs = Some x \<Longrightarrow> x \<in> set xs \<and> q x"
  by (induction xs) (auto split: if_splits)

lemma find_list_ex: "find q xs = Some x \<Longrightarrow> list_ex q xs"
  by (induction xs) (auto split: if_splits)

lemma find_change:
  "(\<And>x. q (m x) = q x) \<Longrightarrow> find q (change q m xs) = map_option m (find q xs)"
  by (induction xs) (auto simp: change_def)

section \<open>What each manager operation does\<close>

lemma updateOrder_eq:
  "updateOrder cfg oid updates now s =
     update_db cfg ''orders'' (\<lambda>item. orderId item = oid)
       (\<lambda>item. (updates item)\<lparr>o_updatedAt := now\<rparr>) s"
  by (simp add: updateOrder_def updateOrder_try_def update_wrapper)

lemma updateUser_eq:
  "updateUser cfg userId updates now s =
     update_db cfg ''users'' (\<lambda>item. u_userId item = userId)
       (\<lambda>item. (updates item)\<lparr>lastActivity := now, u_updatedAt := now\<rparr>) s"
  by (simp add: updateUser_def updateUser_try_def update_wrapper)

lemma updateProduct_eq:
  "updateProduct cfg productId updates now s =
     update_db cfg ''products'' (\<lambda>item. p_productId item = productId)
       (\<lambda>item. (updates item)\<lparr>p_updatedAt := now\<rparr>) s"
  by (simp add: updateProduct_def updateProduct_try_def update_wrapper)

lemma updateDeposit_eq:
  "updateDeposit cfg did updates now s =
     update_db cfg ''deposits'' (\<lambda>item. depositId item = did)
       (\<lambda>item. (updates item)\<lparr>d_updatedAt := now\<rparr>) s"
  by (simp add: updateDeposit_def updateDeposit_try_def update_wrapper)

lemma getOrder_visible:
  "\<exists>s1. getOrder cfg oid s =
          (Inr (find (\<lambda>item. orderId item = oid) (visible cfg ''orders'' s)), s1) \<and>
        same cfg ''orders'' s s1"
  unfolding getOrder_def by (rule get_visible)

lemma getUser_visible:
  "\<exists>s1. getUser cfg userId s =
          (Inr (find (\<lambda>item. u_userId item = userId) (visible cfg ''users'' s)), s1) \<and>
        same cfg ''users'' s s1"
  unfolding getUser_def by (rule get_visible)

lemma getProduct_visible:
  "\<exists>s1. getProduct cfg productId s =
          (Inr (find (\<lambda>item. p_productId item = productId) (visible cfg ''products'' s)), s1) \<and>
        same cfg ''products'' s s1"
  unfolding getProduct_def by (rule get_visible)

lemma getDeposit_visible:
  "\<exists>s1. getDeposit cfg did s =
          (Inr (find (\<lambda>item. depositId item = did) (visible cfg ''deposits'' s)), s1) \<and>
        same cfg ''deposits'' s s1"
  unfolding getDeposit_def by (rule get_visible)

lemma approveOrder_effect:
  assumes A: "approveOrder cfg oid approvedBy now s = (r, s')"
  shows "(case find (\<lambda>item. orderId item = oid) (visible cfg ''orders'' s) of
           None \<Rightarrow> r = Inr (Failure ''Order not found'') \<and> same cfg ''orders'' s s'
         | Some order \<Rightarrow>
            if o_status order \<noteq> ''pending''
            then r = Inr (Failure ''Order cannot be approved'') \<and> same cfg ''orders'' s s'
            else r = Inr (Success order) \<and>
              updated cfg ''orders'' (\<lambda>item. orderId item = oid)
                (\<lambda>item. item\<lparr>o_status := ''processing'', paymentStatus := ''paid'',
                  o_approvedBy := Some approvedBy, o_approvedAt := Some now,
                  o_updatedAt := now\<rparr>) s s')"
proof -
  obtain s1 s2 where
    "getOrder cfg oid s = (Inr (find (\<lambda>item. orderId item = oid) (visible cfg ''orders'' s)), s1)"
    "same cfg ''orders'' s s1"
    "updateOrder cfg oid (\<lambda>item. item\<lparr>o_status := ''processing'', paymentStatus := ''paid'',
         o_approvedBy := Some approvedBy, o_approvedAt := Some now\<rparr>) now s1 =
       (Inr (list_ex (\<lambda>item. orderId item = oid) (visible cfg ''orders'' s)), s2)"
    "updated cfg ''orders'' (\<lambda>item. orderId item = oid)
       (\<lambda>item. item\<lparr>o_status := ''processing'', paymentStatus := ''paid'',
                  o_approvedBy := Some approvedBy, o_approvedAt := Some now,
                  o_updatedAt := now\<rparr>) s s2"
    unfolding getOrder_def updateOrder_eq
    using get_then_update [OF known_databases(3)] by blast
  with A show ?thesis
    by (auto simp: approveOrder_def approveOrder_try_def try_catch_def split: option.splits)
qed

lemma rejectOrder_effect:
  assumes A: "rejectOrder cfg oid reason rejectedBy now s = (r, s')"
  shows "(case find (\<lambda>item. orderId item = oid) (visible cfg ''orders'' s) of
           None \<Rightarrow> r = Inr (Failure ''Order not found'') \<and> same cfg ''orders'' s s'
         | Some order \<Rightarrow>
             r = Inr (Success order) \<and>
              updated cfg ''orders'' (\<lambda>item. orderId item = oid)
                (\<lambda>item. item\<lparr>o_status := ''cancelled'', paymentStatus := ''refunded'',
                  o_rejectedBy := Some rejectedBy, o_rejectionReason := Some reason,
                  o_rejectedAt := Some now, o_updatedAt := now\<rparr>) s s')"
proof -
  obtain s1 s2 where
    "getOrder cfg oid s = (Inr (find (\<lambda>item. orderId item = oid) (visible cfg ''orders'' s)), s1)"
    "same cfg ''orders'' s s1"
    "updateOrder cfg oid (\<lambda>item. item\<lparr>o_status := ''cancelled'', paymentStatus := ''refunded'',
         o_rejectedBy := Some rejectedBy, o_rejectionReason := Some reason,
         o_rejectedAt := Some now\<rparr>) now s1 =
       (Inr (list_ex (\<lambda>item. orderId item = oid) (visible cfg ''orders'' s)), s2)"
    "updated cfg ''orders'' (\<lambda>item. orderId item = oid)
       (\<lambda>item. item\<lparr>o_status := ''cancelled'', paymentStatus := ''refunded'',
                  o_rejectedBy := Some rejectedBy, o_rejectionReason := Some reason,
                  o_rejectedAt := Some now, o_updatedAt := now\<rparr>) s s2"
    unfolding getOrder_def updateOrder_eq
    using get_then_update [OF known_databases(3)] by blast
  with A show ?thesis
    by (auto simp: rejectOrder_def rejectOrder_try_def try_catch_def split: option.splits)
qed

lemma completeOrder_effect:
  assumes A: "completeOrder cfg oid now s = (r, s')"
  shows "(case find (\<lambda>item. orderId item = oid) (visible cfg ''orders'' s) of
           None \<Rightarrow> r = Inr (Failure ''Order not found'') \<and> same cfg ''orders'' s s'
         | Some order \<Rightarrow>
             r = Inr (Success order) \<and>
              updated cfg ''orders'' (\<lambda>item. orderId item = oid)
                (\<lambda>item. item\<lparr>o_status := ''completed'', deliveryStatus := ''delivered'',
                  completedAt := Some now, o_updatedAt := now\<rparr>) s s')"
proof -
  obtain s1 s2 where
    "getOrder cfg oid s = (Inr (find (\<lambda>item. orderId item = oid) (visible cfg ''orders'' s)), s1)"
    "same cfg ''orders'' s s1"
    "updateOrder cfg oid (\<lambda>item. item\<lparr>o_status := ''completed'',
         deliveryStatus := ''delivered'', completedAt := Some now\<rparr>) now s1 =
       (Inr (list_ex (\<lambda>item. orderId item = oid) (visible cfg ''orders'' s)), s2)"
    "updated cfg ''orders'' (\<lambda>item. orderId item = oid)
       (\<lambda>item. item\<lparr>o_status := ''completed'', deliveryStatus := ''delivered'',
                  completedAt := Some now, o_updatedAt := now\<rparr>) s s2"
    unfolding getOrder_def updateOrder_eq
    using get_then_update [OF known_databases(3)] by blast
  with A show ?thesis
    by (auto simp: completeOrder_def completeOrder_try_def try_catch_def split: option.splits)
qed

lemma cancelOrder_effect:
  assumes A: "cancelOrder cfg oid reason now s = (r, s')"
  shows "(case find (\<lambda>item. orderId item = oid) (visible cfg ''orders'' s) of
           None \<Rightarrow> r = Inr (Failure ''Order not found'') \<and> same cfg ''orders'' s s'
         | Some order \<Rightarrow>
            if o_status order \<noteq> ''pending'' \<and> o_status order \<noteq> ''processing''
            then r = Inr (Failure ''Order cannot be cancelled'') \<and> same cfg ''orders'' s s'
            else r = Inr (Success order) \<and>
              updated cfg ''orders'' (\<lambda>item. orderId item = oid)
                (\<lambda>item. item\<lparr>o_status := ''cancelled'', cancellationReason := Some reason,
                  o_cancelledAt := Some now, o_updatedAt := now\<rparr>) s s')"
proof -
  obtain s1 s2 where
    "getOrder cfg oid s = (Inr (find (\<lambda>item. orderId item = oid) (visible cfg ''orders'' s)), s1)"
    "same cfg ''orders'' s s1"
    "updateOrder cfg oid (\<lambda>item. item\<lparr>o_status := ''cancelled'',
         cancellationReason := Some reason, o_cancelledAt := Some now\<rparr>) now s1 =
       (Inr (list_ex (\<lambda>item. orderId item = oid) (visible cfg ''orders'' s)), s2)"
    "updated cfg ''orders'' (\<lambda>item. orderId item = oid)
       (\<lambda>item. item\<lparr>o_status := ''cancelled'', cancellationReason := Some reason,
                  o_cancelledAt := Some now, o_updatedAt := now\<rparr>) s s2"
    unfolding getOrder_def updateOrder_eq
    using get_then_update [OF known_databases(3)] by blast
  with A show ?thesis
    by (auto simp: cancelOrder_def cancelOrder_try_def try_catch_def split: option.splits)
qed

lemma approveDeposit_effect:
  assumes A: "approveDeposit cfg did approvedBy now s = (r, s')"
  shows "(case find (\<lambda>item. depositId item = did) (visible cfg ''deposits'' s) of
           None \<Rightarrow> r = Inr (Failure ''Deposit not found'') \<and> same cfg ''deposits'' s s'
         | Some deposit \<Rightarrow>
            if d_status deposit \<noteq> ''pending''
            then r = Inr (Failure ''Deposit cannot be approved'') \<and> same cfg ''deposits'' s s'
            else r = Inr (Success deposit) \<and>
              updated cfg ''deposits'' (\<lambda>item. depositId item = did)
                (\<lambda>item. item\<lparr>d_status := ''completed'', d_approvedBy := Some approvedBy,
                  d_approvedAt := Some now, d_updatedAt := now\<rparr>) s s')"
proof -
  obtain s1 s2 where
    "getDeposit cfg did s =
       (Inr (find (\<lambda>item. depositId item = did) (visible cfg ''deposits'' s)), s1)"
    "same cfg ''deposits'' s s1"
    "updateDeposit cfg did (\<lambda>item. item\<lparr>d_status := ''completed'',
         d_approvedBy := Some approvedBy, d_approvedAt := Some now\<rparr>) now s1 =
       (Inr (list_ex (\<lambda>item. depositId item = did) (visible cfg ''deposits'' s)), s2)"
    "updated cfg ''deposits'' (\<lambda>item. depositId item = did)
       (\<lambda>item. item\<lparr>d_status := ''completed'', d_approvedBy := Some approvedBy,
                  d_approvedAt := Some now, d_updatedAt := now\<rparr>) s s2"
    unfolding getDeposit_def updateDeposit_eq
    using get_then_update [OF known_databases(4)] by blast
  with A show ?thesis
    by (auto simp: approveDeposit_def approveDeposit_try_def try_catch_def split: option.splits)
qed

lemma rejectDeposit_effect:
  assumes A: "rejectDeposit cfg did reason rejectedBy now s = (r, s')"
  shows "(case find (\<lambda>item. depositId item = did) (visible cfg ''deposits'' s) of
           None \<Rightarrow> r = Inr (Failure ''Deposit not found'') \<and> same cfg ''deposits'' s s'
         | Some deposit \<Rightarrow>
             r = Inr (Success deposit) \<and>
              updated cfg ''deposits'' (\<lambda>item. depositId item = did)
                (\<lambda>item. item\<lparr>d_status := ''rejected'', d_rejectedBy := Some rejectedBy,
                  d_rejectionReason := Some reason, d_rejectedAt := Some now,
                  d_updatedAt := now\<rparr>) s s')"
proof -
  obtain s1 s2 where
    "getDeposit cfg did s =
       (Inr (find (\<lambda>item. depositId item = did) (visible cfg ''deposits'' s)), s1)"
    "same cfg ''deposits'' s s1"
    "updateDeposit cfg did (\<lambda>item. item\<lparr>d_status := ''rejected'',
         d_rejectedBy := Some rejectedBy, d_rejectionReason := Some reason,
         d_rejectedAt := Some now\<rparr>) now s1 =
       (Inr (list_ex (\<lambda>item. depositId item = did) (visible cfg ''deposits'' s)), s2)"
    "updated cfg ''deposits'' (\<lambda>item. depositId item = did)
       (\<lambda>item. item\<lparr>d_status := ''rejected'', d_rejectedBy := Some rejectedBy,
                  d_rejectionReason := Some reason, d_rejectedAt := Some now,
                  d_updatedAt := now\<rparr>) s s2"
    unfolding getDeposit_def updateDeposit_eq
    using get_then_update [OF known_databases(4)] by blast
  with A show ?thesis
    by (auto simp: rejectDeposit_def rejectDeposit_try_def try_catch_def split: option.splits)
qed

lemma handleDepositActions_cancel_effect:
  assumes A: "handleDepositActions_cancel cfg gateway ui_ok did now s = (r, s')"
  shows "r = Inr () \<and>
         updated cfg ''deposits'' (\<lambda>item. depositId item = did)
           (\<lambda>item. item\<lparr>d_status := ''cancelled'', d_cancelledAt := Some now,
                         d_updatedAt := now\<rparr>) s s'"
proof -
  obtain s1 s2 where
    "getDeposit cfg did s =
       (Inr (find (\<lambda>item. depositId item = did) (visible cfg ''deposits'' s)), s1)"
    "same cfg ''deposits'' s s1"
    "updateDeposit cfg did (\<lambda>item. item\<lparr>d_status := ''cancelled'',
         d_cancelledAt := Some now\<rparr>) now s1 =
       (Inr (list_ex (\<lambda>item. depositId item = did) (visible cfg ''deposits'' s)), s2)"
    "updated cfg ''deposits'' (\<lambda>item. depositId item = did)
       (\<lambda>item. item\<lparr>d_status := ''cancelled'', d_cancelledAt := Some now,
                     d_updatedAt := now\<rparr>) s s2"
    unfolding getDeposit_def updateDeposit_eq
    using get_then_update [OF known_databases(4)] by blast
  with A show ?thesis
    by (auto simp: handleDepositActions_cancel_def handleDepositActions_cancel_try_def
        try_catch_def cancelQRISPayment_def split: option.splits if_splits)
qed

lemma updateBalance_effect:
  assumes A: "updateBalance cfg userId amount type now s = (r, s')"
  shows "(case find (\<lambda>item. u_userId item = userId) (visible cfg ''users'' s) of
           None \<Rightarrow> r = Inr (Failure ''User not found'') \<and> same cfg ''users'' s s'
         | Some user \<Rightarrow>
            if type = ''subtract'' \<and> balance user < amount
            then r = Inr (Failure ''Insufficient balance'') \<and> same cfg ''users'' s s'
            else r = Inr (Success
                     (if type = ''add'' then balance user + amount
                      else if type = ''subtract'' then balance user - amount
                      else if type = ''set'' then amount else balance user)) \<and>
              updated cfg ''users'' (\<lambda>item. u_userId item = userId)
                (\<lambda>item. item\<lparr>balance :=
                     (if type = ''add'' then balance user + amount
                      else if type = ''subtract'' then balance user - amount
                      else if type = ''set'' then amount else balance user),
                   lastActivity := now, u_updatedAt := now\<rparr>) s s')"
proof -
  obtain s1 where G:
    "getUser cfg userId s =
       (Inr (find (\<lambda>item. u_userId item = userId) (visible cfg ''users'' s)), s1)"
    and S: "same cfg ''users'' s s1"
    using getUser_visible by blast
  have U: "\<exists>b s2. updateUser cfg userId (\<lambda>item. item\<lparr>balance := nb\<rparr>) now s1 =
            (Inr b, s2) \<and>
          updated cfg ''users'' (\<lambda>item. u_userId item = userId)
            (\<lambda>item. item\<lparr>balance := nb, lastActivity := now, u_updatedAt := now\<rparr>) s s2"
    for nb
    unfolding updateUser_eq
    using update_after_same [OF known_databases(1) S] by blast
  show ?thesis
  proof (cases "find (\<lambda>item. u_userId item = userId) (visible cfg ''users'' s)")
    case None
    with A G S show ?thesis
      by (simp add: updateBalance_def updateBalance_try_def try_catch_def)
  next
    case (Some user)
    show ?thesis
    proof (cases "type = ''subtract'' \<and> balance user < amount")
      case True
      with A G S Some show ?thesis
        by (simp add: updateBalance_def updateBalance_try_def try_catch_def)
    next
      case False
      let ?nb = "if type = ''add'' then balance user + amount
                 else if type = ''subtract'' then balance user - amount
                 else if type = ''set'' then amount else balance user"
      from U [of ?nb] obtain s2 b where
        "updateUser cfg userId (\<lambda>item. item\<lparr>balance := ?nb\<rparr>) now s1 = (Inr b, s2)"
        "updated cfg ''users'' (\<lambda>item. u_userId item = userId)
            (\<lambda>item. item\<lparr>balance := ?nb, lastActivity := now, u_updatedAt := now\<rparr>) s s2"
        by blast
      with A G Some False show ?thesis
        by (auto simp: updateBalance_def updateBalance_try_def try_catch_def
            split: if_splits)
    qed
  qed
qed

lemma incrementOrderCount_effect:
  assumes A: "incrementOrderCount cfg userId now s = (r, s')"
  shows "(case find (\<lambda>item. u_userId item = userId) (visible cfg ''users'' s) of
           None \<Rightarrow> r = Inr False \<and> same cfg ''users'' s s'
         | Some user \<Rightarrow>
             r = Inr True \<and>
              updated cfg ''users'' (\<lambda>item. u_userId item = userId)
                (\<lambda>item. item\<lparr>totalOrders_key :=
                      Some ((case totalOrders_nested user of None \<Rightarrow> 0 | Some n \<Rightarrow> n) + 1),
                   lastActivity := now, u_updatedAt := now\<rparr>) s s')"
proof -
  obtain s1 where G:
    "getUser cfg userId s =
       (Inr (find (\<lambda>item. u_userId item = userId) (visible cfg ''users'' s)), s1)"
    and S: "same cfg ''users'' s s1"
    using getUser_visible by blast
  have U: "\<exists>b s2. updateUser cfg userId (\<lambda>item. item\<lparr>totalOrders_key := k\<rparr>) now s1 =
            (Inr b, s2) \<and>
          updated cfg ''users'' (\<lambda>item. u_userId item = userId)
            (\<lambda>item. item\<lparr>totalOrders_key := k, lastActivity := now, u_updatedAt := now\<rparr>) s s2"
    for k
    unfolding updateUser_eq
    using update_after_same [OF known_databases(1) S] by blast
  show ?thesis
  proof (cases "find (\<lambda>item. u_userId item = userId) (visible cfg ''users'' s)")
    case None
    with A G S show ?thesis
      by (simp add: incrementOrderCount_def incrementOrderCount_try_def try_catch_def)
  next
    case (Some user)
    from U [of "Some ((case totalOrders_nested user of None \<Rightarrow> 0 | Some n \<Rightarrow> n) + 1)"]
    obtain s2 b where
      "updateUser cfg userId (\<lambda>item. item\<lparr>totalOrders_key :=
          Some ((case totalOrders_nested user of None \<Rightarrow> 0 | Some n \<Rightarrow> n) + 1)\<rparr>) now s1 =
        (Inr b, s2)"
      "updated cfg ''users'' (\<lambda>item. u_userId item = userId)
          (\<lambda>item. item\<lparr>totalOrders_key :=
              Some ((case totalOrders_nested user of None \<Rightarrow> 0 | Some n \<Rightarrow> n) + 1),
            lastActivity := now, u_updatedAt := now\<rparr>) s s2"
      by blast
    with A G Some show ?thesis
      by (auto simp: incrementOrderCount_def incrementOrderCount_try_def try_catch_def)
  qed
qed

lemma incrementSalesCount_effect:
  assumes A: "incrementSalesCount cfg productId now s = (r, s')"
  shows "(case find (\<lambda>item. p_productId item = productId) (visible cfg ''products'' s) of
           None \<Rightarrow> r = Inr False \<and> same cfg ''products'' s s'
         | Some product \<Rightarrow>
             r = Inr True \<and>
              updated cfg ''products'' (\<lambda>item. p_productId item = productId)
                (\<lambda>item. item\<lparr>totalSales := Some (or_zero (totalSales product) + 1),
                   stock := Some (max 0 (or_zero (stock product) - 1)),
                   p_updatedAt := now\<rparr>) s s')"
proof -
  obtain s1 where G:
    "getProduct cfg productId s =
       (Inr (find (\<lambda>item. p_productId item = productId) (visible cfg ''products'' s)), s1)"
    and S: "same cfg ''products'' s s1"
    using getProduct_visible by blast
  have U: "\<exists>b s2. updateProduct cfg productId
              (\<lambda>item. item\<lparr>totalSales := t, stock := k\<rparr>) now s1 = (Inr b, s2) \<and>
          updated cfg ''products'' (\<lambda>item. p_productId item = productId)
            (\<lambda>item. item\<lparr>totalSales := t, stock := k, p_updatedAt := now\<rparr>) s s2"
    for t k
    unfolding updateProduct_eq
    using update_after_same [OF known_databases(2) S] by blast
  show ?thesis
  proof (cases "find (\<lambda>item. p_productId item = productId) (visible cfg ''products'' s)")
    case None
    with A G S show ?thesis
      by (simp add: incrementSalesCount_def incrementSalesCount_try_def try_catch_def)
  next
    case (Some product)
    from U [where t = "Some (or_zero (totalSales product) + 1)"
        and k = "Some (max 0 (or_zero (stock product) - 1))"]
    obtain s2 b where
      "updateProduct cfg productId
          (\<lambda>item. item\<lparr>totalSales := Some (or_zero (totalSales product) + 1),
             stock := Some (max 0 (or_zero (stock product) - 1))\<rparr>) now s1 = (Inr b, s2)"
      "updated cfg ''products'' (\<lambda>item. p_productId item = productId)
          (\<lambda>item. item\<lparr>totalSales := Some (or_zero (totalSales product) + 1),
             stock := Some (max 0 (or_zero (stock product) - 1)), p_updatedAt := now\<rparr>) s s2"
      by blast
    with A G Some show ?thesis
      by (auto simp: incrementSalesCount_def incrementSalesCount_try_def try_catch_def Let_def)
  qed
qed

lemma updateStock_effect:
  assumes A: "updateStock cfg productId quantity operation now s = (r, s')"
  shows "(case find (\<lambda>item. p_productId item = productId) (visible cfg ''products'' s) of
           None \<Rightarrow> r = Inr (Failure ''Product not found'') \<and> same cfg ''products'' s s'
         | Some product \<Rightarrow>
             r = Inr (Success
                   (if operation = ''add'' then or_zero (stock product) + quantity
                    else if operation = ''subtract'' then
                      max 0 (or_zero (stock product) - quantity)
                    else if operation = ''set'' then quantity
                    else or_zero (stock product))) \<and>
              updated cfg ''products'' (\<lambda>item. p_productId item = productId)
                (\<lambda>item. item\<lparr>stock := Some
                   (if operation = ''add'' then or_zero (stock product) + quantity
                    else if operation = ''subtract'' then
                      max 0 (or_zero (stock product) - quantity)
                    else if operation = ''set'' then quantity
                    else or_zero (stock product)),
                   p_updatedAt := now\<rparr>) s s')"
proof -
  obtain s1 where G:
    "getProduct cfg productId s =
       (Inr (find (\<lambda>item. p_productId item = productId) (visible cfg ''products'' s)), s1)"
    and S: "same cfg ''products'' s s1"
    using getProduct_visible by blast
  have U: "\<exists>b s2. updateProduct cfg productId (\<lambda>item. item\<lparr>stock := k\<rparr>) now s1 = (Inr b, s2) \<and>
          updated cfg ''products'' (\<lambda>item. p_productId item = productId)
            (\<lambda>item. item\<lparr>stock := k, p_updatedAt := now\<rparr>) s s2"
    for k
    unfolding updateProduct_eq
    using update_after_same [OF known_databases(2) S] by blast
  show ?thesis
  proof (cases "find (\<lambda>item. p_productId item = productId) (visible cfg ''products'' s)")
    case None
    with A G S show ?thesis
      by (simp add: updateStock_def updateStock_try_def try_catch_def)
  next
    case (Some product)
    let ?k = "if operation = ''add'' then or_zero (stock product) + quantity
              else if operation = ''subtract'' then max 0 (or_zero (stock product) - quantity)
              else if operation = ''set'' then quantity
              else or_zero (stock product)"
    from U [of "Some ?k"]
    obtain s2 b where
      "updateProduct cfg productId (\<lambda>item. item\<lparr>stock := Some ?k\<rparr>) now s1 = (Inr b, s2)"
      "updated cfg ''products'' (\<lambda>item. p_productId item = productId)
          (\<lambda>item. item\<lparr>stock := Some ?k, p_updatedAt := now\<rparr>) s s2"
      by blast
    with A G Some show ?thesis
      by (auto simp: updateStock_def updateStock_try_def try_catch_def Let_def)
  qed
qed

section \<open>The expiry sweeps\<close>

lemma deposits_loop_skip:
  "\<not> overdue now d \<Longrightarrow>
   cleanupExpiredDeposits_loop cfg g now (d # rest) n s =
     cleanupExpiredDeposits_loop cfg g now rest n s"
  by (auto simp: overdue_def split: option.splits)

lemma deposits_loop_due:
  assumes "overdue now d"
  shows "\<exists>s2. updated cfg ''deposits'' (\<lambda>item. depositId item = depositId d) (expire now) s s2 \<and>
           cleanupExpiredDeposits_loop cfg g now (d # rest) n s =
             cleanupExpiredDeposits_loop cfg g now rest (n + 1) s2"
proof -
  obtain b s2 where U: "updateDeposit cfg (depositId d)
        (\<lambda>item. item\<lparr>d_status := ''expired'', expiredAt := Some now\<rparr>) now s = (Inr b, s2)"
    and E: "updated cfg ''deposits'' (\<lambda>item. depositId item = depositId d)
        (\<lambda>item. item\<lparr>d_status := ''expired'', expiredAt := Some now, d_updatedAt := now\<rparr>) s s2"
    unfolding updateDeposit_eq
    using update_db_updated [OF known_databases(4)] by (metis (no_types, lifting))
  have "(\<lambda>item. item\<lparr>d_status := ''expired'', expiredAt := Some now, d_updatedAt := now\<rparr>) =
        expire now" by (simp add: expire_def fun_eq_iff)
  with E have E': "updated cfg ''deposits'' (\<lambda>item. depositId item = depositId d)
        (expire now) s s2" by simp
  from assms U have "cleanupExpiredDeposits_loop cfg g now (d # rest) n s =
             cleanupExpiredDeposits_loop cfg g now rest (n + 1) s2"
    by (auto simp: overdue_def cancelQRISPayment_def split: option.splits)
  with E' show ?thesis by blast
qed

lemma expire_twice: "expire now (expire now d) = expire now d"
  by (simp add: expire_def)

lemma expire_id: "depositId (expire now d) = depositId d"
  by (simp add: expire_def)

lemma updated_cases:
  assumes "updated cfg dbName q m s s'"
  shows "visible cfg dbName s' = visible cfg dbName s \<or>
         visible cfg dbName s' = change q m (visible cfg dbName s)"
  using assms by (auto simp: updated_def split: if_splits)

lemma updated_writes_ok:
  assumes "updated cfg dbName q m s s'" "writes_ok cfg s"
  shows "writes_ok cfg s'" "visible cfg dbName s' = change q m (visible cfg dbName s)"
proof -
  from assms(1) have "writes s' = tl (writes s) \<or> writes s' = writes s"
    by (auto simp: updated_def)
  with assms(2) show "writes_ok cfg s'" by (rule writes_ok_tl)
  from assms(2) have "write_ok cfg s" by (rule writes_ok_write_ok)
  with assms(1) show "visible cfg dbName s' = change q m (visible cfg dbName s)"
    by (simp add: updated_def)
qed

lemma cleanupExpiredDeposits_loop_effect:
  assumes "cleanupExpiredDeposits_loop cfg g now ds n s = (r, s')"
  shows "(\<exists>k. r = Inr k) \<and>
     list_all2 (\<lambda>x y. y = x \<or>
          (depositId x \<in> depositId ` {d \<in> set ds. overdue now d} \<and> y = expire now x))
       (visible cfg ''deposits'' s) (visible cfg ''deposits'' s') \<and>
     (writes_ok cfg s \<longrightarrow> writes_ok cfg s' \<and>
        visible cfg ''deposits'' s' =
          map (\<lambda>x. if depositId x \<in> depositId ` {d \<in> set ds. overdue now d}
                    then expire now x else x) (visible cfg ''deposits'' s))"
  using assms
proof (induction ds arbitrary: n s)
  case Nil
  then show ?case by (auto simp: list_all2_same)
next
  case (Cons d rest)
  let ?ids = "depositId ` {x \<in> set rest. overdue now x}"
  let ?ids' = "depositId ` {x \<in> set (d # rest). overdue now x}"
  show ?case
  proof (cases "overdue now d")
    case False
    then have ids: "?ids' = ?ids" by auto
    have "cleanupExpiredDeposits_loop cfg g now rest n s =
          cleanupExpiredDeposits_loop cfg g now (d # rest) n s"
      using False by (rule deposits_loop_skip [symmetric])
    with Cons.prems have "cleanupExpiredDeposits_loop cfg g now rest n s = (r, s')"
      by (simp only:)
    from Cons.IH [OF this] show ?thesis unfolding ids .
  next
    case True
    then have ids: "?ids' = insert (depositId d) ?ids" by auto
    from deposits_loop_due [OF True, of cfg s g rest n] Cons.prems obtain s2 where
      U: "updated cfg ''deposits'' (\<lambda>item. depositId item = depositId d) (expire now) s s2"
      and L: "cleanupExpiredDeposits_loop cfg g now rest (n + 1) s2 = (r, s')"
      by auto
    note IH = Cons.IH [OF L]
    let ?xs = "visible cfg ''deposits'' s"
    let ?ys = "visible cfg ''deposits'' s2"
    let ?zs = "visible cfg ''deposits'' s'"
    have R1: "list_all2 (\<lambda>x y. y = x \<or> (depositId x = depositId d \<and> y = expire now x)) ?xs ?ys"
      using U by (rule updated_rel) simp_all
    from IH have R2: "list_all2 (\<lambda>x y. y = x \<or> (depositId x \<in> ?ids \<and> y = expire now x)) ?ys ?zs"
      by simp
    have rel: "list_all2 (\<lambda>x y. y = x \<or> (depositId x \<in> ?ids' \<and> y = expire now x)) ?xs ?zs"
      using R1 R2
    proof (rule list_all2_trans [rotated])
      fix x y z
      assume "y = x \<or> (depositId x = depositId d \<and> y = expire now x)"
        "z = y \<or> (depositId y \<in> ?ids \<and> z = expire now y)"
      then show "z = x \<or> (depositId x \<in> ?ids' \<and> z = expire now x)"
        unfolding ids by (auto simp: expire_twice expire_id)
    qed
    have ok: "writes_ok cfg s' \<and> ?zs = map (\<lambda>x. if depositId x \<in> ?ids' then expire now x else x) ?xs"
      if w: "writes_ok cfg s"
    proof -
      from updated_writes_ok [OF U w] have w2: "writes_ok cfg s2"
        and ys: "?ys = change (\<lambda>item. depositId item = depositId d) (expire now) ?xs" by simp_all
      from IH w2 have "writes_ok cfg s'"
        and "?zs = map (\<lambda>x. if depositId x \<in> ?ids then expire now x else x) ?ys" by simp_all
      then show ?thesis unfolding ys ids
        by (simp add: change_def expire_twice expire_id)
    qed
    from IH rel ok show ?thesis by blast
  qed
qed

lemma cleanupExpiredDeposits_unfold:
  "\<exists>s1. same cfg ''deposits'' s s1 \<and>
     cleanupExpiredDeposits cfg g now s =
       cleanupExpiredDeposits_loop cfg g now (visible cfg ''deposits'' s) 0 s1"
proof -
  obtain s1 where R: "readData cfg ''deposits'' s = (Inr (peek cfg ''deposits'' s), s1)"
    using readData_peek by blast
  from readData_state [OF R] visible_state [OF R] have S: "same cfg ''deposits'' s s1"
    by (simp add: same_def)
  obtain r s' where L: "cleanupExpiredDeposits_loop cfg g now
      (visible cfg ''deposits'' s) 0 s1 = (r, s')"
    by (cases "cleanupExpiredDeposits_loop cfg g now (visible cfg ''deposits'' s) 0 s1")
  from cleanupExpiredDeposits_loop_effect [OF L] obtain k where k: "r = Inr k" by blast
  have "cleanupExpiredDeposits cfg g now s = (r, s')"
  proof (cases "peek cfg ''deposits'' s")
    case (JArray ds)
    then have "visible cfg ''deposits'' s = ds" by (simp add: visible_def items_of_def)
    with R JArray L k show ?thesis
      by (simp add: cleanupExpiredDeposits_def cleanupExpiredDeposits_try_def try_catch_def)
  next
    case (JString t)
    then have "visible cfg ''deposits'' s = []" by (simp add: visible_def items_of_def)
    with R JString L show ?thesis
      by (auto simp: cleanupExpiredDeposits_def cleanupExpiredDeposits_try_def try_catch_def)
  next
    case (JOther t)
    then have "visible cfg ''deposits'' s = []" by (simp add: visible_def items_of_def)
    with R JOther L show ?thesis
      by (auto simp: cleanupExpiredDeposits_def cleanupExpiredDeposits_try_def try_catch_def)
  qed
  with S L show ?thesis by auto
qed

lemma cleanupExpiredDeposits_effect:
  assumes "cleanupExpiredDeposits cfg g now s = (r, s')"
  shows "(\<exists>k. r = Inr k) \<and>
     list_all2 (\<lambda>x y. y = x \<or>
          (depositId x \<in> depositId ` {d \<in> set (visible cfg ''deposits'' s). overdue now d} \<and>
           y = expire now x))
       (visible cfg ''deposits'' s) (visible cfg ''deposits'' s') \<and>
     (writes_ok cfg s \<longrightarrow> writes_ok cfg s' \<and>
        visible cfg ''deposits'' s' =
          map (\<lambda>x. if depositId x \<in>
                        depositId ` {d \<in> set (visible cfg ''deposits'' s). overdue now d}
                    then expire now x else x) (visible cfg ''deposits'' s))"
proof -
  obtain s1 where S: "same cfg ''deposits'' s s1"
    and L: "cleanupExpiredDeposits cfg g now s =
       cleanupExpiredDeposits_loop cfg g now (visible cfg ''deposits'' s) 0 s1"
    using cleanupExpiredDeposits_unfold by blast
  from S have v: "visible cfg ''deposits'' s1 = visible cfg ''deposits'' s"
    and w: "writes_ok cfg s1 = writes_ok cfg s" by (simp_all add: same_def writes_ok_def)
  from L assms have "cleanupExpiredDeposits_loop cfg g now (visible cfg ''deposits'' s) 0 s1 = (r, s')"
    by simp
  from cleanupExpiredDeposits_loop_effect [OF this] show ?thesis unfolding v w .
qed

lemma find_distinct:
  "distinct (map key xs) \<Longrightarrow> x \<in> set xs \<Longrightarrow> find (\<lambda>i. key i = key x) xs = Some x"
  by (induction xs) (auto simp: image_iff)

lemma find_map_key:
  "(\<And>x. key (f x) = key x) \<Longrightarrow>
   find (\<lambda>i. key i = k) (map f xs) = map_option f (find (\<lambda>i. key i = k) xs)"
  by (induction xs) auto

lemma map_key_preserved:
  "(\<And>x. key (f x) = key x) \<Longrightarrow> map key (map f xs) = map key xs"
  by (induction xs) auto

lemma list_all2_in_set:
  "list_all2 R xs ys \<Longrightarrow> x \<in> set xs \<Longrightarrow> \<exists>y\<in>set ys. R x y"
  by (induction rule: list_all2_induct) auto

lemma list_all2_map_key:
  "list_all2 R xs ys \<Longrightarrow> (\<And>x y. R x y \<Longrightarrow> key y = key x) \<Longrightarrow> map key ys = map key xs"
  by (induction rule: list_all2_induct) auto

lemma getDeposit_find:
  "fst (getDeposit cfg did s) =
     Inr (find (\<lambda>item. depositId item = did) (visible cfg ''deposits'' s))"
  using getDeposit_visible [of cfg did s] by auto

lemma orders_loop_skip:
  "\<not> overdue_order now d \<Longrightarrow>
   cleanupExpiredOrders_loop cfg now (d # rest) n s = cleanupExpiredOrders_loop cfg now rest n s"
  by (auto simp: overdue_order_def split: option.splits)

lemma cancel_expired_twice: "cancel_expired now (cancel_expired now d) = cancel_expired now d"
  by (simp add: cancel_expired_def)

lemma cancel_expired_id: "orderId (cancel_expired now d) = orderId d"
  by (simp add: cancel_expired_def)

lemma orders_loop_due:
  assumes "overdue_order now d"
  shows "\<exists>s2. list_all2 (\<lambda>x y. y = x \<or> (orderId x = orderId d \<and> y = cancel_expired now x))
             (visible cfg ''orders'' s) (visible cfg ''orders'' s2) \<and>
           cleanupExpiredOrders_loop cfg now (d # rest) n s =
             cleanupExpiredOrders_loop cfg now rest (n + 1) s2"
proof -
  obtain r2 s2 where C: "cancelOrder cfg (orderId d) ''Order expired'' now s = (r2, s2)"
    by (cases "cancelOrder cfg (orderId d) ''Order expired'' now s")
  let ?R = "\<lambda>x y. y = x \<or> (orderId x = orderId d \<and> y = cancel_expired now x)"
  have m: "(\<lambda>item. item\<lparr>o_status := ''cancelled'', cancellationReason := Some ''Order expired'',
                  o_cancelledAt := Some now, o_updatedAt := now\<rparr>) = cancel_expired now"
    by (simp add: cancel_expired_def fun_eq_iff)
  note E = cancelOrder_effect [OF C, unfolded m]
  have r2: "\<exists>v. r2 = Inr v" using E by (auto split: option.splits if_splits)
  have "same cfg ''orders'' s s2 \<or>
        updated cfg ''orders'' (\<lambda>item. orderId item = orderId d) (cancel_expired now) s s2"
    using E by (auto split: option.splits if_splits)
  then have rel: "list_all2 ?R (visible cfg ''orders'' s) (visible cfg ''orders'' s2)"
  proof
    assume "same cfg ''orders'' s s2"
    then show ?thesis by (rule same_rel) simp
  next
    assume "updated cfg ''orders'' (\<lambda>item. orderId item = orderId d) (cancel_expired now) s s2"
    then show ?thesis by (rule updated_rel) simp_all
  qed
  from assms C r2 have "cleanupExpiredOrders_loop cfg now (d # rest) n s =
             cleanupExpiredOrders_loop cfg now rest (n + 1) s2"
    by (auto simp: overdue_order_def split: option.splits)
  with rel show ?thesis by blast
qed

lemma cleanupExpiredOrders_loop_effect:
  assumes "cleanupExpiredOrders_loop cfg now ds n s = (r, s')"
  shows "(\<exists>k. r = Inr k) \<and>
     list_all2 (\<lambda>x y. y = x \<or>
          (orderId x \<in> orderId ` {d \<in> set ds. overdue_order now d} \<and> y = cancel_expired now x))
       (visible cfg ''orders'' s) (visible cfg ''orders'' s')"
  using assms
proof (induction ds arbitrary: n s)
  case Nil
  then show ?case by (auto simp: list_all2_same)
next
  case (Cons d rest)
  let ?ids = "orderId ` {x \<in> set rest. overdue_order now x}"
  let ?ids' = "orderId ` {x \<in> set (d # rest). overdue_order now x}"
  show ?case
  proof (cases "overdue_order now d")
    case False
    then have ids: "?ids' = ?ids" by auto
    have "cleanupExpiredOrders_loop cfg now rest n s =
          cleanupExpiredOrders_loop cfg now (d # rest) n s"
      using False by (rule orders_loop_skip [symmetric])
    with Cons.prems have "cleanupExpiredOrders_loop cfg now rest n s = (r, s')"
      by (simp only:)
    from Cons.IH [OF this] show ?thesis unfolding ids .
  next
    case True
    then have ids: "?ids' = insert (orderId d) ?ids" by auto
    from orders_loop_due [OF True, of cfg s rest n] Cons.prems obtain s2 where
      R1: "list_all2 (\<lambda>x y. y = x \<or> (orderId x = orderId d \<and> y = cancel_expired now x))
             (visible cfg ''orders'' s) (visible cfg ''orders'' s2)"
      and L: "cleanupExpiredOrders_loop cfg now rest (n + 1) s2 = (r, s')"
      by auto
    note IH = Cons.IH [OF L]
    from IH have R2: "list_all2 (\<lambda>x y. y = x \<or> (orderId x \<in> ?ids \<and> y = cancel_expired now x))
        (visible cfg ''orders'' s2) (visible cfg ''orders'' s')"
      by simp
    have rel: "list_all2 (\<lambda>x y. y = x \<or> (orderId x \<in> ?ids' \<and> y = cancel_expired now x))
        (visible cfg ''orders'' s) (visible cfg ''orders'' s')"
      using R1 R2
    proof (rule list_all2_trans [rotated])
      fix x y z
      assume "y = x \<or> (orderId x = orderId d \<and> y = cancel_expired now x)"
        "z = y \<or> (orderId y \<in> ?ids \<and> z = cancel_expired now y)"
      then show "z = x \<or> (orderId x \<in> ?ids' \<and> z = cancel_expired now x)"
        unfolding ids by (auto simp: cancel_expired_twice cancel_expired_id)
    qed
    from IH rel show ?thesis by blast
  qed
qed

lemma cleanupExpiredOrders_effect:
  assumes "cleanupExpiredOrders cfg now s = (r, s')"
  shows "(\<exists>k. r = Inr k) \<and>
     list_all2 (\<lambda>x y. y = x \<or>
          (orderId x \<in> orderId ` {d \<in> set (visible cfg ''orders'' s). overdue_order now d} \<and>
           y = cancel_expired now x))
       (visible cfg ''orders'' s) (visible cfg ''orders'' s')"
proof -
  obtain s1 where R: "readData cfg ''orders'' s = (Inr (peek cfg ''orders'' s), s1)"
    using readData_peek by blast
  from visible_state [OF R] have v: "visible cfg ''orders'' s1 = visible cfg ''orders'' s" .
  obtain r1 s1' where L: "cleanupExpiredOrders_loop cfg now
      (visible cfg ''orders'' s) 0 s1 = (r1, s1')"
    by (cases "cleanupExpiredOrders_loop cfg now (visible cfg ''orders'' s) 0 s1")
  note E = cleanupExpiredOrders_loop_effect [OF L, unfolded v]
  from E obtain k where k: "r1 = Inr k" by blast
  have "cleanupExpiredOrders cfg now s = (r1, s1')"
  proof (cases "peek cfg ''orders'' s")
    case (JArray ds)
    then have "visible cfg ''orders'' s = ds" by (simp add: visible_def items_of_def)
    with R JArray L k show ?thesis
      by (simp add: cleanupExpiredOrders_def cleanupExpiredOrders_try_def try_catch_def)
  next
    case (JString t)
    then have "visible cfg ''orders'' s = []" by (simp add: visible_def items_of_def)
    with R JString L show ?thesis
      by (auto simp: cleanupExpiredOrders_def cleanupExpiredOrders_try_def try_catch_def)
  next
    case (JOther t)
    then have "visible cfg ''orders'' s = []" by (simp add: visible_def items_of_def)
    with R JOther L show ?thesis
      by (auto simp: cleanupExpiredOrders_def cleanupExpiredOrders_try_def try_catch_def)
  qed
  with assms E show ?thesis by simp
qed

text \<open>With distinct keys, the record a lookup finds is the only one its update touches.\<close>

lemma found_only:
  assumes "distinct (map key xs)" "find (\<lambda>i. key i = k) xs = Some y"
    "x \<in> set xs" "key x = k"
  shows "x = y"
proof -
  from assms(1) have "inj_on key (set xs)" by (simp add: distinct_map)
  moreover from find_set [OF assms(2)] have "y \<in> set xs" "key y = k" by simp_all
  ultimately show ?thesis using assms(3,4) by (auto dest: inj_onD)
qed

lemma overdue_only:
  assumes "distinct (map key xs)" "x \<in> set xs" "key x \<in> key ` {d \<in> set xs. P d}"
  shows "P x"
proof -
  from assms(3) obtain d where d: "d \<in> set xs" "P d" "key d = key x" by auto
  from assms(1) have "inj_on key (set xs)" by (simp add: distinct_map)
  from inj_onD [OF this d(3) d(1) assms(2)] d(2) show ?thesis by simp
qed

lemma list_all2_mono_set:
  assumes "list_all2 R xs ys" "\<And>x y. x \<in> set xs \<Longrightarrow> R x y \<Longrightarrow> Q x y"
  shows "list_all2 Q xs ys"
  using assms by (induction rule: list_all2_induct) auto

section \<open>Inserting a record\<close>

lemma insert_db_ok:
  assumes "dbName \<in> set databases" "write_ok cfg s" "peek cfg dbName s = JArray xs"
  shows "\<exists>s'. insert_db cfg dbName touch item s = (Inr (Some (touch item)), s') \<and>
           visible cfg dbName s' = xs @ [touch item] \<and> writes s' = tl (writes s) \<and>
           disk s' = Content (saveData cfg (JArray (xs @ [touch item])))"
proof -
  obtain s1 where R: "readData cfg dbName s = (Inr (peek cfg dbName s), s1)"
    using readData_peek by blast
  note S1 = readData_state [OF R]
  let ?pushed = "JArray (xs @ [touch item])"
  let ?s2 = "case cache s1 of Some c \<Rightarrow> s1\<lparr>cache := Some ?pushed\<rparr> | None \<Rightarrow> s1"
  have w2: "writes ?s2 = writes s" using S1(2) by (simp split: option.splits)
  with assms(2) have "write_ok cfg ?s2" by (simp add: write_ok_def)
  from writeData_ok [OF this assms(1), of ?pushed] obtain s3 where
    W: "writeData cfg dbName ?pushed ?s2 = (Inr True, s3)" and c: "cache s3 = Some ?pushed"
    and w3: "writes s3 = tl (writes ?s2)"
    and d: "disk s3 = Content (saveData cfg ?pushed)"
    unfolding saveData_def by blast
  from R assms(3) W have "insert_db cfg dbName touch item s = (Inr (Some (touch item)), s3)"
    by (simp add: insert_db_def insert_db_try_def try_catch_def Let_def)
  with c w3 w2 d show ?thesis by (simp add: visible_cache)
qed

lemma createOrder_ok:
  assumes "write_ok cfg s" "peek cfg ''orders'' s = JArray xs"
  shows "\<exists>s'. createOrder cfg newId userId productId amount now s =
             (Inr (Success (created_order newId userId productId amount now)), s') \<and>
           visible cfg ''orders'' s' = xs @ [created_order newId userId productId amount now] \<and>
           writes s' = tl (writes s) \<and>
           disk s' = Content (saveData cfg
                       (JArray (xs @ [created_order newId userId productId amount now])))"
proof -
  let ?order = "created_order newId userId productId amount now"
  have t: "?order\<lparr>o_updatedAt := now\<rparr> = ?order" by (simp add: created_order_def)
  from insert_db_ok [OF known_databases(3) assms, of "\<lambda>item. item\<lparr>o_updatedAt := now\<rparr>" ?order]
  obtain s' where "insert_db cfg ''orders'' (\<lambda>item. item\<lparr>o_updatedAt := now\<rparr>) ?order s =
        (Inr (Some ?order), s')"
    and "visible cfg ''orders'' s' = xs @ [?order]" "writes s' = tl (writes s)"
    and "disk s' = Content (saveData cfg (JArray (xs @ [?order])))"
    unfolding t by blast
  then show ?thesis
    by (simp add: createOrder_def createOrder_try_def try_catch_def Let_def
        created_order_def)
qed


lemma change_balance:
  "(\<And>x. balance (m x) = balance x) \<Longrightarrow> map balance (change q m xs) = map balance xs"
  by (induction xs) (auto simp: change_def)


section \<open>Facts about the cache\<close>

lemma coherent_cong:
  "cache s' = cache s \<Longrightarrow> disk s' = disk s \<Longrightarrow> coherent cfg s' = coherent cfg s"
  by (simp add: coherent_def split: option.splits)

lemma coherent_readData:
  assumes "coherent cfg s" "readData cfg dbName s = (r, s')"
  shows "coherent cfg s'"
proof -
  from readData_effect [OF assms(2)]
  consider (a) "s' = s" | (b) d where "cache s = None" "r = Inr d" "s' = s\<lparr>cache := Some d\<rparr>"
    by blast
  then show ?thesis
  proof cases
    case a
    with assms(1) show ?thesis by simp
  next
    case b
    have ne: "s\<lparr>cache := Some d\<rparr> \<noteq> s" using b(1) by (metis db.select_convs(2) db.surjective db.update_convs(2) option.distinct(1))
    from assms(2) b ne have "\<exists>raw. disk s = Content raw \<and> loaded cfg raw = Inr d"
      unfolding readData_def readData_try_def try_catch_def loaded_def
      by (simp split: if_splits jfile.splits sum.splits jdata.splits option.splits)
    with b show ?thesis by (auto simp: coherent_def)
  qed
qed

lemma coherent_writeData:
  assumes "coherent cfg s" "writeData cfg dbName d s = (r, s')"
  shows "coherent cfg s'"
proof -
  from writeData_effect(1) [OF assms(2)]
  consider (a) "r = Inr True" | (b) "cache s' = cache s" "disk s' = disk s" by blast
  then show ?thesis
  proof cases
    case a
    with assms(2) have "writeData cfg dbName d s = (Inr True, s')" by simp
    from writeData_true(3,4) [OF this] show ?thesis by (simp add: coherent_def)
  next
    case b
    from coherent_cong [OF b] assms(1) show ?thesis by simp
  qed
qed

lemma coherent_update_db:
  assumes "coherent cfg s"
  shows "coherent cfg (snd (update_db cfg dbName q m s))"
proof -
  obtain s1 where R: "readData cfg dbName s = (Inr (peek cfg dbName s), s1)"
    and E: "update_db cfg dbName q m s =
          (if list_ex q (visible cfg dbName s) then
             (Inr True, snd (writeData cfg dbName (JArray (change q m (visible cfg dbName s))) s1))
           else (Inr False, s1))"
    by (rule update_db_unfold)
  from assms R have c1: "coherent cfg s1" by (rule coherent_readData)
  obtain ok s2 where
    W: "writeData cfg dbName (JArray (change q m (visible cfg dbName s))) s1 = (Inr ok, s2)"
    using writeData_returns by blast
  from c1 W have "coherent cfg s2" by (rule coherent_writeData)
  with c1 E W show ?thesis by simp
qed

lemma coherent_findOne:
  assumes "coherent cfg s"
  shows "coherent cfg (snd (findOne cfg dbName q s))"
proof -
  obtain r s1 where R: "readData cfg dbName s = (r, s1)" by (cases "readData cfg dbName s")
  from assms R have "coherent cfg s1" by (rule coherent_readData)
  with R show ?thesis by (auto simp: findOne_def split: sum.splits jdata.splits)
qed

lemma coherent_findMany:
  assumes "coherent cfg s"
  shows "coherent cfg (snd (findMany cfg dbName q s))"
proof -
  obtain r s1 where R: "readData cfg dbName s = (r, s1)" by (cases "readData cfg dbName s")
  from assms R have "coherent cfg s1" by (rule coherent_readData)
  with R show ?thesis by (auto simp: findMany_def split: sum.splits jdata.splits)
qed

lemma coherent_delete_db:
  assumes "coherent cfg s"
  shows "coherent cfg (snd (delete_db cfg dbName q s))"
proof -
  obtain s1 where R: "readData cfg dbName s = (Inr (peek cfg dbName s), s1)"
    using readData_peek by blast
  from assms R have c1: "coherent cfg s1" by (rule coherent_readData)
  show ?thesis
  proof (cases "peek cfg dbName s")
    case (JArray xs)
    let ?new = "JArray (filter (\<lambda>item. \<not> q item) xs)"
    obtain ok s2 where W: "writeData cfg dbName ?new s1 = (Inr ok, s2)"
      using writeData_returns by blast
    from c1 W have "coherent cfg s2" by (rule coherent_writeData)
    with R JArray W c1 show ?thesis
      by (simp add: delete_db_def delete_db_try_def try_catch_def Let_def)
  next
    case (JString t)
    with R c1 show ?thesis by (simp add: delete_db_def delete_db_try_def try_catch_def)
  next
    case (JOther t)
    with R c1 show ?thesis by (simp add: delete_db_def delete_db_try_def try_catch_def)
  qed
qed

lemma coherent_initDatabase:
  assumes "coherent cfg s"
  shows "coherent cfg (snd (initDatabase cfg name dirs_ok s))"
proof -
  obtain ok s2 where W: "writeData cfg name (getDefaultData name) s = (Inr ok, s2)"
    using writeData_returns by blast
  from assms W have "coherent cfg s2" by (rule coherent_writeData)
  with W assms show ?thesis
    by (simp add: initDatabase_def initDatabase_try_def try_catch_def)
qed

lemma coherent_insert_db:
  assumes "coherent cfg s" "write_ok cfg s" "dbName \<in> set databases"
  shows "coherent cfg (snd (insert_db cfg dbName touch item s))"
proof -
  obtain s1 where R: "readData cfg dbName s = (Inr (peek cfg dbName s), s1)"
    using readData_peek by blast
  from assms(1) R have c1: "coherent cfg s1" by (rule coherent_readData)
  note S1 = readData_state [OF R]
  show ?thesis
  proof (cases "peek cfg dbName s")
    case (JArray xs)
    let ?pushed = "JArray (xs @ [touch item])"
    let ?s2 = "case cache s1 of Some c \<Rightarrow> s1\<lparr>cache := Some ?pushed\<rparr> | None \<Rightarrow> s1"
    have "writes ?s2 = writes s" using S1(2) by (simp split: option.splits)
    with assms(2) have "write_ok cfg ?s2" by (simp add: write_ok_def)
    from writeData_ok [OF this assms(3), of ?pushed] obtain s3 where
      W: "writeData cfg dbName ?pushed ?s2 = (Inr True, s3)" by blast
    from writeData_true(3,4) [OF W] have "coherent cfg s3" by (simp add: coherent_def)
    moreover from R JArray W have "snd (insert_db cfg dbName touch item s) = s3"
      by (simp add: insert_db_def insert_db_try_def try_catch_def Let_def)
    ultimately show ?thesis by simp
  next
    case (JString t)
    with R c1 show ?thesis by (simp add: insert_db_def insert_db_try_def try_catch_def)
  next
    case (JOther t)
    with R c1 show ?thesis by (simp add: insert_db_def insert_db_try_def try_catch_def)
  qed
qed

section \<open>The example states\<close>

lemma visible_on_disk:
  "dbName \<in> set databases \<Longrightarrow> visible plain_cfg dbName (on_disk items w) = items"
  by (simp add: visible_def items_of_def peek_def readData_def readData_try_def try_catch_def
      on_disk_def plain_cfg_def)

lemma found_visible:
  assumes "getOrder cfg oid s = (Inr found, s1)"
  shows "find (\<lambda>item. orderId item = oid) (visible cfg ''orders'' s) = found"
  using assms getOrder_visible [of cfg oid s] by auto

lemma found_user:
  assumes "getUser cfg userId s = (Inr found, s1)"
  shows "find (\<lambda>item. u_userId item = userId) (visible cfg ''users'' s) = found"
  using assms getUser_visible [of cfg userId s] by auto

lemma found_product:
  assumes "getProduct cfg productId s = (Inr found, s1)"
  shows "find (\<lambda>item. p_productId item = productId) (visible cfg ''products'' s) = found"
  using assms getProduct_visible [of cfg productId s] by auto

lemma getOrder_example:
  "getOrder plain_cfg ''ORD-1'' (on_disk [order1, order2] []) =
     (Inr (Some order1), (on_disk [order1, order2] [])\<lparr>cache := Some (JArray [order1, order2])\<rparr>)"
  "getOrder plain_cfg ''ORD-2'' (on_disk [order1, order2] []) =
     (Inr (Some order2), (on_disk [order1, order2] [])\<lparr>cache := Some (JArray [order1, order2])\<rparr>)"
  by (simp_all add: getOrder_def findOne_def readData_def readData_try_def try_catch_def
      on_disk_def plain_cfg_def databases_def order1_def order2_def)

lemma getUser_example:
  "getUser plain_cfg 7 (on_disk [user1] w) =
     (Inr (Some user1), (on_disk [user1] w)\<lparr>cache := Some (JArray [user1])\<rparr>)"
  by (simp add: getUser_def findOne_def readData_def readData_try_def try_catch_def
      on_disk_def plain_cfg_def databases_def user1_def)

lemma getProduct_example:
  "getProduct plain_cfg ''P1'' (on_disk [product1] w) =
     (Inr (Some product1), (on_disk [product1] w)\<lparr>cache := Some (JArray [product1])\<rparr>)"
  by (simp add: getProduct_def findOne_def readData_def readData_try_def try_catch_def
      on_disk_def plain_cfg_def databases_def product1_def)

section \<open>The claims\<close>

subsection \<open>C1: approving an order\<close>

text \<open>
  C1 (as amended). Let \<open>getOrder\<close> find an order under the identifier. If its status is
  \<open>pending\<close> and the write of the orders file goes through, \<open>approveOrder\<close> returns
  success with that order, a later \<open>getOrder\<close> returns the order with status
  \<open>processing\<close> and paymentStatus \<open>paid\<close> (and the approval stamps), and the file holds the
  updated collection. If its status is not \<open>pending\<close>, \<open>approveOrder\<close> returns a
  failure reply and neither the order, nor the collection, nor the file changes.
\<close>

theorem approveOrder_pending:
  assumes "getOrder cfg oid s = (Inr (Some order), s1)"
  shows "(o_status order = ''pending'' \<and> write_ok cfg s \<longrightarrow>
           (\<exists>s' s''. approveOrder cfg oid approvedBy now s = (Inr (Success order), s') \<and>
              getOrder cfg oid s' =
                (Inr (Some (order\<lparr>o_status := ''processing'', paymentStatus := ''paid'',
                    o_approvedBy := Some approvedBy, o_approvedAt := Some now,
                    o_updatedAt := now\<rparr>)), s'') \<and>
              disk s' = Content (saveData cfg (JArray (visible cfg ''orders'' s'))))) \<and>
         (o_status order \<noteq> ''pending'' \<longrightarrow>
           (\<exists>s' s''. approveOrder cfg oid approvedBy now s =
                (Inr (Failure ''Order cannot be approved''), s') \<and>
              getOrder cfg oid s' = (Inr (Some order), s'') \<and>
              visible cfg ''orders'' s' = visible cfg ''orders'' s \<and> disk s' = disk s))"
proof -
  let ?q = "\<lambda>item. orderId item = oid"
  let ?m = "\<lambda>item. item\<lparr>o_status := ''processing'', paymentStatus := ''paid'',
     o_approvedBy := Some approvedBy, o_approvedAt := Some now, o_updatedAt := now\<rparr>"
  let ?xs = "visible cfg ''orders'' s"
  have found: "find ?q ?xs = Some order" using assms by (rule found_visible)
  obtain r s' where A: "approveOrder cfg oid approvedBy now s = (r, s')"
    by (cases "approveOrder cfg oid approvedBy now s")
  obtain s'' where G: "getOrder cfg oid s' = (Inr (find ?q (visible cfg ''orders'' s')), s'')"
    using getOrder_visible by blast
  note E = approveOrder_effect [OF A, unfolded found, simplified]
  show ?thesis
  proof (intro conjI impI)
    assume "o_status order = ''pending'' \<and> write_ok cfg s"
    with E have r: "r = Inr (Success order)"
      and vis: "visible cfg ''orders'' s' = change ?q ?m ?xs"
      and d: "disk s' = Content (saveData cfg (JArray (change ?q ?m ?xs)))"
      using find_list_ex [OF found] by (simp_all add: updated_def)
    have "find ?q (change ?q ?m ?xs) = Some (?m order)"
      using found by (simp add: find_change)
    with A G r vis d
    show "\<exists>s' s''. approveOrder cfg oid approvedBy now s = (Inr (Success order), s') \<and>
              getOrder cfg oid s' = (Inr (Some (?m order)), s'') \<and>
              disk s' = Content (saveData cfg (JArray (visible cfg ''orders'' s')))"
      by auto
  next
    assume "o_status order \<noteq> ''pending''"
    with E have "r = Inr (Failure ''Order cannot be approved'')" "same cfg ''orders'' s s'"
      by simp_all
    with A G found
    show "\<exists>s' s''. approveOrder cfg oid approvedBy now s =
                (Inr (Failure ''Order cannot be approved''), s') \<and>
              getOrder cfg oid s' = (Inr (Some order), s'') \<and>
              visible cfg ''orders'' s' = visible cfg ''orders'' s \<and> disk s' = disk s"
      by (auto simp: same_def)
  qed
qed

theorem approveOrder_pending_witness:
  "(\<exists>s' s''. approveOrder plain_cfg ''ORD-1'' 1 100 (on_disk [order1, order2] []) =
        (Inr (Success order1), s') \<and>
      getOrder plain_cfg ''ORD-1'' s' =
        (Inr (Some (order1\<lparr>o_status := ''processing'', paymentStatus := ''paid'',
            o_approvedBy := Some 1, o_approvedAt := Some 100, o_updatedAt := 100\<rparr>)), s'') \<and>
      disk s' = Content (saveData plain_cfg (JArray (visible plain_cfg ''orders'' s')))) \<and>
   (\<exists>s' s''. approveOrder plain_cfg ''ORD-2'' 1 100 (on_disk [order1, order2] []) =
        (Inr (Failure ''Order cannot be approved''), s') \<and>
      getOrder plain_cfg ''ORD-2'' s' = (Inr (Some order2), s'') \<and>
      visible plain_cfg ''orders'' s' = visible plain_cfg ''orders'' (on_disk [order1, order2] []) \<and>
      disk s' = disk (on_disk [order1, order2] []))"
proof -
  have p: "o_status order1 = ''pending'' \<and> write_ok plain_cfg (on_disk [order1, order2] [])"
    by (simp add: order1_def write_ok_def plain_cfg_def on_disk_def)
  have n: "o_status order2 \<noteq> ''pending''" by (simp add: order2_def)
  from approveOrder_pending [OF getOrder_example(1), of 1 100] p
    approveOrder_pending [OF getOrder_example(2), of 1 100] n
  show ?thesis by blast
qed

text \<open>
  C1 as stated fails when the write of the orders file fails: \<open>approveOrder\<close> still
  returns success, and the order found afterwards, and the file, are as before.
\<close>

theorem approveOrder_failed_write_counterexample:
  "fst (getOrder plain_cfg ''ORD-1'' (on_disk [order1] [False])) = Inr (Some order1) \<and>
   o_status order1 = ''pending'' \<and>
   fst (approveOrder plain_cfg ''ORD-1'' 1 100 (on_disk [order1] [False])) =
     Inr (Success order1) \<and>
   fst (getOrder plain_cfg ''ORD-1''
         (snd (approveOrder plain_cfg ''ORD-1'' 1 100 (on_disk [order1] [False])))) =
     Inr (Some order1) \<and>
   disk (snd (approveOrder plain_cfg ''ORD-1'' 1 100 (on_disk [order1] [False]))) =
     Content (JArray [order1])"
  by (simp add: approveOrder_def approveOrder_try_def getOrder_def findOne_def readData_def
      readData_try_def updateOrder_def updateOrder_try_def update_db_def update_db_try_def
      writeData_def writeData_try_def fs_writeJson_def try_catch_def on_disk_def plain_cfg_def
      databases_def order1_def)

subsection \<open>C2: the deposit sweep marks a deposit once\<close>

text \<open>
  C2 (as amended). Deposits are told apart by their \<open>depositId\<close>. Let a deposit of the
  collection be \<open>pending\<close> with \<open>expiresAt\<close> strictly before the current time, and let
  the writes of the deposits file go through during the sweep. Then after one run of
  \<open>cleanupExpiredDeposits\<close> the deposit found under its identifier has status \<open>expired\<close>
  and carries the time of that run, and any further run, at any time and whatever happens
  to its writes, leaves this record as it is.
\<close>

theorem cleanupExpiredDeposits_once:
  assumes d: "d \<in> set (visible cfg ''deposits'' s)"
    and pending: "d_status d = ''pending''"
    and expiry: "d_expiresAt d = Some t" "t < now"
    and ids: "distinct (map depositId (visible cfg ''deposits'' s))"
    and w: "writes_ok cfg s"
  shows "\<exists>k s1. cleanupExpiredDeposits cfg gateway now s = (Inr k, s1) \<and>
     fst (getDeposit cfg (depositId d) s1) =
       Inr (Some (d\<lparr>d_status := ''expired'', expiredAt := Some now, d_updatedAt := now\<rparr>)) \<and>
     (\<forall>gateway' now' w'. \<exists>k' s2.
         cleanupExpiredDeposits cfg gateway' now' (s1\<lparr>writes := w'\<rparr>) = (Inr k', s2) \<and>
         fst (getDeposit cfg (depositId d) s2) =
           Inr (Some (d\<lparr>d_status := ''expired'', expiredAt := Some now, d_updatedAt := now\<rparr>)))"
proof -
  let ?xs = "visible cfg ''deposits'' s"
  let ?e = "expire now d"
  have e: "?e = d\<lparr>d_status := ''expired'', expiredAt := Some now, d_updatedAt := now\<rparr>"
    by (simp add: expire_def)
  from pending expiry have od: "overdue now d" by (simp add: overdue_def)
  obtain r s1 where C: "cleanupExpiredDeposits cfg gateway now s = (r, s1)"
    by (cases "cleanupExpiredDeposits cfg gateway now s")
  let ?f = "\<lambda>x. if depositId x \<in> depositId ` {d \<in> set ?xs. overdue now d}
                 then expire now x else x"
  from cleanupExpiredDeposits_effect [OF C] w obtain k where k: "r = Inr k"
    and ys: "visible cfg ''deposits'' s1 = map ?f ?xs" by blast
  have fid: "depositId (?f x) = depositId x" for x by (simp add: expire_id)
  have "find (\<lambda>i. depositId i = depositId d) (map ?f ?xs) = Some (?f d)"
    using find_map_key [of depositId ?f "depositId d" ?xs, OF fid] find_distinct [OF ids d]
    by simp
  moreover from d od have "?f d = ?e" by auto
  ultimately have g1: "fst (getDeposit cfg (depositId d) s1) = Inr (Some ?e)"
    by (simp add: getDeposit_find ys)
  have "map depositId (map ?f ?xs) = map depositId ?xs"
    by (rule map_key_preserved) (rule fid)
  with ids have ids1: "distinct (map depositId (visible cfg ''deposits'' s1))"
    unfolding ys by (simp only:)
  have e1: "?e \<in> set (visible cfg ''deposits'' s1)"
    using d od unfolding ys by force
  have again: "\<exists>k' s2. cleanupExpiredDeposits cfg gateway' now' (s1\<lparr>writes := w'\<rparr>) = (Inr k', s2) \<and>
         fst (getDeposit cfg (depositId d) s2) = Inr (Some ?e)" for gateway' now' w'
  proof -
    let ?s1' = "s1\<lparr>writes := w'\<rparr>"
    let ?ys = "visible cfg ''deposits'' s1"
    have v: "visible cfg ''deposits'' ?s1' = ?ys" by (rule visible_cong) simp_all
    obtain r2 s2 where C2: "cleanupExpiredDeposits cfg gateway' now' ?s1' = (r2, s2)"
      by (cases "cleanupExpiredDeposits cfg gateway' now' ?s1'")
    let ?zs = "visible cfg ''deposits'' s2"
    let ?R = "\<lambda>x y. y = x \<or>
          (depositId x \<in> depositId ` {d \<in> set ?ys. overdue now' d} \<and> y = expire now' x)"
    from cleanupExpiredDeposits_effect [OF C2] obtain k' where k': "r2 = Inr k'"
      and rel: "list_all2 ?R ?ys ?zs" unfolding v by blast
    from list_all2_in_set [OF rel e1] obtain y where y: "y \<in> set ?zs" "?R ?e y" by blast
    have "\<not> depositId ?e \<in> depositId ` {d \<in> set ?ys. overdue now' d}"
    proof
      assume "depositId ?e \<in> depositId ` {d \<in> set ?ys. overdue now' d}"
      then obtain d2 where d2: "d2 \<in> set ?ys" "overdue now' d2" "depositId d2 = depositId ?e"
        by auto
      from ids1 have "inj_on depositId (set ?ys)" by (simp add: distinct_map)
      from inj_onD [OF this d2(3) d2(1) e1] have "d2 = ?e" .
      with d2(2) show False by (simp add: overdue_def expire_def)
    qed
    with y have ez: "?e \<in> set ?zs" by auto
    have "map depositId ?zs = map depositId ?ys"
      using rel by (rule list_all2_map_key) (auto simp: expire_id)
    with ids1 have "distinct (map depositId ?zs)" by simp
    from find_distinct [OF this ez] have "fst (getDeposit cfg (depositId d) s2) = Inr (Some ?e)"
      by (simp add: getDeposit_find expire_id)
    with C2 k' show ?thesis by auto
  qed
  from C k g1 again show ?thesis unfolding e by blast
qed

theorem cleanupExpiredDeposits_once_witness:
  "\<exists>k s1. cleanupExpiredDeposits plain_cfg (\<lambda>ext. True) 100 (on_disk [deposit1, deposit2] []) =
       (Inr k, s1) \<and>
     fst (getDeposit plain_cfg ''D1'' s1) =
       Inr (Some (deposit1\<lparr>d_status := ''expired'', expiredAt := Some 100,
                    d_updatedAt := 100\<rparr>)) \<and>
     (\<forall>gateway' now' w'. \<exists>k' s2.
         cleanupExpiredDeposits plain_cfg gateway' now' (s1\<lparr>writes := w'\<rparr>) = (Inr k', s2) \<and>
         fst (getDeposit plain_cfg ''D1'' s2) =
           Inr (Some (deposit1\<lparr>d_status := ''expired'', expiredAt := Some 100,
                        d_updatedAt := 100\<rparr>)))"
proof -
  let ?s = "on_disk [deposit1, deposit2] [] :: deposit db"
  have v: "visible plain_cfg ''deposits'' ?s = [deposit1, deposit2]"
    by (rule visible_on_disk) (rule known_databases)
  have 1: "deposit1 \<in> set (visible plain_cfg ''deposits'' ?s)" unfolding v by simp
  have 2: "d_status deposit1 = ''pending''" by (simp add: deposit1_def)
  have 3: "d_expiresAt deposit1 = Some 50" by (simp add: deposit1_def)
  have 4: "(50::int) < 100" by simp
  have 5: "distinct (map depositId (visible plain_cfg ''deposits'' ?s))"
    unfolding v by (simp add: deposit1_def deposit2_def)
  have 6: "writes_ok plain_cfg ?s" by (simp add: writes_ok_def plain_cfg_def on_disk_def)
  have 7: "depositId deposit1 = ''D1''" by (simp add: deposit1_def)
  from cleanupExpiredDeposits_once [OF 1 2 3 4 5 6, of "\<lambda>ext. True"]
  show ?thesis unfolding 7 .
qed

text \<open>
  C2 as stated fails when the write of the deposits file fails: the run counts the
  deposit as cleaned, and the deposit is still \<open>pending\<close> afterwards.
\<close>

theorem cleanupExpiredDeposits_failed_write_counterexample:
  "fst (getDeposit plain_cfg ''D1'' (on_disk [deposit1] [False])) = Inr (Some deposit1) \<and>
   d_status deposit1 = ''pending'' \<and> d_expiresAt deposit1 = Some 50 \<and>
   fst (cleanupExpiredDeposits plain_cfg (\<lambda>ext. True) 100 (on_disk [deposit1] [False])) =
     Inr 1 \<and>
   fst (getDeposit plain_cfg ''D1''
         (snd (cleanupExpiredDeposits plain_cfg (\<lambda>ext. True) 100
                 (on_disk [deposit1] [False])))) = Inr (Some deposit1)"
  by (simp add: cleanupExpiredDeposits_def cleanupExpiredDeposits_try_def getDeposit_def
      findOne_def readData_def readData_try_def updateDeposit_def updateDeposit_try_def
      update_db_def update_db_try_def writeData_def writeData_try_def fs_writeJson_def
      try_catch_def on_disk_def plain_cfg_def databases_def deposit1_def)

subsection \<open>C3: order status transitions\<close>

text \<open>
  C3 (as amended). Orders are told apart by their \<open>orderId\<close>. Whatever happens to the
  writes: \<open>approveOrder\<close> changes only an order that is \<open>pending\<close>, to
  \<open>processing\<close>; \<open>cancelOrder\<close> changes only an order that is \<open>pending\<close> or
  \<open>processing\<close>, to \<open>cancelled\<close>; \<open>cleanupExpiredOrders\<close> changes only orders that
  are \<open>pending\<close>, to \<open>cancelled\<close>; every other order is left as it is. An order that
  \<open>completeOrder\<close> changes gets status \<open>completed\<close>, and one that \<open>rejectOrder\<close>
  changes gets status \<open>cancelled\<close>.
\<close>

theorem order_transitions:
  assumes ids: "distinct (map orderId (visible cfg ''orders'' s))"
  shows "list_all2 (\<lambda>x y. y = x \<or> (o_status x = ''pending'' \<and> o_status y = ''processing''))
           (visible cfg ''orders'' s)
           (visible cfg ''orders'' (snd (approveOrder cfg oid approvedBy now s))) \<and>
         list_all2 (\<lambda>x y. y = x \<or>
              ((o_status x = ''pending'' \<or> o_status x = ''processing'') \<and>
               o_status y = ''cancelled''))
           (visible cfg ''orders'' s)
           (visible cfg ''orders'' (snd (cancelOrder cfg oid reason now s))) \<and>
         list_all2 (\<lambda>x y. y = x \<or> (o_status x = ''pending'' \<and> o_status y = ''cancelled''))
           (visible cfg ''orders'' s)
           (visible cfg ''orders'' (snd (cleanupExpiredOrders cfg now s))) \<and>
         list_all2 (\<lambda>x y. y = x \<or> o_status y = ''completed'')
           (visible cfg ''orders'' s)
           (visible cfg ''orders'' (snd (completeOrder cfg oid now s))) \<and>
         list_all2 (\<lambda>x y. y = x \<or> o_status y = ''cancelled'')
           (visible cfg ''orders'' s)
           (visible cfg ''orders'' (snd (rejectOrder cfg oid reason rejectedBy now s)))"
proof (intro conjI)
  let ?xs = "visible cfg ''orders'' s"
  let ?q = "\<lambda>item. orderId item = oid"
  show "list_all2 (\<lambda>x y. y = x \<or> (o_status x = ''pending'' \<and> o_status y = ''processing''))
           ?xs (visible cfg ''orders'' (snd (approveOrder cfg oid approvedBy now s)))"
  proof -
    obtain r s' where A: "approveOrder cfg oid approvedBy now s = (r, s')"
      by (cases "approveOrder cfg oid approvedBy now s")
    let ?R = "\<lambda>x y. y = x \<or> (o_status x = ''pending'' \<and> o_status y = ''processing'')"
    have "list_all2 ?R ?xs (visible cfg ''orders'' s')"
    proof (cases "find ?q ?xs")
      case None
      with approveOrder_effect [OF A] have "same cfg ''orders'' s s'" by simp
      then show ?thesis by (rule same_rel) simp
    next
      case (Some order)
      show ?thesis
      proof (cases "o_status order = ''pending''")
        case False
        with Some approveOrder_effect [OF A] have "same cfg ''orders'' s s'" by simp
        then show ?thesis by (rule same_rel) simp
      next
        case True
        with Some approveOrder_effect [OF A]
        have "updated cfg ''orders'' ?q
                (\<lambda>item. item\<lparr>o_status := ''processing'', paymentStatus := ''paid'',
                  o_approvedBy := Some approvedBy, o_approvedAt := Some now,
                  o_updatedAt := now\<rparr>) s s'" by simp
        then show ?thesis
        proof (rule updated_rel)
          fix x assume "x \<in> set ?xs" "orderId x = oid"
          with found_only [OF ids Some] True have "o_status x = ''pending''" by auto
          then show "?R x (x\<lparr>o_status := ''processing'', paymentStatus := ''paid'',
                  o_approvedBy := Some approvedBy, o_approvedAt := Some now,
                  o_updatedAt := now\<rparr>)" by simp
        qed simp
      qed
    qed
    with A show ?thesis by simp
  qed
  show "list_all2 (\<lambda>x y. y = x \<or>
              ((o_status x = ''pending'' \<or> o_status x = ''processing'') \<and>
               o_status y = ''cancelled''))
           ?xs (visible cfg ''orders'' (snd (cancelOrder cfg oid reason now s)))"
  proof -
    obtain r s' where A: "cancelOrder cfg oid reason now s = (r, s')"
      by (cases "cancelOrder cfg oid reason now s")
    let ?R = "\<lambda>x y. y = x \<or>
              ((o_status x = ''pending'' \<or> o_status x = ''processing'') \<and>
               o_status y = ''cancelled'')"
    have "list_all2 ?R ?xs (visible cfg ''orders'' s')"
    proof (cases "find ?q ?xs")
      case None
      with cancelOrder_effect [OF A] have "same cfg ''orders'' s s'" by simp
      then show ?thesis by (rule same_rel) simp
    next
      case (Some order)
      show ?thesis
      proof (cases "o_status order = ''pending'' \<or> o_status order = ''processing''")
        case False
        with Some cancelOrder_effect [OF A] have "same cfg ''orders'' s s'" by simp
        then show ?thesis by (rule same_rel) simp
      next
        case True
        with Some cancelOrder_effect [OF A]
        have "updated cfg ''orders'' ?q
                (\<lambda>item. item\<lparr>o_status := ''cancelled'', cancellationReason := Some reason,
                  o_cancelledAt := Some now, o_updatedAt := now\<rparr>) s s'" by auto
        then show ?thesis
        proof (rule updated_rel)
          fix x assume "x \<in> set ?xs" "orderId x = oid"
          with found_only [OF ids Some] True
          have "o_status x = ''pending'' \<or> o_status x = ''processing''" by auto
          then show "?R x (x\<lparr>o_status := ''cancelled'', cancellationReason := Some reason,
                  o_cancelledAt := Some now, o_updatedAt := now\<rparr>)" by simp
        qed simp
      qed
    qed
    with A show ?thesis by simp
  qed
  show "list_all2 (\<lambda>x y. y = x \<or> (o_status x = ''pending'' \<and> o_status y = ''cancelled''))
           ?xs (visible cfg ''orders'' (snd (cleanupExpiredOrders cfg now s)))"
  proof -
    obtain r s' where A: "cleanupExpiredOrders cfg now s = (r, s')"
      by (cases "cleanupExpiredOrders cfg now s")
    from cleanupExpiredOrders_effect [OF A]
    have "list_all2 (\<lambda>x y. y = x \<or>
          (orderId x \<in> orderId ` {d \<in> set ?xs. overdue_order now d} \<and>
           y = cancel_expired now x)) ?xs (visible cfg ''orders'' s')" by simp
    then have "list_all2 (\<lambda>x y. y = x \<or> (o_status x = ''pending'' \<and> o_status y = ''cancelled''))
        ?xs (visible cfg ''orders'' s')"
    proof (rule list_all2_mono_set)
      fix x y
      assume x: "x \<in> set ?xs"
        and h: "y = x \<or> (orderId x \<in> orderId ` {d \<in> set ?xs. overdue_order now d} \<and>
           y = cancel_expired now x)"
      from h show "y = x \<or> (o_status x = ''pending'' \<and> o_status y = ''cancelled'')"
      proof
        assume "y = x" then show ?thesis by simp
      next
        assume a: "orderId x \<in> orderId ` {d \<in> set ?xs. overdue_order now d} \<and>
           y = cancel_expired now x"
        with overdue_only [OF ids x, of "overdue_order now"] have "overdue_order now x" by simp
        with a show ?thesis by (simp add: overdue_order_def cancel_expired_def)
      qed
    qed
    with A show ?thesis by simp
  qed
  show "list_all2 (\<lambda>x y. y = x \<or> o_status y = ''completed'')
           ?xs (visible cfg ''orders'' (snd (completeOrder cfg oid now s)))"
  proof -
    obtain r s' where A: "completeOrder cfg oid now s = (r, s')"
      by (cases "completeOrder cfg oid now s")
    have "list_all2 (\<lambda>x y. y = x \<or> o_status y = ''completed'') ?xs (visible cfg ''orders'' s')"
    proof (cases "find ?q ?xs")
      case None
      with completeOrder_effect [OF A] have "same cfg ''orders'' s s'" by simp
      then show ?thesis by (rule same_rel) simp
    next
      case (Some order)
      with completeOrder_effect [OF A]
      have "updated cfg ''orders'' ?q
                (\<lambda>item. item\<lparr>o_status := ''completed'', deliveryStatus := ''delivered'',
                  completedAt := Some now, o_updatedAt := now\<rparr>) s s'" by simp
      then show ?thesis by (rule updated_rel) simp_all
    qed
    with A show ?thesis by simp
  qed
  show "list_all2 (\<lambda>x y. y = x \<or> o_status y = ''cancelled'')
           ?xs (visible cfg ''orders'' (snd (rejectOrder cfg oid reason rejectedBy now s)))"
  proof -
    obtain r s' where A: "rejectOrder cfg oid reason rejectedBy now s = (r, s')"
      by (cases "rejectOrder cfg oid reason rejectedBy now s")
    have "list_all2 (\<lambda>x y. y = x \<or> o_status y = ''cancelled'') ?xs (visible cfg ''orders'' s')"
    proof (cases "find ?q ?xs")
      case None
      with rejectOrder_effect [OF A] have "same cfg ''orders'' s s'" by simp
      then show ?thesis by (rule same_rel) simp
    next
      case (Some order)
      with rejectOrder_effect [OF A]
      have "updated cfg ''orders'' ?q
                (\<lambda>item. item\<lparr>o_status := ''cancelled'', paymentStatus := ''refunded'',
                  o_rejectedBy := Some rejectedBy, o_rejectionReason := Some reason,
                  o_rejectedAt := Some now, o_updatedAt := now\<rparr>) s s'" by simp
      then show ?thesis by (rule updated_rel) simp_all
    qed
    with A show ?thesis by simp
  qed
qed

theorem order_transitions_witness:
  "list_all2 (\<lambda>x y. y = x \<or> (o_status x = ''pending'' \<and> o_status y = ''processing''))
     (visible plain_cfg ''orders'' (on_disk [order1, order2] []))
     (visible plain_cfg ''orders''
        (snd (approveOrder plain_cfg ''ORD-1'' 1 4000000 (on_disk [order1, order2] [])))) \<and>
   list_all2 (\<lambda>x y. y = x \<or>
        ((o_status x = ''pending'' \<or> o_status x = ''processing'') \<and> o_status y = ''cancelled''))
     (visible plain_cfg ''orders'' (on_disk [order1, order2] []))
     (visible plain_cfg ''orders''
        (snd (cancelOrder plain_cfg ''ORD-1'' ''no stock'' 4000000
                (on_disk [order1, order2] [])))) \<and>
   list_all2 (\<lambda>x y. y = x \<or> (o_status x = ''pending'' \<and> o_status y = ''cancelled''))
     (visible plain_cfg ''orders'' (on_disk [order1, order2] []))
     (visible plain_cfg ''orders''
        (snd (cleanupExpiredOrders plain_cfg 4000000 (on_disk [order1, order2] [])))) \<and>
   list_all2 (\<lambda>x y. y = x \<or> o_status y = ''completed'')
     (visible plain_cfg ''orders'' (on_disk [order1, order2] []))
     (visible plain_cfg ''orders''
        (snd (completeOrder plain_cfg ''ORD-1'' 4000000 (on_disk [order1, order2] [])))) \<and>
   list_all2 (\<lambda>x y. y = x \<or> o_status y = ''cancelled'')
     (visible plain_cfg ''orders'' (on_disk [order1, order2] []))
     (visible plain_cfg ''orders''
        (snd (rejectOrder plain_cfg ''ORD-1'' ''no stock'' 1 4000000 (on_disk [order1, order2] []))))"
proof -
  have "visible plain_cfg ''orders'' (on_disk [order1, order2] []) = [order1, order2]"
    by (rule visible_on_disk) (rule known_databases)
  then have "distinct (map orderId (visible plain_cfg ''orders'' (on_disk [order1, order2] [])))"
    by (simp add: order1_def order2_def)
  from order_transitions [OF this, where oid = "''ORD-1''" and approvedBy = 1
      and now = 4000000 and reason = "''no stock''" and rejectedBy = 1]
  show ?thesis .
qed

text \<open>
  C3 as stated fails: \<open>completeOrder\<close> takes the pending order straight to
  \<open>completed\<close>, and \<open>rejectOrder\<close> takes the completed order to \<open>cancelled\<close>.
\<close>

theorem order_transitions_counterexample:
  "map o_status (visible plain_cfg ''orders'' (on_disk [order1, order2] [])) =
     [''pending'', ''completed''] \<and>
   map o_status (visible plain_cfg ''orders''
     (snd (completeOrder plain_cfg ''ORD-1'' 100 (on_disk [order1, order2] [])))) =
     [''completed'', ''completed''] \<and>
   map o_status (visible plain_cfg ''orders''
     (snd (rejectOrder plain_cfg ''ORD-2'' ''late'' 1 100 (on_disk [order1, order2] [])))) =
     [''pending'', ''cancelled'']"
  by (simp add: visible_def peek_def items_of_def completeOrder_def completeOrder_try_def
      rejectOrder_def rejectOrder_try_def getOrder_def findOne_def readData_def
      readData_try_def updateOrder_def updateOrder_try_def update_db_def update_db_try_def
      writeData_def writeData_try_def fs_writeJson_def try_catch_def on_disk_def plain_cfg_def
      databases_def order1_def order2_def)

subsection \<open>C4: deposit status transitions\<close>

text \<open>
  C4 (as amended). Deposits are told apart by their \<open>depositId\<close>. Whatever happens to
  the writes: \<open>approveDeposit\<close> changes only a deposit that is \<open>pending\<close>, to
  \<open>completed\<close>, and \<open>cleanupExpiredDeposits\<close> changes only deposits that are
  \<open>pending\<close>, to \<open>expired\<close>; every other deposit is left as it is. A deposit that
  \<open>rejectDeposit\<close> changes gets status \<open>rejected\<close>, and one that the cancel branch of
  the callback handler changes gets status \<open>cancelled\<close>.
\<close>

theorem deposit_transitions:
  assumes ids: "distinct (map depositId (visible cfg ''deposits'' s))"
  shows "list_all2 (\<lambda>x y. y = x \<or> (d_status x = ''pending'' \<and> d_status y = ''completed''))
           (visible cfg ''deposits'' s)
           (visible cfg ''deposits'' (snd (approveDeposit cfg did approvedBy now s))) \<and>
         list_all2 (\<lambda>x y. y = x \<or> (d_status x = ''pending'' \<and> d_status y = ''expired''))
           (visible cfg ''deposits'' s)
           (visible cfg ''deposits'' (snd (cleanupExpiredDeposits cfg gateway now s))) \<and>
         list_all2 (\<lambda>x y. y = x \<or> d_status y = ''rejected'')
           (visible cfg ''deposits'' s)
           (visible cfg ''deposits'' (snd (rejectDeposit cfg did reason rejectedBy now s))) \<and>
         list_all2 (\<lambda>x y. y = x \<or> d_status y = ''cancelled'')
           (visible cfg ''deposits'' s)
           (visible cfg ''deposits''
              (snd (handleDepositActions_cancel cfg gateway ui_ok did now s)))"
proof (intro conjI)
  let ?xs = "visible cfg ''deposits'' s"
  let ?q = "\<lambda>item. depositId item = did"
  show "list_all2 (\<lambda>x y. y = x \<or> (d_status x = ''pending'' \<and> d_status y = ''completed''))
           ?xs (visible cfg ''deposits'' (snd (approveDeposit cfg did approvedBy now s)))"
  proof -
    obtain r s' where A: "approveDeposit cfg did approvedBy now s = (r, s')"
      by (cases "approveDeposit cfg did approvedBy now s")
    let ?R = "\<lambda>x y. y = x \<or> (d_status x = ''pending'' \<and> d_status y = ''completed'')"
    have "list_all2 ?R ?xs (visible cfg ''deposits'' s')"
    proof (cases "find ?q ?xs")
      case None
      with approveDeposit_effect [OF A] have "same cfg ''deposits'' s s'" by simp
      then show ?thesis by (rule same_rel) simp
    next
      case (Some deposit)
      show ?thesis
      proof (cases "d_status deposit = ''pending''")
        case False
        with Some approveDeposit_effect [OF A] have "same cfg ''deposits'' s s'" by simp
        then show ?thesis by (rule same_rel) simp
      next
        case True
        with Some approveDeposit_effect [OF A]
        have "updated cfg ''deposits'' ?q
                (\<lambda>item. item\<lparr>d_status := ''completed'', d_approvedBy := Some approvedBy,
                  d_approvedAt := Some now, d_updatedAt := now\<rparr>) s s'" by simp
        then show ?thesis
        proof (rule updated_rel)
          fix x assume "x \<in> set ?xs" "depositId x = did"
          with found_only [OF ids Some] True have "d_status x = ''pending''" by auto
          then show "?R x (x\<lparr>d_status := ''completed'', d_approvedBy := Some approvedBy,
                  d_approvedAt := Some now, d_updatedAt := now\<rparr>)" by simp
        qed simp
      qed
    qed
    with A show ?thesis by simp
  qed
  show "list_all2 (\<lambda>x y. y = x \<or> (d_status x = ''pending'' \<and> d_status y = ''expired''))
           ?xs (visible cfg ''deposits'' (snd (cleanupExpiredDeposits cfg gateway now s)))"
  proof -
    obtain r s' where A: "cleanupExpiredDeposits cfg gateway now s = (r, s')"
      by (cases "cleanupExpiredDeposits cfg gateway now s")
    from cleanupExpiredDeposits_effect [OF A]
    have "list_all2 (\<lambda>x y. y = x \<or>
          (depositId x \<in> depositId ` {d \<in> set ?xs. overdue now d} \<and>
           y = expire now x)) ?xs (visible cfg ''deposits'' s')" by simp
    then have "list_all2 (\<lambda>x y. y = x \<or> (d_status x = ''pending'' \<and> d_status y = ''expired''))
        ?xs (visible cfg ''deposits'' s')"
    proof (rule list_all2_mono_set)
      fix x y
      assume x: "x \<in> set ?xs"
        and h: "y = x \<or> (depositId x \<in> depositId ` {d \<in> set ?xs. overdue now d} \<and>
           y = expire now x)"
      from h show "y = x \<or> (d_status x = ''pending'' \<and> d_status y = ''expired'')"
      proof
        assume "y = x" then show ?thesis by simp
      next
        assume a: "depositId x \<in> depositId ` {d \<in> set ?xs. overdue now d} \<and>
           y = expire now x"
        with overdue_only [OF ids x, of "overdue now"] have "overdue now x" by simp
        with a show ?thesis by (simp add: overdue_def expire_def)
      qed
    qed
    with A show ?thesis by simp
  qed
  show "list_all2 (\<lambda>x y. y = x \<or> d_status y = ''rejected'')
           ?xs (visible cfg ''deposits'' (snd (rejectDeposit cfg did reason rejectedBy now s)))"
  proof -
    obtain r s' where A: "rejectDeposit cfg did reason rejectedBy now s = (r, s')"
      by (cases "rejectDeposit cfg did reason rejectedBy now s")
    have "list_all2 (\<lambda>x y. y = x \<or> d_status y = ''rejected'') ?xs (visible cfg ''deposits'' s')"
    proof (cases "find ?q ?xs")
      case None
      with rejectDeposit_effect [OF A] have "same cfg ''deposits'' s s'" by simp
      then show ?thesis by (rule same_rel) simp
    next
      case (Some deposit)
      with rejectDeposit_effect [OF A]
      have "updated cfg ''deposits'' ?q
                (\<lambda>item. item\<lparr>d_status := ''rejected'', d_rejectedBy := Some rejectedBy,
                  d_rejectionReason := Some reason, d_rejectedAt := Some now,
                  d_updatedAt := now\<rparr>) s s'" by simp
      then show ?thesis by (rule updated_rel) simp_all
    qed
    with A show ?thesis by simp
  qed
  show "list_all2 (\<lambda>x y. y = x \<or> d_status y = ''cancelled'')
           ?xs (visible cfg ''deposits''
              (snd (handleDepositActions_cancel cfg gateway ui_ok did now s)))"
  proof -
    obtain r s' where A: "handleDepositActions_cancel cfg gateway ui_ok did now s = (r, s')"
      by (cases "handleDepositActions_cancel cfg gateway ui_ok did now s")
    from handleDepositActions_cancel_effect [OF A]
    have "updated cfg ''deposits'' ?q
           (\<lambda>item. item\<lparr>d_status := ''cancelled'', d_cancelledAt := Some now,
                         d_updatedAt := now\<rparr>) s s'" by simp
    then have "list_all2 (\<lambda>x y. y = x \<or> d_status y = ''cancelled'')
        ?xs (visible cfg ''deposits'' s')"
      by (rule updated_rel) simp_all
    with A show ?thesis by simp
  qed
qed

theorem deposit_transitions_witness:
  "list_all2 (\<lambda>x y. y = x \<or> (d_status x = ''pending'' \<and> d_status y = ''completed''))
     (visible plain_cfg ''deposits'' (on_disk [deposit1, deposit2] []))
     (visible plain_cfg ''deposits''
        (snd (approveDeposit plain_cfg ''D1'' ''1'' 100 (on_disk [deposit1, deposit2] [])))) \<and>
   list_all2 (\<lambda>x y. y = x \<or> (d_status x = ''pending'' \<and> d_status y = ''expired''))
     (visible plain_cfg ''deposits'' (on_disk [deposit1, deposit2] []))
     (visible plain_cfg ''deposits''
        (snd (cleanupExpiredDeposits plain_cfg (\<lambda>ext. True) 100
                (on_disk [deposit1, deposit2] [])))) \<and>
   list_all2 (\<lambda>x y. y = x \<or> d_status y = ''rejected'')
     (visible plain_cfg ''deposits'' (on_disk [deposit1, deposit2] []))
     (visible plain_cfg ''deposits''
        (snd (rejectDeposit plain_cfg ''D1'' ''no proof'' ''1'' 100
                (on_disk [deposit1, deposit2] [])))) \<and>
   list_all2 (\<lambda>x y. y = x \<or> d_status y = ''cancelled'')
     (visible plain_cfg ''deposits'' (on_disk [deposit1, deposit2] []))
     (visible plain_cfg ''deposits''
        (snd (handleDepositActions_cancel plain_cfg (\<lambda>ext. True) True ''D1'' 100
                (on_disk [deposit1, deposit2] []))))"
proof -
  have "visible plain_cfg ''deposits'' (on_disk [deposit1, deposit2] []) = [deposit1, deposit2]"
    by (rule visible_on_disk) (rule known_databases)
  then have "distinct (map depositId
      (visible plain_cfg ''deposits'' (on_disk [deposit1, deposit2] [])))"
    by (simp add: deposit1_def deposit2_def)
  from deposit_transitions [OF this, where did = "''D1''" and approvedBy = "''1''"
      and now = 100 and reason = "''no proof''" and rejectedBy = "''1''"
      and gateway = "\<lambda>ext. True" and ui_ok = True]
  show ?thesis .
qed

text \<open>
  C4 as stated fails: \<open>rejectDeposit\<close> takes the completed deposit to \<open>rejected\<close>, and
  the cancel branch of the handler takes it to \<open>cancelled\<close>.
\<close>

theorem deposit_transitions_counterexample:
  "map d_status (visible plain_cfg ''deposits'' (on_disk [deposit1, deposit2] [])) =
     [''pending'', ''completed''] \<and>
   map d_status (visible plain_cfg ''deposits''
     (snd (rejectDeposit plain_cfg ''D2'' ''late'' ''1'' 100 (on_disk [deposit1, deposit2] [])))) =
     [''pending'', ''rejected''] \<and>
   map d_status (visible plain_cfg ''deposits''
     (snd (handleDepositActions_cancel plain_cfg (\<lambda>ext. True) True ''D2'' 100
             (on_disk [deposit1, deposit2] [])))) =
     [''pending'', ''cancelled'']"
  by (simp add: visible_def peek_def items_of_def rejectDeposit_def rejectDeposit_try_def
      handleDepositActions_cancel_def handleDepositActions_cancel_try_def
      cancelQRISPayment_def getDeposit_def findOne_def readData_def
      readData_try_def updateDeposit_def updateDeposit_try_def update_db_def update_db_try_def
      writeData_def writeData_try_def fs_writeJson_def try_catch_def on_disk_def plain_cfg_def
      databases_def deposit1_def deposit2_def)

subsection \<open>C5: order creation and balance deduction are not atomic\<close>

text \<open>
  C5. In the pay-with-balance branch, creating the order and deducting the balance are
  two separate calls, and the reply of \<open>updateBalance\<close> is not looked at. Let approval be
  required, the product and the user be found, the balance cover the price, the orders
  collection be an array whose writes go through, and let the next write of the users
  file fail. Then the handler ends normally, the new order is in the orders collection
  and in the orders file, marked \<open>paid\<close> and \<open>processing\<close>, and every stored balance,
  that of the buyer included, is what it was.
\<close>

theorem purchase_not_atomic:
  assumes approval: "REQUIRE_APPROVAL c"
    and P: "fst (getProduct (products_cfg c) productId (products w)) = Inr (Some product)"
    and U: "fst (getUser (users_cfg c) userId (users w)) = Inr (Some user)"
    and enough: "price product \<le> balance user"
    and arr: "peek (orders_cfg c) ''orders'' (orders w) = JArray os"
    and ow: "writes_ok (orders_cfg c) (orders w)"
    and uw: "\<not> write_ok (users_cfg c) (users w)"
  shows "\<exists>w'. handlePaymentActions_balance c ui_ok newId userId productId now w = (Inr (), w') \<and>
     visible (orders_cfg c) ''orders'' (orders w') =
       change (\<lambda>item. orderId item = newId)
         (\<lambda>item. item\<lparr>paymentStatus := ''paid'', o_status := ''processing'', o_updatedAt := now\<rparr>)
         (os @ [created_order newId userId (p_productId product) (price product) now]) \<and>
     disk (orders w') =
       Content (saveData (orders_cfg c) (JArray (visible (orders_cfg c) ''orders'' (orders w')))) \<and>
     map balance (visible (users_cfg c) ''users'' (users w')) =
       map balance (visible (users_cfg c) ''users'' (users w)) \<and>
     (\<exists>u'. fst (getUser (users_cfg c) userId (users w')) = Inr (Some u') \<and>
           balance u' = balance user)"
proof -
  let ?pc = "products_cfg c" and ?uc = "users_cfg c" and ?oc = "orders_cfg c"
  let ?order = "created_order newId userId (p_productId product) (price product) now"
  let ?qo = "\<lambda>item. orderId item = newId"
  let ?mo = "\<lambda>item. item\<lparr>paymentStatus := ''paid'', o_status := ''processing'',
                         o_updatedAt := now\<rparr>"
  let ?qu = "\<lambda>item. u_userId item = userId"
  \<comment> \<open>the two lookups\<close>
  obtain p1 where GP: "getProduct ?pc productId (products w) = (Inr (Some product), p1)"
    using P by (cases "getProduct ?pc productId (products w)") auto
  obtain u1 where GU: "getUser ?uc userId (users w) = (Inr (Some user), u1)"
    using U by (cases "getUser ?uc userId (users w)") auto
  from getUser_visible [of ?uc userId "users w"] GU
  have S1: "same ?uc ''users'' (users w) u1"
    and fu: "find ?qu (visible ?uc ''users'' (users w)) = Some user" by auto
  from S1 have v1: "visible ?uc ''users'' u1 = visible ?uc ''users'' (users w)"
    and uw1: "\<not> write_ok ?uc u1" using uw by (simp_all add: same_def write_ok_def)
  \<comment> \<open>the order is inserted\<close>
  from createOrder_ok [OF writes_ok_write_ok [OF ow] arr] obtain o1 where
    CO: "createOrder ?oc newId userId (p_productId product) (price product) now (orders w) =
           (Inr (Success ?order), o1)"
    and vo1: "visible ?oc ''orders'' o1 = os @ [?order]"
    and wo1: "writes o1 = tl (writes (orders w))" by blast
  have ow1: "writes_ok ?oc o1" using ow by (rule writes_ok_tl) (simp add: wo1)
  \<comment> \<open>the balance is not deducted\<close>
  obtain r2 u2 where UB: "updateBalance ?uc userId (price product) ''subtract'' now u1 = (r2, u2)"
    by (cases "updateBalance ?uc userId (price product) ''subtract'' now u1")
  from updateBalance_effect [OF UB] fu enough
  have r2: "r2 = Inr (Success (balance user - price product))"
    and E2: "updated ?uc ''users'' ?qu
        (\<lambda>item. item\<lparr>balance := balance user - price product, lastActivity := now,
                      u_updatedAt := now\<rparr>) u1 u2"
    unfolding v1 by simp_all
  from E2 uw1 have v2: "visible ?uc ''users'' u2 = visible ?uc ''users'' (users w)"
    unfolding v1 [symmetric] by (simp add: updated_def)
  \<comment> \<open>the order is marked as paid\<close>
  from update_db_updated [OF known_databases(3), of ?oc ?qo ?mo o1] obtain o2 where
    UO: "updateOrder ?oc newId
           (\<lambda>item. item\<lparr>paymentStatus := ''paid'', o_status := ''processing''\<rparr>) now o1 =
         (Inr (list_ex ?qo (visible ?oc ''orders'' o1)), o2)"
    and E3: "updated ?oc ''orders'' ?qo ?mo o1 o2"
    unfolding updateOrder_eq by auto
  have ex: "list_ex ?qo (visible ?oc ''orders'' o1)"
    unfolding vo1 by (simp add: created_order_def list_ex_iff)
  from E3 writes_ok_write_ok [OF ow1] ex
  have vo2: "visible ?oc ''orders'' o2 = change ?qo ?mo (os @ [?order])"
    and do2: "disk o2 = Content (saveData ?oc (JArray (change ?qo ?mo (os @ [?order]))))"
    unfolding vo1 [symmetric] by (simp_all add: updated_def)
  \<comment> \<open>the order counter of the user\<close>
  obtain r3 u3 where IO: "incrementOrderCount ?uc userId now u2 = (r3, u3)"
    by (cases "incrementOrderCount ?uc userId now u2")
  from incrementOrderCount_effect [OF IO] fu
  have r3: "r3 = Inr True"
    and E4: "updated ?uc ''users'' ?qu
        (\<lambda>item. item\<lparr>totalOrders_key :=
              Some ((case totalOrders_nested user of None \<Rightarrow> 0 | Some n \<Rightarrow> n) + 1),
            lastActivity := now, u_updatedAt := now\<rparr>) u2 u3"
    unfolding v2 by simp_all
  from updated_cases [OF E4]
  have b3: "map balance (visible ?uc ''users'' u3) = map balance (visible ?uc ''users'' (users w))"
    unfolding v2 by (auto simp: change_balance)
  let ?w' = "if ui_ok then w\<lparr>products := p1, users := u3, orders := o2\<rparr>
             else w\<lparr>products := p1, users := u2, orders := o2\<rparr>"
  have run: "handlePaymentActions_balance c ui_ok newId userId productId now w = (Inr (), ?w')"
    using approval GP GU enough CO UB r2 UO IO r3
    by (simp add: handlePaymentActions_balance_def handlePaymentActions_balance_try_def
        try_catch_def created_order_def)
  have o: "orders ?w' = o2" by simp
  have bal: "map balance (visible ?uc ''users'' (users ?w')) =
      map balance (visible ?uc ''users'' (users w))"
    using b3 v2 by simp
  have "\<exists>u'. fst (getUser ?uc userId (users ?w')) = Inr (Some u') \<and> balance u' = balance user"
  proof -
    let ?ys = "visible ?uc ''users'' (users ?w')"
    obtain s'' where G: "getUser ?uc userId (users ?w') = (Inr (find ?qu ?ys), s'')"
      using getUser_visible by blast
    have "?ys = visible ?uc ''users'' (users w) \<or>
          ?ys = change ?qu (\<lambda>item. item\<lparr>totalOrders_key :=
              Some ((case totalOrders_nested user of None \<Rightarrow> 0 | Some n \<Rightarrow> n) + 1),
            lastActivity := now, u_updatedAt := now\<rparr>) (visible ?uc ''users'' (users w))"
      using updated_cases [OF E4] v2 by auto
    then have "\<exists>u'. find ?qu ?ys = Some u' \<and> balance u' = balance user"
    proof
      assume "?ys = visible ?uc ''users'' (users w)"
      with fu show ?thesis by simp
    next
      assume a: "?ys = change ?qu (\<lambda>item. item\<lparr>totalOrders_key :=
              Some ((case totalOrders_nested user of None \<Rightarrow> 0 | Some n \<Rightarrow> n) + 1),
            lastActivity := now, u_updatedAt := now\<rparr>) (visible ?uc ''users'' (users w))"
      show ?thesis unfolding a using fu by (simp add: find_change)
    qed
    with G show ?thesis by auto
  qed
  with run vo2 do2 bal o show ?thesis
    by (intro exI [of _ ?w']) (simp only: simp_thms)
qed

theorem purchase_not_atomic_witness:
  "\<exists>w'. handlePaymentActions_balance configs0 True ''ORD-9'' 7 ''P1'' 100 world0 = (Inr (), w') \<and>
     map (\<lambda>item. (orderId item, o_userId item, o_amount item, paymentStatus item, o_status item))
       (visible plain_cfg ''orders'' (orders w')) =
       [(''ORD-2'', 8, 5000, ''paid'', ''completed''),
        (''ORD-9'', 7, 1000, ''paid'', ''processing'')] \<and>
     map balance (visible plain_cfg ''users'' (users w')) = [5000]"
proof -
  have 1: "REQUIRE_APPROVAL configs0" by (simp add: configs0_def)
  have 2: "fst (getProduct (products_cfg configs0) ''P1'' (products world0)) =
      Inr (Some product1)"
    by (simp add: configs0_def world0_def getProduct_example)
  have 3: "fst (getUser (users_cfg configs0) 7 (users world0)) = Inr (Some user1)"
    by (simp add: configs0_def world0_def getUser_example)
  have 4: "price product1 \<le> balance user1" by (simp add: product1_def user1_def)
  have 5: "peek (orders_cfg configs0) ''orders'' (orders world0) = JArray [order2]"
    by (simp add: configs0_def world0_def peek_def readData_def readData_try_def try_catch_def
        on_disk_def plain_cfg_def databases_def)
  have 6: "writes_ok (orders_cfg configs0) (orders world0)"
    by (simp add: configs0_def world0_def writes_ok_def plain_cfg_def on_disk_def)
  have 7: "\<not> write_ok (users_cfg configs0) (users world0)"
    by (simp add: configs0_def world0_def write_ok_def plain_cfg_def on_disk_def)
  have u: "visible plain_cfg ''users'' (users world0) = [user1]"
    unfolding world0_def by (simp add: visible_on_disk known_databases)
  from purchase_not_atomic [OF 1 2 3 4 5 6 7, of True "''ORD-9''" 100]
  obtain w' where
    "handlePaymentActions_balance configs0 True ''ORD-9'' 7 ''P1'' 100 world0 = (Inr (), w')"
    and "visible plain_cfg ''orders'' (orders w') =
       change (\<lambda>item. orderId item = ''ORD-9'')
         (\<lambda>item. item\<lparr>paymentStatus := ''paid'', o_status := ''processing'', o_updatedAt := 100\<rparr>)
         ([order2] @ [created_order ''ORD-9'' 7 (p_productId product1) (price product1) 100])"
    and "map balance (visible plain_cfg ''users'' (users w')) =
       map balance (visible plain_cfg ''users'' (users world0))"
    by (auto simp: configs0_def)
  then show ?thesis
    by (intro exI [of _ w'])
      (simp add: u change_def created_order_def order2_def product1_def user1_def)
qed

subsection \<open>C6: the encrypted round trip\<close>

text \<open>
  C6 (as amended). With encryption enabled, let the AES functions of the library undo each
  other under every key and IV they accept. \<open>writeData\<close> returns \<open>true\<close> or \<open>false\<close>.
  When it returns \<open>true\<close>, the file holds one string, the cipher text of the whole
  serialised collection under the key and the IV of the configuration; \<open>decrypt\<close>, which
  uses the same key and IV, gives the serialised collection back; \<open>readData\<close> returns the
  collection written from the cache; and with the cache cleared \<open>readData\<close> returns what
  \<open>JSON.parse\<close> makes of the serialised collection (the default data if that is a
  syntax error), which is the collection written whenever \<open>JSON.parse\<close> undoes
  \<open>JSON.stringify\<close> on it. When it returns \<open>false\<close>, file and cache are as before.
\<close>

theorem encrypted_roundtrip:
  assumes "ENCRYPTION cfg"
    and "\<forall>key iv text. aes_accepts cfg key iv \<longrightarrow>
           aes_decrypt cfg key iv (aes_encrypt cfg key iv text) = Some text"
  shows "\<exists>ok s1. writeData cfg dbName data s = (Inr ok, s1) \<and>
     (ok \<longrightarrow>
        disk s1 = Content (JString (aes_encrypt cfg (ENCRYPTION_KEY cfg) (ENCRYPTION_IV cfg)
                                      (stringify cfg data))) \<and>
        decrypt cfg (aes_encrypt cfg (ENCRYPTION_KEY cfg) (ENCRYPTION_IV cfg)
                       (stringify cfg data)) = Inr (stringify cfg data) \<and>
        readData cfg dbName s1 = (Inr data, s1) \<and>
        fst (readData cfg dbName (clearCache s1)) =
          Inr (case parse cfg (stringify cfg data) of
                 None \<Rightarrow> getDefaultData dbName
               | Some d \<Rightarrow> d) \<and>
        (parse cfg (stringify cfg data) = Some data \<longrightarrow>
           readData cfg dbName (clearCache s1) = (Inr data, s1))) \<and>
     (\<not> ok \<longrightarrow> disk s1 = disk s \<and> cache s1 = cache s)"
proof -
  let ?text = "stringify cfg data"
  let ?c = "aes_encrypt cfg (ENCRYPTION_KEY cfg) (ENCRYPTION_IV cfg) ?text"
  obtain ok s1 where W: "writeData cfg dbName data s = (Inr ok, s1)"
    using writeData_returns by blast
  have failed: "disk s1 = disk s \<and> cache s1 = cache s" if "\<not> ok"
    using writeData_effect(1) [OF W] that by auto
  have written: "disk s1 = Content (JString ?c) \<and> decrypt cfg ?c = Inr ?text \<and>
      readData cfg dbName s1 = (Inr data, s1) \<and>
      fst (readData cfg dbName (clearCache s1)) =
        Inr (case parse cfg ?text of None \<Rightarrow> getDefaultData dbName | Some d \<Rightarrow> d) \<and>
      (parse cfg ?text = Some data \<longrightarrow> readData cfg dbName (clearCache s1) = (Inr data, s1))"
    if ok
  proof -
    from W that have W': "writeData cfg dbName data s = (Inr True, s1)" by simp
    from writeData_true [OF W'] assms(1)
    have known: "dbName \<in> set databases" and k: "key_ok cfg" and c: "cache s1 = Some data"
      and d: "disk s1 = Content (JString ?c)"
      by (simp_all add: saveData_def cipher_def)
    from k assms(2) have dec: "decrypt cfg ?c = Inr ?text"
      by (simp add: decrypt_def decipher_def key_ok_def)
    have warm: "readData cfg dbName s1 = (Inr data, s1)" using c by (rule readData_hit)
    have cold: "readData cfg dbName (clearCache s1) =
        (case parse cfg ?text of
           None \<Rightarrow> (Inr (getDefaultData dbName), clearCache s1)
         | Some d \<Rightarrow> (Inr d, (clearCache s1)\<lparr>cache := Some d\<rparr>))"
      using assms(1) known d dec
      by (simp add: readData_def readData_try_def try_catch_def clearCache_def
          split: option.splits)
    have "(clearCache s1)\<lparr>cache := Some data\<rparr> = s1" using c by (simp add: clearCache_def)
    with cold have "parse cfg ?text = Some data \<longrightarrow>
        readData cfg dbName (clearCache s1) = (Inr data, s1)" by simp
    moreover from cold have "fst (readData cfg dbName (clearCache s1)) =
        Inr (case parse cfg ?text of None \<Rightarrow> getDefaultData dbName | Some d \<Rightarrow> d)"
      by (simp split: option.splits)
    ultimately show ?thesis using d dec warm by blast
  qed
  from W written failed show ?thesis by blast
qed

theorem encrypted_roundtrip_witness:
  "\<exists>s1. writeData numbers_cfg ''deposits'' (JArray [Num 20000, Null, Num (- 5)]) (on_disk [] []) =
          (Inr True, s1) \<and>
     disk s1 = Content (JString (ENCRYPTION_KEY numbers_cfg @ ENCRYPTION_IV numbers_cfg @
                                   rev ''[20000,null,-5]'')) \<and>
     readData numbers_cfg ''deposits'' s1 = (Inr (JArray [Num 20000, Null, Num (- 5)]), s1) \<and>
     readData numbers_cfg ''deposits'' (clearCache s1) =
       (Inr (JArray [Num 20000, Null, Num (- 5)]), s1)"
proof -
  let ?data = "JArray [Num 20000, Null, Num (- 5)]"
  have 1: "ENCRYPTION numbers_cfg" by (simp add: numbers_cfg_def)
  have 2: "\<forall>key iv text. aes_accepts numbers_cfg key iv \<longrightarrow>
      aes_decrypt numbers_cfg key iv (aes_encrypt numbers_cfg key iv text) = Some text"
    by (simp add: numbers_cfg_def example_encrypt_def example_decrypt_def)
  have t: "stringify numbers_cfg ?data = ''[20000,null,-5]''"
    by (simp add: numbers_cfg_def numbers_stringify_def number_text_def toString_def decimal.simps digit_def)
  have p: "parse numbers_cfg ''[20000,null,-5]'' = Some ?data"
    by (simp add: numbers_cfg_def numbers_parse_def read_number_def read_natural_def
        digit_value_def)
  have e: "aes_encrypt numbers_cfg = example_encrypt" by (simp add: numbers_cfg_def)
  have ok: "fst (writeData numbers_cfg ''deposits'' ?data (on_disk [] [])) = Inr True"
    by (simp add: writeData_def writeData_try_def try_catch_def fs_writeJson_def encrypt_def
        key_ok_def numbers_cfg_def example_accepts_def on_disk_def databases_def)
  from encrypted_roundtrip [OF 1 2, of "''deposits''" ?data "on_disk [] []"] ok
  show ?thesis unfolding t p e example_encrypt_def by auto
qed

text \<open>
  C6 as stated fails in two ways. When the write of the file fails, \<open>writeData\<close>
  returns \<open>false\<close> and a read returns the collection written before. And a collection
  that \<open>JSON.stringify\<close> does not represent exactly does not come back: an amount that is
  \<open>NaN\<close> is written as \<open>null\<close> and read back as \<open>null\<close> once the cache is empty.
\<close>

theorem encrypted_roundtrip_counterexample:
  "fst (writeData numbers_cfg ''deposits'' (JArray [Num 7])
          (snd (writeData numbers_cfg ''deposits'' (JArray [Num 1]) (on_disk [] [True, False])))) =
     Inr False \<and>
   fst (readData numbers_cfg ''deposits''
          (snd (writeData numbers_cfg ''deposits'' (JArray [Num 7])
             (snd (writeData numbers_cfg ''deposits'' (JArray [Num 1])
                (on_disk [] [True, False])))))) =
     Inr (JArray [Num 1]) \<and>
   fst (writeData numbers_cfg ''deposits'' (JArray [Num 20000, NaN]) (on_disk [] [])) = Inr True \<and>
   fst (readData numbers_cfg ''deposits''
          (clearCache (snd (writeData numbers_cfg ''deposits'' (JArray [Num 20000, NaN])
             (on_disk [] []))))) =
     Inr (JArray [Num 20000, Null])"
  by (simp add: writeData_def writeData_try_def readData_def readData_try_def try_catch_def
      fs_writeJson_def encrypt_def decrypt_def key_ok_def cipher_def decipher_def clearCache_def
      numbers_cfg_def example_accepts_def example_encrypt_def example_decrypt_def
      numbers_stringify_def number_text_def toString_def decimal.simps digit_def
      numbers_parse_def read_number_def read_natural_def digit_value_def
      on_disk_def databases_def)

subsection \<open>C7: exceptions do not leave the operations\<close>



subsection \<open>C8: the cache\<close>

text \<open>
  C8 (as amended). Take one DatabaseManager instance and a collection whose file no other
  instance writes, in a state where the cache entry, if any, is the data the file was last
  written from or the data last read from it. That is still so after \<open>readData\<close>,
  \<open>writeData\<close>, \<open>findOne\<close>, \<open>findMany\<close>, \<open>update\<close>, \<open>delete\<close>, \<open>initDatabase\<close> and
  \<open>clearCache\<close>, whether their writes go through or fail, and after \<open>insert\<close> when its
  write goes through. \<open>readData\<close> returns the cached value whenever the cache holds
  one, without looking at the file; and after a \<open>writeData\<close> that returned \<open>true\<close> the
  cache holds the data written, the file holds what is saved for it, and the next
  \<open>readData\<close> returns exactly that data.
\<close>

theorem cache_coherent:
  assumes "coherent cfg s"
  shows "coherent cfg (snd (readData cfg dbName s)) \<and>
         coherent cfg (snd (writeData cfg dbName data s)) \<and>
         coherent cfg (snd (findOne cfg dbName query s)) \<and>
         coherent cfg (snd (findMany cfg dbName query s)) \<and>
         coherent cfg (snd (update_db cfg dbName query merge s)) \<and>
         coherent cfg (snd (delete_db cfg dbName query s)) \<and>
         coherent cfg (snd (initDatabase cfg dbName dirs_ok s)) \<and>
         coherent cfg (clearCache s) \<and>
         (write_ok cfg s \<and> dbName \<in> set databases \<longrightarrow>
            coherent cfg (snd (insert_db cfg dbName touch item s))) \<and>
         (cache s = Some d \<longrightarrow> readData cfg dbName (s\<lparr>disk := f\<rparr>) = (Inr d, s\<lparr>disk := f\<rparr>)) \<and>
         (writeData cfg dbName data s = (Inr True, s1) \<longrightarrow>
            cache s1 = Some data \<and> disk s1 = Content (saveData cfg data) \<and>
            readData cfg dbName s1 = (Inr data, s1))"
proof -
  have 1: "coherent cfg (snd (readData cfg dbName s))"
    using assms by (rule coherent_readData) (rule surjective_pairing)
  have 2: "coherent cfg (snd (writeData cfg dbName data s))"
    using assms by (rule coherent_writeData) (rule surjective_pairing)
  have 3: "coherent cfg (clearCache s)" by (simp add: coherent_def clearCache_def)
  have 4: "coherent cfg (snd (insert_db cfg dbName touch item s))"
    if "write_ok cfg s \<and> dbName \<in> set databases"
    using assms that by (simp add: coherent_insert_db)
  have 5: "readData cfg dbName (s\<lparr>disk := f\<rparr>) = (Inr d, s\<lparr>disk := f\<rparr>)" if "cache s = Some d"
  proof -
    from that have "cache (s\<lparr>disk := f\<rparr>) = Some d" by simp
    then show ?thesis by (rule readData_hit)
  qed
  have 6: "cache s1 = Some data \<and> disk s1 = Content (saveData cfg data) \<and>
      readData cfg dbName s1 = (Inr data, s1)"
    if "writeData cfg dbName data s = (Inr True, s1)"
    using writeData_true(3,4) [OF that] by (simp add: readData_hit)
  from 1 2 3 4 5 6 coherent_findOne [OF assms] coherent_findMany [OF assms]
    coherent_update_db [OF assms] coherent_delete_db [OF assms] coherent_initDatabase [OF assms]
  show ?thesis by blast
qed

theorem cache_coherent_witness:
  "coherent plain_cfg (snd (update_db plain_cfg ''orders'' (\<lambda>item. orderId item = ''ORD-1'')
      (\<lambda>item. item\<lparr>o_status := ''processing''\<rparr>)
      ((on_disk [order1] [False])\<lparr>cache := Some (JArray [order1])\<rparr>))) \<and>
   cache (snd (update_db plain_cfg ''orders'' (\<lambda>item. orderId item = ''ORD-1'')
      (\<lambda>item. item\<lparr>o_status := ''processing''\<rparr>)
      ((on_disk [order1] [False])\<lparr>cache := Some (JArray [order1])\<rparr>))) =
     Some (JArray [order1]) \<and>
   coherent plain_cfg (snd (insert_db plain_cfg ''orders'' (\<lambda>item. item) order2
      ((on_disk [order1] [])\<lparr>cache := Some (JArray [order1])\<rparr>))) \<and>
   cache (snd (insert_db plain_cfg ''orders'' (\<lambda>item. item) order2
      ((on_disk [order1] [])\<lparr>cache := Some (JArray [order1])\<rparr>))) =
     Some (JArray [order1, order2]) \<and>
   readData plain_cfg ''orders''
     ((on_disk [order1] [])\<lparr>cache := Some (JArray [order1]), disk := Corrupt\<rparr>) =
     (Inr (JArray [order1]),
      (on_disk [order1] [])\<lparr>cache := Some (JArray [order1]), disk := Corrupt\<rparr>)"
proof -
  have c: "coherent plain_cfg ((on_disk [order1] w)\<lparr>cache := Some (JArray [order1])\<rparr>)" for w
    by (simp add: coherent_def on_disk_def saveData_def plain_cfg_def)
  have w: "write_ok plain_cfg ((on_disk [order1] [])\<lparr>cache := Some (JArray [order1])\<rparr>) \<and>
      ''orders'' \<in> set databases"
    by (simp add: write_ok_def plain_cfg_def on_disk_def databases_def)
  have u: "cache (snd (update_db plain_cfg ''orders'' (\<lambda>item. orderId item = ''ORD-1'')
      (\<lambda>item. item\<lparr>o_status := ''processing''\<rparr>)
      ((on_disk [order1] [False])\<lparr>cache := Some (JArray [order1])\<rparr>))) =
     Some (JArray [order1])"
    by (simp add: update_db_def update_db_try_def readData_def readData_try_def writeData_def
        writeData_try_def fs_writeJson_def try_catch_def on_disk_def plain_cfg_def
        databases_def order1_def)
  have i: "cache (snd (insert_db plain_cfg ''orders'' (\<lambda>item. item) order2
      ((on_disk [order1] [])\<lparr>cache := Some (JArray [order1])\<rparr>))) =
     Some (JArray [order1, order2])"
    by (simp add: insert_db_def insert_db_try_def readData_def readData_try_def writeData_def
        writeData_try_def fs_writeJson_def try_catch_def on_disk_def plain_cfg_def
        databases_def Let_def)
  have h: "cache ((on_disk [order1] [])\<lparr>cache := Some (JArray [order1])\<rparr>) =
      Some (JArray [order1])" by simp
  from cache_coherent [OF c [of "[False]"], where dbName = "''orders''"
      and query = "\<lambda>item. orderId item = ''ORD-1''"
      and merge = "\<lambda>item. item\<lparr>o_status := ''processing''\<rparr>"]
  have 1: "coherent plain_cfg (snd (update_db plain_cfg ''orders''
      (\<lambda>item. orderId item = ''ORD-1'') (\<lambda>item. item\<lparr>o_status := ''processing''\<rparr>)
      ((on_disk [order1] [False])\<lparr>cache := Some (JArray [order1])\<rparr>)))"
    by blast
  from cache_coherent [OF c [of "[]"], where dbName = "''orders''" and touch = "\<lambda>item. item"
      and item = order2 and d = "JArray [order1]" and f = Corrupt] w h
  have 2: "coherent plain_cfg (snd (insert_db plain_cfg ''orders'' (\<lambda>item. item) order2
      ((on_disk [order1] [])\<lparr>cache := Some (JArray [order1])\<rparr>))) \<and>
    readData plain_cfg ''orders''
     ((on_disk [order1] [])\<lparr>cache := Some (JArray [order1]), disk := Corrupt\<rparr>) =
     (Inr (JArray [order1]),
      (on_disk [order1] [])\<lparr>cache := Some (JArray [order1]), disk := Corrupt\<rparr>)"
    by blast
  from 1 u 2 i show ?thesis by blast
qed

text \<open>
  C8 as stated fails. In one instance, \<open>createOrder\<close> goes through \<open>insert\<close>, which
  pushes the new order onto the cached array before the write; when the write fails, the
  cache holds an order that was never written to the file nor read from it. Across
  instances (every manager makes its own DatabaseManager), the cache of an instance that
  has read the orders keeps the old collection after another instance has written the
  file.
\<close>

theorem cache_not_file_counterexample:
  "coherent plain_cfg (on_disk [order1] [False]) \<and>
   \<not> coherent plain_cfg
       (snd (createOrder plain_cfg ''ORD-3'' 8 ''P1'' 5000 100 (on_disk [order1] [False]))) \<and>
   map orderId (visible plain_cfg ''orders''
     (snd (createOrder plain_cfg ''ORD-3'' 8 ''P1'' 5000 100 (on_disk [order1] [False])))) =
     [''ORD-1'', ''ORD-3''] \<and>
   disk (snd (createOrder plain_cfg ''ORD-3'' 8 ''P1'' 5000 100 (on_disk [order1] [False]))) =
     Content (JArray [order1]) \<and>
   coherent plain_cfg (snd (readData plain_cfg ''orders'' (on_disk [order1] []))) \<and>
   \<not> coherent plain_cfg
       ((snd (readData plain_cfg ''orders'' (on_disk [order1] [])))
           \<lparr>disk := disk (snd (approveOrder plain_cfg ''ORD-1'' 1 100 (on_disk [order1] [])))\<rparr>) \<and>
   cache ((snd (readData plain_cfg ''orders'' (on_disk [order1] [])))
           \<lparr>disk := disk (snd (approveOrder plain_cfg ''ORD-1'' 1 100 (on_disk [order1] [])))\<rparr>) =
     Some (JArray [order1]) \<and>
   disk (snd (approveOrder plain_cfg ''ORD-1'' 1 100 (on_disk [order1] []))) =
     Content (JArray [order1\<lparr>o_status := ''processing'', paymentStatus := ''paid'',
        o_approvedBy := Some 1, o_approvedAt := Some 100, o_updatedAt := 100\<rparr>]) \<and>
   fst (readData plain_cfg ''orders''
          ((snd (readData plain_cfg ''orders'' (on_disk [order1] [])))
             \<lparr>disk := disk (snd (approveOrder plain_cfg ''ORD-1'' 1 100
                                    (on_disk [order1] [])))\<rparr>)) =
     Inr (JArray [order1])"
  by (simp add: visible_def peek_def items_of_def Let_def coherent_def loaded_def saveData_def
      createOrder_def createOrder_try_def insert_db_def insert_db_try_def
      approveOrder_def approveOrder_try_def getOrder_def findOne_def readData_def
      readData_try_def updateOrder_def updateOrder_try_def update_db_def update_db_try_def
      writeData_def writeData_try_def fs_writeJson_def try_catch_def on_disk_def plain_cfg_def
      databases_def order1_def order2_def)

subsection \<open>C9: subtracting from a balance\<close>

text \<open>
  C9 (as amended). Let \<open>getUser\<close> find a user. \<open>updateBalance\<close> with type \<open>subtract\<close>
  returns the failure reply \<open>Insufficient balance\<close> exactly when the stored balance is less
  than the amount, and then nothing changes. Otherwise it returns success with the old
  balance minus the amount, which is not negative. If the write of the users file goes
  through, the user found afterwards has that balance and the file holds the updated
  collection; if the write fails, the user found afterwards is the user as it was, and
  neither the collection nor the file has changed. Whether or not the write goes through,
  every user record is either as it was or has a balance that is not negative.
\<close>

theorem updateBalance_subtract:
  assumes "getUser cfg userId s = (Inr (Some user), s1)"
  shows "\<exists>r s'. updateBalance cfg userId amount ''subtract'' now s = (r, s') \<and>
     (balance user < amount \<longrightarrow>
        r = Inr (Failure ''Insufficient balance'') \<and>
        visible cfg ''users'' s' = visible cfg ''users'' s \<and> disk s' = disk s) \<and>
     (\<not> balance user < amount \<longrightarrow>
        r = Inr (Success (balance user - amount)) \<and> 0 \<le> balance user - amount \<and>
        (write_ok cfg s \<longrightarrow>
           (\<exists>s''. getUser cfg userId s' =
              (Inr (Some (user\<lparr>balance := balance user - amount, lastActivity := now,
                               u_updatedAt := now\<rparr>)), s'')) \<and>
           disk s' = Content (saveData cfg (JArray (visible cfg ''users'' s')))) \<and>
        (\<not> write_ok cfg s \<longrightarrow>
           (\<exists>s''. getUser cfg userId s' = (Inr (Some user), s'')) \<and>
           visible cfg ''users'' s' = visible cfg ''users'' s \<and> disk s' = disk s)) \<and>
     list_all2 (\<lambda>u u'. u' = u \<or> 0 \<le> balance u')
       (visible cfg ''users'' s) (visible cfg ''users'' s')"
proof -
  let ?q = "\<lambda>item. u_userId item = userId"
  let ?m = "\<lambda>item. item\<lparr>balance := balance user - amount, lastActivity := now,
                          u_updatedAt := now\<rparr>"
  let ?xs = "visible cfg ''users'' s"
  have found: "find ?q ?xs = Some user" using assms by (rule found_user)
  obtain r s' where A: "updateBalance cfg userId amount ''subtract'' now s = (r, s')"
    by (cases "updateBalance cfg userId amount ''subtract'' now s")
  obtain s'' where G: "getUser cfg userId s' = (Inr (find ?q (visible cfg ''users'' s')), s'')"
    using getUser_visible by blast
  note E = updateBalance_effect [OF A, unfolded found, simplified]
  show ?thesis
  proof (cases "balance user < amount")
    case True
    with E have r: "r = Inr (Failure ''Insufficient balance'')" and S: "same cfg ''users'' s s'"
      by simp_all
    from S have "list_all2 (\<lambda>u u'. u' = u \<or> 0 \<le> balance u') ?xs (visible cfg ''users'' s')"
      by (rule same_rel) simp
    with A r S True show ?thesis by (simp add: same_def)
  next
    case False
    with E have r: "r = Inr (Success (balance user - amount))"
      and U: "updated cfg ''users'' ?q ?m s s'" by simp_all
    from U have rel: "list_all2 (\<lambda>u u'. u' = u \<or> 0 \<le> balance u') ?xs (visible cfg ''users'' s')"
      by (rule updated_rel) (use False in simp_all)
    have ok: "(\<exists>s''. getUser cfg userId s' = (Inr (Some (?m user)), s'')) \<and>
           disk s' = Content (saveData cfg (JArray (visible cfg ''users'' s')))"
      if "write_ok cfg s"
    proof -
      from U that find_list_ex [OF found]
      have vis: "visible cfg ''users'' s' = change ?q ?m ?xs"
        and d: "disk s' = Content (saveData cfg (JArray (change ?q ?m ?xs)))"
        by (simp_all add: updated_def)
      have "find ?q (change ?q ?m ?xs) = Some (?m user)"
        using found by (simp add: find_change)
      with G vis d show ?thesis by auto
    qed
    have failed: "(\<exists>s''. getUser cfg userId s' = (Inr (Some user), s'')) \<and>
           visible cfg ''users'' s' = ?xs \<and> disk s' = disk s"
      if "\<not> write_ok cfg s"
    proof -
      from U that have vis: "visible cfg ''users'' s' = ?xs" and d: "disk s' = disk s"
        by (simp_all add: updated_def)
      with G found show ?thesis by auto
    qed
    from A r rel ok failed False show ?thesis by simp
  qed
qed

theorem updateBalance_subtract_witness:
  "(\<exists>r s'. updateBalance plain_cfg 7 9000 ''subtract'' 100 (on_disk [user1] []) = (r, s') \<and>
      r = Inr (Failure ''Insufficient balance'') \<and>
      visible plain_cfg ''users'' s' = visible plain_cfg ''users'' (on_disk [user1] []) \<and>
      disk s' = disk (on_disk [user1] [])) \<and>
   (\<exists>r s'. updateBalance plain_cfg 7 1000 ''subtract'' 100 (on_disk [user1] []) = (r, s') \<and>
      r = Inr (Success 4000) \<and>
      (\<exists>s''. getUser plain_cfg 7 s' =
         (Inr (Some (user1\<lparr>balance := 4000, lastActivity := 100, u_updatedAt := 100\<rparr>)), s'')) \<and>
      disk s' = Content (saveData plain_cfg (JArray (visible plain_cfg ''users'' s')))) \<and>
   (\<exists>r s'. updateBalance plain_cfg 7 1000 ''subtract'' 100 (on_disk [user1] [False]) = (r, s') \<and>
      r = Inr (Success 4000) \<and>
      (\<exists>s''. getUser plain_cfg 7 s' = (Inr (Some user1), s'')) \<and>
      visible plain_cfg ''users'' s' = visible plain_cfg ''users'' (on_disk [user1] [False]) \<and>
      disk s' = disk (on_disk [user1] [False]))"
proof -
  have b: "balance user1 = 5000" by (simp add: user1_def)
  have w: "write_ok plain_cfg (on_disk [user1] [])"
    by (simp add: write_ok_def plain_cfg_def on_disk_def)
  have f: "\<not> write_ok plain_cfg (on_disk [user1] [False])"
    by (simp add: write_ok_def plain_cfg_def on_disk_def)
  from updateBalance_subtract [OF getUser_example [of "[]"], where amount = 9000 and now = 100] b
  have 1: "\<exists>r s'. updateBalance plain_cfg 7 9000 ''subtract'' 100 (on_disk [user1] []) = (r, s') \<and>
      r = Inr (Failure ''Insufficient balance'') \<and>
      visible plain_cfg ''users'' s' = visible plain_cfg ''users'' (on_disk [user1] []) \<and>
      disk s' = disk (on_disk [user1] [])"
    by auto
  from updateBalance_subtract [OF getUser_example [of "[]"], where amount = 1000 and now = 100] b w
  have 2: "\<exists>r s'. updateBalance plain_cfg 7 1000 ''subtract'' 100 (on_disk [user1] []) = (r, s') \<and>
      r = Inr (Success 4000) \<and>
      (\<exists>s''. getUser plain_cfg 7 s' =
         (Inr (Some (user1\<lparr>balance := 4000, lastActivity := 100, u_updatedAt := 100\<rparr>)), s'')) \<and>
      disk s' = Content (saveData plain_cfg (JArray (visible plain_cfg ''users'' s')))"
    by auto
  from updateBalance_subtract [OF getUser_example [of "[False]"], where amount = 1000
      and now = 100] b f
  have 3: "\<exists>r s'. updateBalance plain_cfg 7 1000 ''subtract'' 100 (on_disk [user1] [False]) =
        (r, s') \<and>
      r = Inr (Success 4000) \<and>
      (\<exists>s''. getUser plain_cfg 7 s' = (Inr (Some user1), s'')) \<and>
      visible plain_cfg ''users'' s' = visible plain_cfg ''users'' (on_disk [user1] [False]) \<and>
      disk s' = disk (on_disk [user1] [False])"
    by auto
  from 1 2 3 show ?thesis by blast
qed

text \<open>
  C9 as stated fails when the write of the users file fails: \<open>updateBalance\<close> returns
  success with the new balance 4000, and the stored balance is still 5000.
\<close>

theorem updateBalance_failed_write_counterexample:
  "fst (getUser plain_cfg 7 (on_disk [user1] [False])) = Inr (Some user1) \<and>
   balance user1 = 5000 \<and>
   fst (updateBalance plain_cfg 7 1000 ''subtract'' 100 (on_disk [user1] [False])) =
     Inr (Success 4000) \<and>
   fst (getUser plain_cfg 7
         (snd (updateBalance plain_cfg 7 1000 ''subtract'' 100 (on_disk [user1] [False])))) =
     Inr (Some user1) \<and>
   disk (snd (updateBalance plain_cfg 7 1000 ''subtract'' 100 (on_disk [user1] [False]))) =
     Content (JArray [user1])"
  by (simp add: updateBalance_def updateBalance_try_def getUser_def findOne_def readData_def
      readData_try_def updateUser_def updateUser_try_def update_db_def update_db_try_def
      writeData_def writeData_try_def fs_writeJson_def try_catch_def on_disk_def plain_cfg_def
      databases_def user1_def)

subsection \<open>C10: stock stays non-negative\<close>

text \<open>
  C10 (as amended). Let \<open>getProduct\<close> find a product. \<open>incrementSalesCount\<close> returns
  \<open>true\<close>, and \<open>updateStock\<close> with operation \<open>subtract\<close> returns success with the new
  stock, the maximum of 0 and the decremented value (a missing stock counts as 0). If the
  write of the products file goes through, the product found afterwards carries that stock
  and the file holds the updated collection; if the write fails, the product found
  afterwards is the product as it was, and neither the collection nor the file has
  changed. Either way every record the operation changes carries the new stock, and
  every product whose stock was not negative before has a stock that is not negative after.
\<close>

theorem stock_never_below_zero:
  assumes "getProduct cfg productId s = (Inr (Some product), s1)"
  shows "(\<exists>s'. incrementSalesCount cfg productId now s = (Inr True, s') \<and>
            list_all2 (\<lambda>p p'. p' = p \<or> stock p' = Some (max 0 (or_zero (stock product) - 1)))
              (visible cfg ''products'' s) (visible cfg ''products'' s') \<and>
            list_all2 (\<lambda>p p'. 0 \<le> or_zero (stock p) \<longrightarrow> 0 \<le> or_zero (stock p'))
              (visible cfg ''products'' s) (visible cfg ''products'' s') \<and>
            (write_ok cfg s \<longrightarrow>
               fst (getProduct cfg productId s') =
                 Inr (Some (product\<lparr>totalSales := Some (or_zero (totalSales product) + 1),
                       stock := Some (max 0 (or_zero (stock product) - 1)),
                       p_updatedAt := now\<rparr>)) \<and>
               disk s' = Content (saveData cfg (JArray (visible cfg ''products'' s')))) \<and>
            (\<not> write_ok cfg s \<longrightarrow>
               fst (getProduct cfg productId s') = Inr (Some product) \<and>
               visible cfg ''products'' s' = visible cfg ''products'' s \<and> disk s' = disk s)) \<and>
         (\<exists>s'. updateStock cfg productId quantity ''subtract'' now s =
              (Inr (Success (max 0 (or_zero (stock product) - quantity))), s') \<and>
            list_all2 (\<lambda>p p'. p' = p \<or>
                  stock p' = Some (max 0 (or_zero (stock product) - quantity)))
              (visible cfg ''products'' s) (visible cfg ''products'' s') \<and>
            list_all2 (\<lambda>p p'. 0 \<le> or_zero (stock p) \<longrightarrow> 0 \<le> or_zero (stock p'))
              (visible cfg ''products'' s) (visible cfg ''products'' s') \<and>
            (write_ok cfg s \<longrightarrow>
               fst (getProduct cfg productId s') =
                 Inr (Some (product\<lparr>stock := Some (max 0 (or_zero (stock product) - quantity)),
                       p_updatedAt := now\<rparr>)) \<and>
               disk s' = Content (saveData cfg (JArray (visible cfg ''products'' s')))) \<and>
            (\<not> write_ok cfg s \<longrightarrow>
               fst (getProduct cfg productId s') = Inr (Some product) \<and>
               visible cfg ''products'' s' = visible cfg ''products'' s \<and> disk s' = disk s))"
proof (rule conjI)
  let ?q = "\<lambda>item. p_productId item = productId"
  let ?xs = "visible cfg ''products'' s"
  have found: "find ?q ?xs = Some product" using assms by (rule found_product)
  {
    let ?m = "\<lambda>item. item\<lparr>totalSales := Some (or_zero (totalSales product) + 1),
                stock := Some (max 0 (or_zero (stock product) - 1)), p_updatedAt := now\<rparr>"
    obtain r s' where A: "incrementSalesCount cfg productId now s = (r, s')"
      by (cases "incrementSalesCount cfg productId now s")
    obtain s'' where G:
      "getProduct cfg productId s' = (Inr (find ?q (visible cfg ''products'' s')), s'')"
      using getProduct_visible by blast
    from incrementSalesCount_effect [OF A, unfolded found, simplified]
    have r: "r = Inr True" and U: "updated cfg ''products'' ?q ?m s s'" by simp_all
    from U have rel1: "list_all2
        (\<lambda>p p'. p' = p \<or> stock p' = Some (max 0 (or_zero (stock product) - 1)))
        ?xs (visible cfg ''products'' s')"
      by (rule updated_rel) simp_all
    from U have rel2: "list_all2 (\<lambda>p p'. 0 \<le> or_zero (stock p) \<longrightarrow> 0 \<le> or_zero (stock p'))
        ?xs (visible cfg ''products'' s')"
      by (rule updated_rel) (simp_all add: or_zero_def)
    have ok: "fst (getProduct cfg productId s') = Inr (Some (?m product)) \<and>
        disk s' = Content (saveData cfg (JArray (visible cfg ''products'' s')))"
      if "write_ok cfg s"
    proof -
      from U that find_list_ex [OF found]
      have vis: "visible cfg ''products'' s' = change ?q ?m ?xs"
        and d: "disk s' = Content (saveData cfg (JArray (change ?q ?m ?xs)))"
        by (simp_all add: updated_def)
      moreover have "find ?q (change ?q ?m ?xs) = Some (?m product)"
        using found by (simp add: find_change)
      ultimately show ?thesis using G by simp
    qed
    have failed: "fst (getProduct cfg productId s') = Inr (Some product) \<and>
        visible cfg ''products'' s' = ?xs \<and> disk s' = disk s"
      if "\<not> write_ok cfg s"
    proof -
      from U that have "visible cfg ''products'' s' = ?xs" and "disk s' = disk s"
        by (simp_all add: updated_def)
      with G found show ?thesis by simp
    qed
    from A r rel1 rel2 ok failed
    show "\<exists>s'. incrementSalesCount cfg productId now s = (Inr True, s') \<and>
            list_all2 (\<lambda>p p'. p' = p \<or> stock p' = Some (max 0 (or_zero (stock product) - 1)))
              ?xs (visible cfg ''products'' s') \<and>
            list_all2 (\<lambda>p p'. 0 \<le> or_zero (stock p) \<longrightarrow> 0 \<le> or_zero (stock p'))
              ?xs (visible cfg ''products'' s') \<and>
            (write_ok cfg s \<longrightarrow>
               fst (getProduct cfg productId s') = Inr (Some (?m product)) \<and>
               disk s' = Content (saveData cfg (JArray (visible cfg ''products'' s')))) \<and>
            (\<not> write_ok cfg s \<longrightarrow>
               fst (getProduct cfg productId s') = Inr (Some product) \<and>
               visible cfg ''products'' s' = ?xs \<and> disk s' = disk s)"
      by blast
  }
  {
    let ?k = "max 0 (or_zero (stock product) - quantity)"
    let ?m = "\<lambda>item. item\<lparr>stock := Some ?k, p_updatedAt := now\<rparr>"
    obtain r s' where A: "updateStock cfg productId quantity ''subtract'' now s = (r, s')"
      by (cases "updateStock cfg productId quantity ''subtract'' now s")
    obtain s'' where G:
      "getProduct cfg productId s' = (Inr (find ?q (visible cfg ''products'' s')), s'')"
      using getProduct_visible by blast
    from updateStock_effect [OF A, unfolded found, simplified]
    have r: "r = Inr (Success ?k)" and U: "updated cfg ''products'' ?q ?m s s'" by simp_all
    from U have rel1: "list_all2 (\<lambda>p p'. p' = p \<or> stock p' = Some ?k)
        ?xs (visible cfg ''products'' s')"
      by (rule updated_rel) simp_all
    from U have rel2: "list_all2 (\<lambda>p p'. 0 \<le> or_zero (stock p) \<longrightarrow> 0 \<le> or_zero (stock p'))
        ?xs (visible cfg ''products'' s')"
      by (rule updated_rel) (simp_all add: or_zero_def)
    have ok: "fst (getProduct cfg productId s') = Inr (Some (?m product)) \<and>
        disk s' = Content (saveData cfg (JArray (visible cfg ''products'' s')))"
      if "write_ok cfg s"
    proof -
      from U that find_list_ex [OF found]
      have vis: "visible cfg ''products'' s' = change ?q ?m ?xs"
        and d: "disk s' = Content (saveData cfg (JArray (change ?q ?m ?xs)))"
        by (simp_all add: updated_def)
      moreover have "find ?q (change ?q ?m ?xs) = Some (?m product)"
        using found by (simp add: find_change)
      ultimately show ?thesis using G by simp
    qed
    have failed: "fst (getProduct cfg productId s') = Inr (Some product) \<and>
        visible cfg ''products'' s' = ?xs \<and> disk s' = disk s"
      if "\<not> write_ok cfg s"
    proof -
      from U that have "visible cfg ''products'' s' = ?xs" and "disk s' = disk s"
        by (simp_all add: updated_def)
      with G found show ?thesis by simp
    qed
    from A r rel1 rel2 ok failed
    show "\<exists>s'. updateStock cfg productId quantity ''subtract'' now s = (Inr (Success ?k), s') \<and>
            list_all2 (\<lambda>p p'. p' = p \<or> stock p' = Some ?k) ?xs (visible cfg ''products'' s') \<and>
            list_all2 (\<lambda>p p'. 0 \<le> or_zero (stock p) \<longrightarrow> 0 \<le> or_zero (stock p'))
              ?xs (visible cfg ''products'' s') \<and>
            (write_ok cfg s \<longrightarrow>
               fst (getProduct cfg productId s') = Inr (Some (?m product)) \<and>
               disk s' = Content (saveData cfg (JArray (visible cfg ''products'' s')))) \<and>
            (\<not> write_ok cfg s \<longrightarrow>
               fst (getProduct cfg productId s') = Inr (Some product) \<and>
               visible cfg ''products'' s' = ?xs \<and> disk s' = disk s)"
      by blast
  }
qed

theorem stock_never_below_zero_witness:
  "(\<exists>s'. incrementSalesCount plain_cfg ''P1'' 100 (on_disk [product1] []) = (Inr True, s') \<and>
      fst (getProduct plain_cfg ''P1'' s') =
        Inr (Some (product1\<lparr>totalSales := Some 5, stock := Some 0, p_updatedAt := 100\<rparr>)) \<and>
      disk s' = Content (saveData plain_cfg (JArray (visible plain_cfg ''products'' s')))) \<and>
   (\<exists>s'. updateStock plain_cfg ''P1'' 5 ''subtract'' 100 (on_disk [product1] []) =
        (Inr (Success 0), s') \<and>
      fst (getProduct plain_cfg ''P1'' s') =
        Inr (Some (product1\<lparr>stock := Some 0, p_updatedAt := 100\<rparr>)) \<and>
      disk s' = Content (saveData plain_cfg (JArray (visible plain_cfg ''products'' s')))) \<and>
   (\<exists>s'. updateStock plain_cfg ''P1'' 5 ''subtract'' 100 (on_disk [product1] [False]) =
        (Inr (Success 0), s') \<and>
      fst (getProduct plain_cfg ''P1'' s') = Inr (Some product1) \<and>
      disk s' = disk (on_disk [product1] [False]))"
proof -
  have w: "write_ok plain_cfg (on_disk [product1] [])"
    by (simp add: write_ok_def plain_cfg_def on_disk_def)
  have f: "\<not> write_ok plain_cfg (on_disk [product1] [False])"
    by (simp add: write_ok_def plain_cfg_def on_disk_def)
  have st: "or_zero (stock product1) = 1" "or_zero (totalSales product1) = 4"
    by (simp_all add: or_zero_def product1_def)
  from stock_never_below_zero [OF getProduct_example [of "[]"], where now = 100 and quantity = 5]
    w st
  have 1: "(\<exists>s'. incrementSalesCount plain_cfg ''P1'' 100 (on_disk [product1] []) = (Inr True, s') \<and>
      fst (getProduct plain_cfg ''P1'' s') =
        Inr (Some (product1\<lparr>totalSales := Some 5, stock := Some 0, p_updatedAt := 100\<rparr>)) \<and>
      disk s' = Content (saveData plain_cfg (JArray (visible plain_cfg ''products'' s')))) \<and>
   (\<exists>s'. updateStock plain_cfg ''P1'' 5 ''subtract'' 100 (on_disk [product1] []) =
        (Inr (Success 0), s') \<and>
      fst (getProduct plain_cfg ''P1'' s') =
        Inr (Some (product1\<lparr>stock := Some 0, p_updatedAt := 100\<rparr>)) \<and>
      disk s' = Content (saveData plain_cfg (JArray (visible plain_cfg ''products'' s'))))"
    by auto
  from stock_never_below_zero [OF getProduct_example [of "[False]"], where now = 100
      and quantity = 5] f st
  have 2: "\<exists>s'. updateStock plain_cfg ''P1'' 5 ''subtract'' 100 (on_disk [product1] [False]) =
        (Inr (Success 0), s') \<and>
      fst (getProduct plain_cfg ''P1'' s') = Inr (Some product1) \<and>
      disk s' = disk (on_disk [product1] [False])"
    by auto
  from 1 2 show ?thesis by blast
qed

text \<open>
  C10 as stated fails when the write of the products file fails: \<open>updateStock\<close> returns
  success with the new stock 0 and \<open>incrementSalesCount\<close> returns \<open>true\<close>, and the
  stored stock is still 1.
\<close>

theorem stock_failed_write_counterexample:
  "fst (getProduct plain_cfg ''P1'' (on_disk [product1] [False])) = Inr (Some product1) \<and>
   stock product1 = Some 1 \<and>
   fst (updateStock plain_cfg ''P1'' 5 ''subtract'' 100 (on_disk [product1] [False])) =
     Inr (Success 0) \<and>
   fst (getProduct plain_cfg ''P1''
         (snd (updateStock plain_cfg ''P1'' 5 ''subtract'' 100 (on_disk [product1] [False])))) =
     Inr (Some product1) \<and>
   disk (snd (updateStock plain_cfg ''P1'' 5 ''subtract'' 100 (on_disk [product1] [False]))) =
     Content (JArray [product1]) \<and>
   fst (incrementSalesCount plain_cfg ''P1'' 100 (on_disk [product1] [False])) = Inr True \<and>
   fst (getProduct plain_cfg ''P1''
         (snd (incrementSalesCount plain_cfg ''P1'' 100 (on_disk [product1] [False])))) =
     Inr (Some product1) \<and>
   disk (snd (incrementSalesCount plain_cfg ''P1'' 100 (on_disk [product1] [False]))) =
     Content (JArray [product1])"
  by (simp add: updateStock_def updateStock_try_def incrementSalesCount_def
      incrementSalesCount_try_def getProduct_def findOne_def readData_def
      readData_try_def updateProduct_def updateProduct_try_def update_db_def update_db_try_def
      writeData_def writeData_try_def fs_writeJson_def try_catch_def on_disk_def plain_cfg_def
      databases_def product1_def or_zero_def)

end
